theory Spec2Isabelle
  imports Main
begin

section \<open>MyNews: the feed pipeline of \<^verbatim>\<open>mynews/build.py\<close>\<close>

subsection \<open>Strings\<close>

text \<open>
  A Python \<^verbatim>\<open>str\<close> is a sequence of Unicode code points, and \<^verbatim>\<open>len\<close>, slicing and
  the regular expressions of the program count code points. A character is therefore
  modelled by its code point, a natural number, and a string by the list of them.
  \<open>ch\<close> and \<open>str\<close> turn an ASCII character and an ASCII literal of the source into
  this representation.
\<close>

type_synonym pychar = nat
type_synonym pystr = "nat list"

definition ch :: "char \<Rightarrow> pychar" where
  "ch c = of_char c"

definition str :: "string \<Rightarrow> pystr" where
  "str s = map ch s"

definition SPACE :: pychar where
  "SPACE = ch CHR '' ''"

subsection \<open>The data of the pipeline\<close>

text \<open>One dictionary of \<^verbatim>\<open>FEEDS\<close>.\<close>

record feed_config =
  name :: pystr
  slug :: pystr
  url :: pystr
  icon :: pystr
  color :: pystr
  max_items :: nat

text \<open>
  The first six fields of a \<^verbatim>\<open>time.struct_time\<close>, which is what \<^verbatim>\<open>date_parsed[:6]\<close>
  keeps, and a naive \<^verbatim>\<open>datetime\<close> (its microsecond is 0 throughout).
\<close>

record struct_time =
  tm_year :: int
  tm_mon :: int
  tm_mday :: int
  tm_hour :: int
  tm_min :: int
  tm_sec :: int

record datetime =
  year :: int
  month :: int
  day :: int
  hour :: int
  minute :: int
  second :: int

datatype error = ValueError

text \<open>
  What \<^verbatim>\<open>entry.get\<close> returns for the five keys that the program reads from an entry of
  the parsed feed: \<open>None\<close> for a key that the entry does not have.
\<close>

record entry =
  title_field :: "pystr option"
  link_field :: "pystr option"
  summary_field :: "pystr option"
  published_parsed :: "struct_time option"
  updated_parsed :: "struct_time option"

text \<open>The dictionary that \<^verbatim>\<open>fetch_feed\<close> builds for an entry.\<close>

record article =
  title :: pystr
  link :: pystr
  date :: pystr
  sort_key' :: int
  summary :: pystr
  source_name :: pystr
  source_slug :: pystr
  source_icon :: pystr
  source_color :: pystr

text \<open>
  What \<^verbatim>\<open>feedparser.parse\<close> returns, as far as it matters here: the entries it found, which
  is all that the program reads, and its \<^verbatim>\<open>bozo\<close> flag. The parser does not raise for a
  response that is not a well-formed feed: it sets the flag and returns the entries it
  could recover, none when the response is no feed at all.
\<close>

record parsed_feed =
  bozo :: bool
  entries :: "entry list"

text \<open>
  The outcome of the \<^verbatim>\<open>try\<close> block of \<^verbatim>\<open>fetch_feed\<close> (the request, reading the
  response and \<^verbatim>\<open>feedparser.parse\<close>): an exception with its message, or the parsed
  feed.
\<close>

datatype fetched = Failed pystr | Parsed parsed_feed

text \<open>
  What a run depends on outside the program: what fetching each URL gives, the local
  time zone, and the time at which the page is generated. The zone is given by its
  offset from UTC in seconds at each point in time (a number of seconds since the
  epoch), which is what \<^verbatim>\<open>time.localtime\<close> adds to it.
\<close>

record env =
  net :: "pystr \<Rightarrow> fetched"
  utcoffset :: "int \<Rightarrow> int"
  now :: datetime

text \<open>
  The output of a run: the lines printed to the standard output and to the standard
  error stream, and the files written.
\<close>

record io =
  stdout :: "pystr list"
  stderr :: "pystr list"
  files :: "pystr \<rightharpoonup> pystr"

text \<open>
  How the process ends: \<^verbatim>\<open>main\<close> returns, \<^verbatim>\<open>sys.exit\<close> is called, or an exception is not
  caught. The exit code of the process is 0 in the first case and 1 for an exception
  that is not caught. (The traceback that the interpreter prints for such an exception
  is not modelled.)
\<close>

datatype exit = Returned | SystemExit int | Uncaught error

subsection \<open>\<^verbatim>\<open>truncate\<close>\<close>

text \<open>
  \<^verbatim>\<open>s.rfind(c)\<close> for a one-character separator: the highest index holding \<open>c\<close>.
\<close>

fun rfind :: "pychar \<Rightarrow> pystr \<Rightarrow> nat option" where
  "rfind c [] = None"
| "rfind c (x # xs) =
     (case rfind c xs of
        Some i \<Rightarrow> Some (Suc i)
      | None \<Rightarrow> if x = c then Some 0 else None)"

text \<open>
  \<^verbatim>\<open>s.rsplit(c, 1)\<close>: one split at the last occurrence of the separator, and the
  whole string as the only part when the separator does not occur. The list that Python
  returns is never empty; it is given here as its first part (what \<^verbatim>\<open>[0]\<close> reads) and
  the list of the parts after it.
\<close>

definition rsplit1 :: "pychar \<Rightarrow> pystr \<Rightarrow> pystr \<times> pystr list" where
  "rsplit1 c s =
     (case rfind c s of
        None \<Rightarrow> (s, [])
      | Some i \<Rightarrow> (take i s, [drop (Suc i) s]))"

text \<open>
  \<^verbatim>\<open>
  def truncate(text, max_len=200):
      if len(text) <= max_len:
          return text
      return text[:max_len].rsplit(" ", 1)[0] + "..."
  \<close>
  \<open>MAX_LEN\<close> is the default of \<^verbatim>\<open>max_len\<close>, the only value the program uses.
\<close>

definition truncate :: "pystr \<Rightarrow> nat \<Rightarrow> pystr" where
  "truncate text max_len =
     (if length text \<le> max_len then text
      else fst (rsplit1 SPACE (take max_len text)) @ str ''...'')"

definition MAX_LEN :: nat where
  "MAX_LEN = 200"

subsection \<open>The named character references\<close>

text \<open>
  \<^verbatim>\<open>html.entities.html5\<close> of the Python standard library: the 2231 named character
  references of HTML 5, each name with the code points it stands for. Names are listed
  with and without the closing semicolon where the standard allows both. The table is
  split into blocks of 64 entries, in the library's own order.
\<close>

definition html5_entries_0 :: "(string \<times> pystr) list" where
  "html5_entries_0 =
    [(''Aacute'', [0xC1]),
     (''aacute'', [0xE1]),
     (''Aacute;'', [0xC1]),
     (''aacute;'', [0xE1]),
     (''Abreve;'', [0x102]),
     (''abreve;'', [0x103]),
     (''ac;'', [0x223E]),
     (''acd;'', [0x223F]),
     (''acE;'', [0x223E, 0x333]),
     (''Acirc'', [0xC2]),
     (''acirc'', [0xE2]),
     (''Acirc;'', [0xC2]),
     (''acirc;'', [0xE2]),
     (''acute'', [0xB4]),
     (''acute;'', [0xB4]),
     (''Acy;'', [0x410]),
     (''acy;'', [0x430]),
     (''AElig'', [0xC6]),
     (''aelig'', [0xE6]),
     (''AElig;'', [0xC6]),
     (''aelig;'', [0xE6]),
     (''af;'', [0x2061]),
     (''Afr;'', [0x1D504]),
     (''afr;'', [0x1D51E]),
     (''Agrave'', [0xC0]),
     (''agrave'', [0xE0]),
     (''Agrave;'', [0xC0]),
     (''agrave;'', [0xE0]),
     (''alefsym;'', [0x2135]),
     (''aleph;'', [0x2135]),
     (''Alpha;'', [0x391]),
     (''alpha;'', [0x3B1]),
     (''Amacr;'', [0x100]),
     (''amacr;'', [0x101]),
     (''amalg;'', [0x2A3F]),
     (''AMP'', [0x26]),
     (''amp'', [0x26]),
     (''AMP;'', [0x26]),
     (''amp;'', [0x26]),
     (''And;'', [0x2A53]),
     (''and;'', [0x2227]),
     (''andand;'', [0x2A55]),
     (''andd;'', [0x2A5C]),
     (''andslope;'', [0x2A58]),
     (''andv;'', [0x2A5A]),
     (''ang;'', [0x2220]),
     (''ange;'', [0x29A4]),
     (''angle;'', [0x2220]),
     (''angmsd;'', [0x2221]),
     (''angmsdaa;'', [0x29A8]),
     (''angmsdab;'', [0x29A9]),
     (''angmsdac;'', [0x29AA]),
     (''angmsdad;'', [0x29AB]),
     (''angmsdae;'', [0x29AC]),
     (''angmsdaf;'', [0x29AD]),
     (''angmsdag;'', [0x29AE]),
     (''angmsdah;'', [0x29AF]),
     (''angrt;'', [0x221F]),
     (''angrtvb;'', [0x22BE]),
     (''angrtvbd;'', [0x299D]),
     (''angsph;'', [0x2222]),
     (''angst;'', [0xC5]),
     (''angzarr;'', [0x237C]),
     (''Aogon;'', [0x104])]"

definition html5_entries_1 :: "(string \<times> pystr) list" where
  "html5_entries_1 =
    [(''aogon;'', [0x105]),
     (''Aopf;'', [0x1D538]),
     (''aopf;'', [0x1D552]),
     (''ap;'', [0x2248]),
     (''apacir;'', [0x2A6F]),
     (''apE;'', [0x2A70]),
     (''ape;'', [0x224A]),
     (''apid;'', [0x224B]),
     (''apos;'', [0x27]),
     (''ApplyFunction;'', [0x2061]),
     (''approx;'', [0x2248]),
     (''approxeq;'', [0x224A]),
     (''Aring'', [0xC5]),
     (''aring'', [0xE5]),
     (''Aring;'', [0xC5]),
     (''aring;'', [0xE5]),
     (''Ascr;'', [0x1D49C]),
     (''ascr;'', [0x1D4B6]),
     (''Assign;'', [0x2254]),
     (''ast;'', [0x2A]),
     (''asymp;'', [0x2248]),
     (''asympeq;'', [0x224D]),
     (''Atilde'', [0xC3]),
     (''atilde'', [0xE3]),
     (''Atilde;'', [0xC3]),
     (''atilde;'', [0xE3]),
     (''Auml'', [0xC4]),
     (''auml'', [0xE4]),
     (''Auml;'', [0xC4]),
     (''auml;'', [0xE4]),
     (''awconint;'', [0x2233]),
     (''awint;'', [0x2A11]),
     (''backcong;'', [0x224C]),
     (''backepsilon;'', [0x3F6]),
     (''backprime;'', [0x2035]),
     (''backsim;'', [0x223D]),
     (''backsimeq;'', [0x22CD]),
     (''Backslash;'', [0x2216]),
     (''Barv;'', [0x2AE7]),
     (''barvee;'', [0x22BD]),
     (''Barwed;'', [0x2306]),
     (''barwed;'', [0x2305]),
     (''barwedge;'', [0x2305]),
     (''bbrk;'', [0x23B5]),
     (''bbrktbrk;'', [0x23B6]),
     (''bcong;'', [0x224C]),
     (''Bcy;'', [0x411]),
     (''bcy;'', [0x431]),
     (''bdquo;'', [0x201E]),
     (''becaus;'', [0x2235]),
     (''Because;'', [0x2235]),
     (''because;'', [0x2235]),
     (''bemptyv;'', [0x29B0]),
     (''bepsi;'', [0x3F6]),
     (''bernou;'', [0x212C]),
     (''Bernoullis;'', [0x212C]),
     (''Beta;'', [0x392]),
     (''beta;'', [0x3B2]),
     (''beth;'', [0x2136]),
     (''between;'', [0x226C]),
     (''Bfr;'', [0x1D505]),
     (''bfr;'', [0x1D51F]),
     (''bigcap;'', [0x22C2]),
     (''bigcirc;'', [0x25EF])]"

definition html5_entries_2 :: "(string \<times> pystr) list" where
  "html5_entries_2 =
    [(''bigcup;'', [0x22C3]),
     (''bigodot;'', [0x2A00]),
     (''bigoplus;'', [0x2A01]),
     (''bigotimes;'', [0x2A02]),
     (''bigsqcup;'', [0x2A06]),
     (''bigstar;'', [0x2605]),
     (''bigtriangledown;'', [0x25BD]),
     (''bigtriangleup;'', [0x25B3]),
     (''biguplus;'', [0x2A04]),
     (''bigvee;'', [0x22C1]),
     (''bigwedge;'', [0x22C0]),
     (''bkarow;'', [0x290D]),
     (''blacklozenge;'', [0x29EB]),
     (''blacksquare;'', [0x25AA]),
     (''blacktriangle;'', [0x25B4]),
     (''blacktriangledown;'', [0x25BE]),
     (''blacktriangleleft;'', [0x25C2]),
     (''blacktriangleright;'', [0x25B8]),
     (''blank;'', [0x2423]),
     (''blk12;'', [0x2592]),
     (''blk14;'', [0x2591]),
     (''blk34;'', [0x2593]),
     (''block;'', [0x2588]),
     (''bne;'', [0x3D, 0x20E5]),
     (''bnequiv;'', [0x2261, 0x20E5]),
     (''bNot;'', [0x2AED]),
     (''bnot;'', [0x2310]),
     (''Bopf;'', [0x1D539]),
     (''bopf;'', [0x1D553]),
     (''bot;'', [0x22A5]),
     (''bottom;'', [0x22A5]),
     (''bowtie;'', [0x22C8]),
     (''boxbox;'', [0x29C9]),
     (''boxDL;'', [0x2557]),
     (''boxDl;'', [0x2556]),
     (''boxdL;'', [0x2555]),
     (''boxdl;'', [0x2510]),
     (''boxDR;'', [0x2554]),
     (''boxDr;'', [0x2553]),
     (''boxdR;'', [0x2552]),
     (''boxdr;'', [0x250C]),
     (''boxH;'', [0x2550]),
     (''boxh;'', [0x2500]),
     (''boxHD;'', [0x2566]),
     (''boxHd;'', [0x2564]),
     (''boxhD;'', [0x2565]),
     (''boxhd;'', [0x252C]),
     (''boxHU;'', [0x2569]),
     (''boxHu;'', [0x2567]),
     (''boxhU;'', [0x2568]),
     (''boxhu;'', [0x2534]),
     (''boxminus;'', [0x229F]),
     (''boxplus;'', [0x229E]),
     (''boxtimes;'', [0x22A0]),
     (''boxUL;'', [0x255D]),
     (''boxUl;'', [0x255C]),
     (''boxuL;'', [0x255B]),
     (''boxul;'', [0x2518]),
     (''boxUR;'', [0x255A]),
     (''boxUr;'', [0x2559]),
     (''boxuR;'', [0x2558]),
     (''boxur;'', [0x2514]),
     (''boxV;'', [0x2551]),
     (''boxv;'', [0x2502])]"

definition html5_entries_3 :: "(string \<times> pystr) list" where
  "html5_entries_3 =
    [(''boxVH;'', [0x256C]),
     (''boxVh;'', [0x256B]),
     (''boxvH;'', [0x256A]),
     (''boxvh;'', [0x253C]),
     (''boxVL;'', [0x2563]),
     (''boxVl;'', [0x2562]),
     (''boxvL;'', [0x2561]),
     (''boxvl;'', [0x2524]),
     (''boxVR;'', [0x2560]),
     (''boxVr;'', [0x255F]),
     (''boxvR;'', [0x255E]),
     (''boxvr;'', [0x251C]),
     (''bprime;'', [0x2035]),
     (''Breve;'', [0x2D8]),
     (''breve;'', [0x2D8]),
     (''brvbar'', [0xA6]),
     (''brvbar;'', [0xA6]),
     (''Bscr;'', [0x212C]),
     (''bscr;'', [0x1D4B7]),
     (''bsemi;'', [0x204F]),
     (''bsim;'', [0x223D]),
     (''bsime;'', [0x22CD]),
     (''bsol;'', [0x5C]),
     (''bsolb;'', [0x29C5]),
     (''bsolhsub;'', [0x27C8]),
     (''bull;'', [0x2022]),
     (''bullet;'', [0x2022]),
     (''bump;'', [0x224E]),
     (''bumpE;'', [0x2AAE]),
     (''bumpe;'', [0x224F]),
     (''Bumpeq;'', [0x224E]),
     (''bumpeq;'', [0x224F]),
     (''Cacute;'', [0x106]),
     (''cacute;'', [0x107]),
     (''Cap;'', [0x22D2]),
     (''cap;'', [0x2229]),
     (''capand;'', [0x2A44]),
     (''capbrcup;'', [0x2A49]),
     (''capcap;'', [0x2A4B]),
     (''capcup;'', [0x2A47]),
     (''capdot;'', [0x2A40]),
     (''CapitalDifferentialD;'', [0x2145]),
     (''caps;'', [0x2229, 0xFE00]),
     (''caret;'', [0x2041]),
     (''caron;'', [0x2C7]),
     (''Cayleys;'', [0x212D]),
     (''ccaps;'', [0x2A4D]),
     (''Ccaron;'', [0x10C]),
     (''ccaron;'', [0x10D]),
     (''Ccedil'', [0xC7]),
     (''ccedil'', [0xE7]),
     (''Ccedil;'', [0xC7]),
     (''ccedil;'', [0xE7]),
     (''Ccirc;'', [0x108]),
     (''ccirc;'', [0x109]),
     (''Cconint;'', [0x2230]),
     (''ccups;'', [0x2A4C]),
     (''ccupssm;'', [0x2A50]),
     (''Cdot;'', [0x10A]),
     (''cdot;'', [0x10B]),
     (''cedil'', [0xB8]),
     (''cedil;'', [0xB8]),
     (''Cedilla;'', [0xB8]),
     (''cemptyv;'', [0x29B2])]"

definition html5_entries_4 :: "(string \<times> pystr) list" where
  "html5_entries_4 =
    [(''cent'', [0xA2]),
     (''cent;'', [0xA2]),
     (''CenterDot;'', [0xB7]),
     (''centerdot;'', [0xB7]),
     (''Cfr;'', [0x212D]),
     (''cfr;'', [0x1D520]),
     (''CHcy;'', [0x427]),
     (''chcy;'', [0x447]),
     (''check;'', [0x2713]),
     (''checkmark;'', [0x2713]),
     (''Chi;'', [0x3A7]),
     (''chi;'', [0x3C7]),
     (''cir;'', [0x25CB]),
     (''circ;'', [0x2C6]),
     (''circeq;'', [0x2257]),
     (''circlearrowleft;'', [0x21BA]),
     (''circlearrowright;'', [0x21BB]),
     (''circledast;'', [0x229B]),
     (''circledcirc;'', [0x229A]),
     (''circleddash;'', [0x229D]),
     (''CircleDot;'', [0x2299]),
     (''circledR;'', [0xAE]),
     (''circledS;'', [0x24C8]),
     (''CircleMinus;'', [0x2296]),
     (''CirclePlus;'', [0x2295]),
     (''CircleTimes;'', [0x2297]),
     (''cirE;'', [0x29C3]),
     (''cire;'', [0x2257]),
     (''cirfnint;'', [0x2A10]),
     (''cirmid;'', [0x2AEF]),
     (''cirscir;'', [0x29C2]),
     (''ClockwiseContourIntegral;'', [0x2232]),
     (''CloseCurlyDoubleQuote;'', [0x201D]),
     (''CloseCurlyQuote;'', [0x2019]),
     (''clubs;'', [0x2663]),
     (''clubsuit;'', [0x2663]),
     (''Colon;'', [0x2237]),
     (''colon;'', [0x3A]),
     (''Colone;'', [0x2A74]),
     (''colone;'', [0x2254]),
     (''coloneq;'', [0x2254]),
     (''comma;'', [0x2C]),
     (''commat;'', [0x40]),
     (''comp;'', [0x2201]),
     (''compfn;'', [0x2218]),
     (''complement;'', [0x2201]),
     (''complexes;'', [0x2102]),
     (''cong;'', [0x2245]),
     (''congdot;'', [0x2A6D]),
     (''Congruent;'', [0x2261]),
     (''Conint;'', [0x222F]),
     (''conint;'', [0x222E]),
     (''ContourIntegral;'', [0x222E]),
     (''Copf;'', [0x2102]),
     (''copf;'', [0x1D554]),
     (''coprod;'', [0x2210]),
     (''Coproduct;'', [0x2210]),
     (''COPY'', [0xA9]),
     (''copy'', [0xA9]),
     (''COPY;'', [0xA9]),
     (''copy;'', [0xA9]),
     (''copysr;'', [0x2117]),
     (''CounterClockwiseContourIntegral;'', [0x2233]),
     (''crarr;'', [0x21B5])]"

definition html5_entries_5 :: "(string \<times> pystr) list" where
  "html5_entries_5 =
    [(''Cross;'', [0x2A2F]),
     (''cross;'', [0x2717]),
     (''Cscr;'', [0x1D49E]),
     (''cscr;'', [0x1D4B8]),
     (''csub;'', [0x2ACF]),
     (''csube;'', [0x2AD1]),
     (''csup;'', [0x2AD0]),
     (''csupe;'', [0x2AD2]),
     (''ctdot;'', [0x22EF]),
     (''cudarrl;'', [0x2938]),
     (''cudarrr;'', [0x2935]),
     (''cuepr;'', [0x22DE]),
     (''cuesc;'', [0x22DF]),
     (''cularr;'', [0x21B6]),
     (''cularrp;'', [0x293D]),
     (''Cup;'', [0x22D3]),
     (''cup;'', [0x222A]),
     (''cupbrcap;'', [0x2A48]),
     (''CupCap;'', [0x224D]),
     (''cupcap;'', [0x2A46]),
     (''cupcup;'', [0x2A4A]),
     (''cupdot;'', [0x228D]),
     (''cupor;'', [0x2A45]),
     (''cups;'', [0x222A, 0xFE00]),
     (''curarr;'', [0x21B7]),
     (''curarrm;'', [0x293C]),
     (''curlyeqprec;'', [0x22DE]),
     (''curlyeqsucc;'', [0x22DF]),
     (''curlyvee;'', [0x22CE]),
     (''curlywedge;'', [0x22CF]),
     (''curren'', [0xA4]),
     (''curren;'', [0xA4]),
     (''curvearrowleft;'', [0x21B6]),
     (''curvearrowright;'', [0x21B7]),
     (''cuvee;'', [0x22CE]),
     (''cuwed;'', [0x22CF]),
     (''cwconint;'', [0x2232]),
     (''cwint;'', [0x2231]),
     (''cylcty;'', [0x232D]),
     (''Dagger;'', [0x2021]),
     (''dagger;'', [0x2020]),
     (''daleth;'', [0x2138]),
     (''Darr;'', [0x21A1]),
     (''dArr;'', [0x21D3]),
     (''darr;'', [0x2193]),
     (''dash;'', [0x2010]),
     (''Dashv;'', [0x2AE4]),
     (''dashv;'', [0x22A3]),
     (''dbkarow;'', [0x290F]),
     (''dblac;'', [0x2DD]),
     (''Dcaron;'', [0x10E]),
     (''dcaron;'', [0x10F]),
     (''Dcy;'', [0x414]),
     (''dcy;'', [0x434]),
     (''DD;'', [0x2145]),
     (''dd;'', [0x2146]),
     (''ddagger;'', [0x2021]),
     (''ddarr;'', [0x21CA]),
     (''DDotrahd;'', [0x2911]),
     (''ddotseq;'', [0x2A77]),
     (''deg'', [0xB0]),
     (''deg;'', [0xB0]),
     (''Del;'', [0x2207]),
     (''Delta;'', [0x394])]"

definition html5_entries_6 :: "(string \<times> pystr) list" where
  "html5_entries_6 =
    [(''delta;'', [0x3B4]),
     (''demptyv;'', [0x29B1]),
     (''dfisht;'', [0x297F]),
     (''Dfr;'', [0x1D507]),
     (''dfr;'', [0x1D521]),
     (''dHar;'', [0x2965]),
     (''dharl;'', [0x21C3]),
     (''dharr;'', [0x21C2]),
     (''DiacriticalAcute;'', [0xB4]),
     (''DiacriticalDot;'', [0x2D9]),
     (''DiacriticalDoubleAcute;'', [0x2DD]),
     (''DiacriticalGrave;'', [0x60]),
     (''DiacriticalTilde;'', [0x2DC]),
     (''diam;'', [0x22C4]),
     (''Diamond;'', [0x22C4]),
     (''diamond;'', [0x22C4]),
     (''diamondsuit;'', [0x2666]),
     (''diams;'', [0x2666]),
     (''die;'', [0xA8]),
     (''DifferentialD;'', [0x2146]),
     (''digamma;'', [0x3DD]),
     (''disin;'', [0x22F2]),
     (''div;'', [0xF7]),
     (''divide'', [0xF7]),
     (''divide;'', [0xF7]),
     (''divideontimes;'', [0x22C7]),
     (''divonx;'', [0x22C7]),
     (''DJcy;'', [0x402]),
     (''djcy;'', [0x452]),
     (''dlcorn;'', [0x231E]),
     (''dlcrop;'', [0x230D]),
     (''dollar;'', [0x24]),
     (''Dopf;'', [0x1D53B]),
     (''dopf;'', [0x1D555]),
     (''Dot;'', [0xA8]),
     (''dot;'', [0x2D9]),
     (''DotDot;'', [0x20DC]),
     (''doteq;'', [0x2250]),
     (''doteqdot;'', [0x2251]),
     (''DotEqual;'', [0x2250]),
     (''dotminus;'', [0x2238]),
     (''dotplus;'', [0x2214]),
     (''dotsquare;'', [0x22A1]),
     (''doublebarwedge;'', [0x2306]),
     (''DoubleContourIntegral;'', [0x222F]),
     (''DoubleDot;'', [0xA8]),
     (''DoubleDownArrow;'', [0x21D3]),
     (''DoubleLeftArrow;'', [0x21D0]),
     (''DoubleLeftRightArrow;'', [0x21D4]),
     (''DoubleLeftTee;'', [0x2AE4]),
     (''DoubleLongLeftArrow;'', [0x27F8]),
     (''DoubleLongLeftRightArrow;'', [0x27FA]),
     (''DoubleLongRightArrow;'', [0x27F9]),
     (''DoubleRightArrow;'', [0x21D2]),
     (''DoubleRightTee;'', [0x22A8]),
     (''DoubleUpArrow;'', [0x21D1]),
     (''DoubleUpDownArrow;'', [0x21D5]),
     (''DoubleVerticalBar;'', [0x2225]),
     (''DownArrow;'', [0x2193]),
     (''Downarrow;'', [0x21D3]),
     (''downarrow;'', [0x2193]),
     (''DownArrowBar;'', [0x2913]),
     (''DownArrowUpArrow;'', [0x21F5]),
     (''DownBreve;'', [0x311])]"

definition html5_entries_7 :: "(string \<times> pystr) list" where
  "html5_entries_7 =
    [(''downdownarrows;'', [0x21CA]),
     (''downharpoonleft;'', [0x21C3]),
     (''downharpoonright;'', [0x21C2]),
     (''DownLeftRightVector;'', [0x2950]),
     (''DownLeftTeeVector;'', [0x295E]),
     (''DownLeftVector;'', [0x21BD]),
     (''DownLeftVectorBar;'', [0x2956]),
     (''DownRightTeeVector;'', [0x295F]),
     (''DownRightVector;'', [0x21C1]),
     (''DownRightVectorBar;'', [0x2957]),
     (''DownTee;'', [0x22A4]),
     (''DownTeeArrow;'', [0x21A7]),
     (''drbkarow;'', [0x2910]),
     (''drcorn;'', [0x231F]),
     (''drcrop;'', [0x230C]),
     (''Dscr;'', [0x1D49F]),
     (''dscr;'', [0x1D4B9]),
     (''DScy;'', [0x405]),
     (''dscy;'', [0x455]),
     (''dsol;'', [0x29F6]),
     (''Dstrok;'', [0x110]),
     (''dstrok;'', [0x111]),
     (''dtdot;'', [0x22F1]),
     (''dtri;'', [0x25BF]),
     (''dtrif;'', [0x25BE]),
     (''duarr;'', [0x21F5]),
     (''duhar;'', [0x296F]),
     (''dwangle;'', [0x29A6]),
     (''DZcy;'', [0x40F]),
     (''dzcy;'', [0x45F]),
     (''dzigrarr;'', [0x27FF]),
     (''Eacute'', [0xC9]),
     (''eacute'', [0xE9]),
     (''Eacute;'', [0xC9]),
     (''eacute;'', [0xE9]),
     (''easter;'', [0x2A6E]),
     (''Ecaron;'', [0x11A]),
     (''ecaron;'', [0x11B]),
     (''ecir;'', [0x2256]),
     (''Ecirc'', [0xCA]),
     (''ecirc'', [0xEA]),
     (''Ecirc;'', [0xCA]),
     (''ecirc;'', [0xEA]),
     (''ecolon;'', [0x2255]),
     (''Ecy;'', [0x42D]),
     (''ecy;'', [0x44D]),
     (''eDDot;'', [0x2A77]),
     (''Edot;'', [0x116]),
     (''eDot;'', [0x2251]),
     (''edot;'', [0x117]),
     (''ee;'', [0x2147]),
     (''efDot;'', [0x2252]),
     (''Efr;'', [0x1D508]),
     (''efr;'', [0x1D522]),
     (''eg;'', [0x2A9A]),
     (''Egrave'', [0xC8]),
     (''egrave'', [0xE8]),
     (''Egrave;'', [0xC8]),
     (''egrave;'', [0xE8]),
     (''egs;'', [0x2A96]),
     (''egsdot;'', [0x2A98]),
     (''el;'', [0x2A99]),
     (''Element;'', [0x2208]),
     (''elinters;'', [0x23E7])]"

definition html5_entries_8 :: "(string \<times> pystr) list" where
  "html5_entries_8 =
    [(''ell;'', [0x2113]),
     (''els;'', [0x2A95]),
     (''elsdot;'', [0x2A97]),
     (''Emacr;'', [0x112]),
     (''emacr;'', [0x113]),
     (''empty;'', [0x2205]),
     (''emptyset;'', [0x2205]),
     (''EmptySmallSquare;'', [0x25FB]),
     (''emptyv;'', [0x2205]),
     (''EmptyVerySmallSquare;'', [0x25AB]),
     (''emsp13;'', [0x2004]),
     (''emsp14;'', [0x2005]),
     (''emsp;'', [0x2003]),
     (''ENG;'', [0x14A]),
     (''eng;'', [0x14B]),
     (''ensp;'', [0x2002]),
     (''Eogon;'', [0x118]),
     (''eogon;'', [0x119]),
     (''Eopf;'', [0x1D53C]),
     (''eopf;'', [0x1D556]),
     (''epar;'', [0x22D5]),
     (''eparsl;'', [0x29E3]),
     (''eplus;'', [0x2A71]),
     (''epsi;'', [0x3B5]),
     (''Epsilon;'', [0x395]),
     (''epsilon;'', [0x3B5]),
     (''epsiv;'', [0x3F5]),
     (''eqcirc;'', [0x2256]),
     (''eqcolon;'', [0x2255]),
     (''eqsim;'', [0x2242]),
     (''eqslantgtr;'', [0x2A96]),
     (''eqslantless;'', [0x2A95]),
     (''Equal;'', [0x2A75]),
     (''equals;'', [0x3D]),
     (''EqualTilde;'', [0x2242]),
     (''equest;'', [0x225F]),
     (''Equilibrium;'', [0x21CC]),
     (''equiv;'', [0x2261]),
     (''equivDD;'', [0x2A78]),
     (''eqvparsl;'', [0x29E5]),
     (''erarr;'', [0x2971]),
     (''erDot;'', [0x2253]),
     (''Escr;'', [0x2130]),
     (''escr;'', [0x212F]),
     (''esdot;'', [0x2250]),
     (''Esim;'', [0x2A73]),
     (''esim;'', [0x2242]),
     (''Eta;'', [0x397]),
     (''eta;'', [0x3B7]),
     (''ETH'', [0xD0]),
     (''eth'', [0xF0]),
     (''ETH;'', [0xD0]),
     (''eth;'', [0xF0]),
     (''Euml'', [0xCB]),
     (''euml'', [0xEB]),
     (''Euml;'', [0xCB]),
     (''euml;'', [0xEB]),
     (''euro;'', [0x20AC]),
     (''excl;'', [0x21]),
     (''exist;'', [0x2203]),
     (''Exists;'', [0x2203]),
     (''expectation;'', [0x2130]),
     (''ExponentialE;'', [0x2147]),
     (''exponentiale;'', [0x2147])]"

definition html5_entries_9 :: "(string \<times> pystr) list" where
  "html5_entries_9 =
    [(''fallingdotseq;'', [0x2252]),
     (''Fcy;'', [0x424]),
     (''fcy;'', [0x444]),
     (''female;'', [0x2640]),
     (''ffilig;'', [0xFB03]),
     (''fflig;'', [0xFB00]),
     (''ffllig;'', [0xFB04]),
     (''Ffr;'', [0x1D509]),
     (''ffr;'', [0x1D523]),
     (''filig;'', [0xFB01]),
     (''FilledSmallSquare;'', [0x25FC]),
     (''FilledVerySmallSquare;'', [0x25AA]),
     (''fjlig;'', [0x66, 0x6A]),
     (''flat;'', [0x266D]),
     (''fllig;'', [0xFB02]),
     (''fltns;'', [0x25B1]),
     (''fnof;'', [0x192]),
     (''Fopf;'', [0x1D53D]),
     (''fopf;'', [0x1D557]),
     (''ForAll;'', [0x2200]),
     (''forall;'', [0x2200]),
     (''fork;'', [0x22D4]),
     (''forkv;'', [0x2AD9]),
     (''Fouriertrf;'', [0x2131]),
     (''fpartint;'', [0x2A0D]),
     (''frac12'', [0xBD]),
     (''frac12;'', [0xBD]),
     (''frac13;'', [0x2153]),
     (''frac14'', [0xBC]),
     (''frac14;'', [0xBC]),
     (''frac15;'', [0x2155]),
     (''frac16;'', [0x2159]),
     (''frac18;'', [0x215B]),
     (''frac23;'', [0x2154]),
     (''frac25;'', [0x2156]),
     (''frac34'', [0xBE]),
     (''frac34;'', [0xBE]),
     (''frac35;'', [0x2157]),
     (''frac38;'', [0x215C]),
     (''frac45;'', [0x2158]),
     (''frac56;'', [0x215A]),
     (''frac58;'', [0x215D]),
     (''frac78;'', [0x215E]),
     (''frasl;'', [0x2044]),
     (''frown;'', [0x2322]),
     (''Fscr;'', [0x2131]),
     (''fscr;'', [0x1D4BB]),
     (''gacute;'', [0x1F5]),
     (''Gamma;'', [0x393]),
     (''gamma;'', [0x3B3]),
     (''Gammad;'', [0x3DC]),
     (''gammad;'', [0x3DD]),
     (''gap;'', [0x2A86]),
     (''Gbreve;'', [0x11E]),
     (''gbreve;'', [0x11F]),
     (''Gcedil;'', [0x122]),
     (''Gcirc;'', [0x11C]),
     (''gcirc;'', [0x11D]),
     (''Gcy;'', [0x413]),
     (''gcy;'', [0x433]),
     (''Gdot;'', [0x120]),
     (''gdot;'', [0x121]),
     (''gE;'', [0x2267]),
     (''ge;'', [0x2265])]"

definition html5_entries_10 :: "(string \<times> pystr) list" where
  "html5_entries_10 =
    [(''gEl;'', [0x2A8C]),
     (''gel;'', [0x22DB]),
     (''geq;'', [0x2265]),
     (''geqq;'', [0x2267]),
     (''geqslant;'', [0x2A7E]),
     (''ges;'', [0x2A7E]),
     (''gescc;'', [0x2AA9]),
     (''gesdot;'', [0x2A80]),
     (''gesdoto;'', [0x2A82]),
     (''gesdotol;'', [0x2A84]),
     (''gesl;'', [0x22DB, 0xFE00]),
     (''gesles;'', [0x2A94]),
     (''Gfr;'', [0x1D50A]),
     (''gfr;'', [0x1D524]),
     (''Gg;'', [0x22D9]),
     (''gg;'', [0x226B]),
     (''ggg;'', [0x22D9]),
     (''gimel;'', [0x2137]),
     (''GJcy;'', [0x403]),
     (''gjcy;'', [0x453]),
     (''gl;'', [0x2277]),
     (''gla;'', [0x2AA5]),
     (''glE;'', [0x2A92]),
     (''glj;'', [0x2AA4]),
     (''gnap;'', [0x2A8A]),
     (''gnapprox;'', [0x2A8A]),
     (''gnE;'', [0x2269]),
     (''gne;'', [0x2A88]),
     (''gneq;'', [0x2A88]),
     (''gneqq;'', [0x2269]),
     (''gnsim;'', [0x22E7]),
     (''Gopf;'', [0x1D53E]),
     (''gopf;'', [0x1D558]),
     (''grave;'', [0x60]),
     (''GreaterEqual;'', [0x2265]),
     (''GreaterEqualLess;'', [0x22DB]),
     (''GreaterFullEqual;'', [0x2267]),
     (''GreaterGreater;'', [0x2AA2]),
     (''GreaterLess;'', [0x2277]),
     (''GreaterSlantEqual;'', [0x2A7E]),
     (''GreaterTilde;'', [0x2273]),
     (''Gscr;'', [0x1D4A2]),
     (''gscr;'', [0x210A]),
     (''gsim;'', [0x2273]),
     (''gsime;'', [0x2A8E]),
     (''gsiml;'', [0x2A90]),
     (''GT'', [0x3E]),
     (''gt'', [0x3E]),
     (''GT;'', [0x3E]),
     (''Gt;'', [0x226B]),
     (''gt;'', [0x3E]),
     (''gtcc;'', [0x2AA7]),
     (''gtcir;'', [0x2A7A]),
     (''gtdot;'', [0x22D7]),
     (''gtlPar;'', [0x2995]),
     (''gtquest;'', [0x2A7C]),
     (''gtrapprox;'', [0x2A86]),
     (''gtrarr;'', [0x2978]),
     (''gtrdot;'', [0x22D7]),
     (''gtreqless;'', [0x22DB]),
     (''gtreqqless;'', [0x2A8C]),
     (''gtrless;'', [0x2277]),
     (''gtrsim;'', [0x2273]),
     (''gvertneqq;'', [0x2269, 0xFE00])]"

definition html5_entries_11 :: "(string \<times> pystr) list" where
  "html5_entries_11 =
    [(''gvnE;'', [0x2269, 0xFE00]),
     (''Hacek;'', [0x2C7]),
     (''hairsp;'', [0x200A]),
     (''half;'', [0xBD]),
     (''hamilt;'', [0x210B]),
     (''HARDcy;'', [0x42A]),
     (''hardcy;'', [0x44A]),
     (''hArr;'', [0x21D4]),
     (''harr;'', [0x2194]),
     (''harrcir;'', [0x2948]),
     (''harrw;'', [0x21AD]),
     (''Hat;'', [0x5E]),
     (''hbar;'', [0x210F]),
     (''Hcirc;'', [0x124]),
     (''hcirc;'', [0x125]),
     (''hearts;'', [0x2665]),
     (''heartsuit;'', [0x2665]),
     (''hellip;'', [0x2026]),
     (''hercon;'', [0x22B9]),
     (''Hfr;'', [0x210C]),
     (''hfr;'', [0x1D525]),
     (''HilbertSpace;'', [0x210B]),
     (''hksearow;'', [0x2925]),
     (''hkswarow;'', [0x2926]),
     (''hoarr;'', [0x21FF]),
     (''homtht;'', [0x223B]),
     (''hookleftarrow;'', [0x21A9]),
     (''hookrightarrow;'', [0x21AA]),
     (''Hopf;'', [0x210D]),
     (''hopf;'', [0x1D559]),
     (''horbar;'', [0x2015]),
     (''HorizontalLine;'', [0x2500]),
     (''Hscr;'', [0x210B]),
     (''hscr;'', [0x1D4BD]),
     (''hslash;'', [0x210F]),
     (''Hstrok;'', [0x126]),
     (''hstrok;'', [0x127]),
     (''HumpDownHump;'', [0x224E]),
     (''HumpEqual;'', [0x224F]),
     (''hybull;'', [0x2043]),
     (''hyphen;'', [0x2010]),
     (''Iacute'', [0xCD]),
     (''iacute'', [0xED]),
     (''Iacute;'', [0xCD]),
     (''iacute;'', [0xED]),
     (''ic;'', [0x2063]),
     (''Icirc'', [0xCE]),
     (''icirc'', [0xEE]),
     (''Icirc;'', [0xCE]),
     (''icirc;'', [0xEE]),
     (''Icy;'', [0x418]),
     (''icy;'', [0x438]),
     (''Idot;'', [0x130]),
     (''IEcy;'', [0x415]),
     (''iecy;'', [0x435]),
     (''iexcl'', [0xA1]),
     (''iexcl;'', [0xA1]),
     (''iff;'', [0x21D4]),
     (''Ifr;'', [0x2111]),
     (''ifr;'', [0x1D526]),
     (''Igrave'', [0xCC]),
     (''igrave'', [0xEC]),
     (''Igrave;'', [0xCC]),
     (''igrave;'', [0xEC])]"

definition html5_entries_12 :: "(string \<times> pystr) list" where
  "html5_entries_12 =
    [(''ii;'', [0x2148]),
     (''iiiint;'', [0x2A0C]),
     (''iiint;'', [0x222D]),
     (''iinfin;'', [0x29DC]),
     (''iiota;'', [0x2129]),
     (''IJlig;'', [0x132]),
     (''ijlig;'', [0x133]),
     (''Im;'', [0x2111]),
     (''Imacr;'', [0x12A]),
     (''imacr;'', [0x12B]),
     (''image;'', [0x2111]),
     (''ImaginaryI;'', [0x2148]),
     (''imagline;'', [0x2110]),
     (''imagpart;'', [0x2111]),
     (''imath;'', [0x131]),
     (''imof;'', [0x22B7]),
     (''imped;'', [0x1B5]),
     (''Implies;'', [0x21D2]),
     (''in;'', [0x2208]),
     (''incare;'', [0x2105]),
     (''infin;'', [0x221E]),
     (''infintie;'', [0x29DD]),
     (''inodot;'', [0x131]),
     (''Int;'', [0x222C]),
     (''int;'', [0x222B]),
     (''intcal;'', [0x22BA]),
     (''integers;'', [0x2124]),
     (''Integral;'', [0x222B]),
     (''intercal;'', [0x22BA]),
     (''Intersection;'', [0x22C2]),
     (''intlarhk;'', [0x2A17]),
     (''intprod;'', [0x2A3C]),
     (''InvisibleComma;'', [0x2063]),
     (''InvisibleTimes;'', [0x2062]),
     (''IOcy;'', [0x401]),
     (''iocy;'', [0x451]),
     (''Iogon;'', [0x12E]),
     (''iogon;'', [0x12F]),
     (''Iopf;'', [0x1D540]),
     (''iopf;'', [0x1D55A]),
     (''Iota;'', [0x399]),
     (''iota;'', [0x3B9]),
     (''iprod;'', [0x2A3C]),
     (''iquest'', [0xBF]),
     (''iquest;'', [0xBF]),
     (''Iscr;'', [0x2110]),
     (''iscr;'', [0x1D4BE]),
     (''isin;'', [0x2208]),
     (''isindot;'', [0x22F5]),
     (''isinE;'', [0x22F9]),
     (''isins;'', [0x22F4]),
     (''isinsv;'', [0x22F3]),
     (''isinv;'', [0x2208]),
     (''it;'', [0x2062]),
     (''Itilde;'', [0x128]),
     (''itilde;'', [0x129]),
     (''Iukcy;'', [0x406]),
     (''iukcy;'', [0x456]),
     (''Iuml'', [0xCF]),
     (''iuml'', [0xEF]),
     (''Iuml;'', [0xCF]),
     (''iuml;'', [0xEF]),
     (''Jcirc;'', [0x134]),
     (''jcirc;'', [0x135])]"

definition html5_entries_13 :: "(string \<times> pystr) list" where
  "html5_entries_13 =
    [(''Jcy;'', [0x419]),
     (''jcy;'', [0x439]),
     (''Jfr;'', [0x1D50D]),
     (''jfr;'', [0x1D527]),
     (''jmath;'', [0x237]),
     (''Jopf;'', [0x1D541]),
     (''jopf;'', [0x1D55B]),
     (''Jscr;'', [0x1D4A5]),
     (''jscr;'', [0x1D4BF]),
     (''Jsercy;'', [0x408]),
     (''jsercy;'', [0x458]),
     (''Jukcy;'', [0x404]),
     (''jukcy;'', [0x454]),
     (''Kappa;'', [0x39A]),
     (''kappa;'', [0x3BA]),
     (''kappav;'', [0x3F0]),
     (''Kcedil;'', [0x136]),
     (''kcedil;'', [0x137]),
     (''Kcy;'', [0x41A]),
     (''kcy;'', [0x43A]),
     (''Kfr;'', [0x1D50E]),
     (''kfr;'', [0x1D528]),
     (''kgreen;'', [0x138]),
     (''KHcy;'', [0x425]),
     (''khcy;'', [0x445]),
     (''KJcy;'', [0x40C]),
     (''kjcy;'', [0x45C]),
     (''Kopf;'', [0x1D542]),
     (''kopf;'', [0x1D55C]),
     (''Kscr;'', [0x1D4A6]),
     (''kscr;'', [0x1D4C0]),
     (''lAarr;'', [0x21DA]),
     (''Lacute;'', [0x139]),
     (''lacute;'', [0x13A]),
     (''laemptyv;'', [0x29B4]),
     (''lagran;'', [0x2112]),
     (''Lambda;'', [0x39B]),
     (''lambda;'', [0x3BB]),
     (''Lang;'', [0x27EA]),
     (''lang;'', [0x27E8]),
     (''langd;'', [0x2991]),
     (''langle;'', [0x27E8]),
     (''lap;'', [0x2A85]),
     (''Laplacetrf;'', [0x2112]),
     (''laquo'', [0xAB]),
     (''laquo;'', [0xAB]),
     (''Larr;'', [0x219E]),
     (''lArr;'', [0x21D0]),
     (''larr;'', [0x2190]),
     (''larrb;'', [0x21E4]),
     (''larrbfs;'', [0x291F]),
     (''larrfs;'', [0x291D]),
     (''larrhk;'', [0x21A9]),
     (''larrlp;'', [0x21AB]),
     (''larrpl;'', [0x2939]),
     (''larrsim;'', [0x2973]),
     (''larrtl;'', [0x21A2]),
     (''lat;'', [0x2AAB]),
     (''lAtail;'', [0x291B]),
     (''latail;'', [0x2919]),
     (''late;'', [0x2AAD]),
     (''lates;'', [0x2AAD, 0xFE00]),
     (''lBarr;'', [0x290E]),
     (''lbarr;'', [0x290C])]"

definition html5_entries_14 :: "(string \<times> pystr) list" where
  "html5_entries_14 =
    [(''lbbrk;'', [0x2772]),
     (''lbrace;'', [0x7B]),
     (''lbrack;'', [0x5B]),
     (''lbrke;'', [0x298B]),
     (''lbrksld;'', [0x298F]),
     (''lbrkslu;'', [0x298D]),
     (''Lcaron;'', [0x13D]),
     (''lcaron;'', [0x13E]),
     (''Lcedil;'', [0x13B]),
     (''lcedil;'', [0x13C]),
     (''lceil;'', [0x2308]),
     (''lcub;'', [0x7B]),
     (''Lcy;'', [0x41B]),
     (''lcy;'', [0x43B]),
     (''ldca;'', [0x2936]),
     (''ldquo;'', [0x201C]),
     (''ldquor;'', [0x201E]),
     (''ldrdhar;'', [0x2967]),
     (''ldrushar;'', [0x294B]),
     (''ldsh;'', [0x21B2]),
     (''lE;'', [0x2266]),
     (''le;'', [0x2264]),
     (''LeftAngleBracket;'', [0x27E8]),
     (''LeftArrow;'', [0x2190]),
     (''Leftarrow;'', [0x21D0]),
     (''leftarrow;'', [0x2190]),
     (''LeftArrowBar;'', [0x21E4]),
     (''LeftArrowRightArrow;'', [0x21C6]),
     (''leftarrowtail;'', [0x21A2]),
     (''LeftCeiling;'', [0x2308]),
     (''LeftDoubleBracket;'', [0x27E6]),
     (''LeftDownTeeVector;'', [0x2961]),
     (''LeftDownVector;'', [0x21C3]),
     (''LeftDownVectorBar;'', [0x2959]),
     (''LeftFloor;'', [0x230A]),
     (''leftharpoondown;'', [0x21BD]),
     (''leftharpoonup;'', [0x21BC]),
     (''leftleftarrows;'', [0x21C7]),
     (''LeftRightArrow;'', [0x2194]),
     (''Leftrightarrow;'', [0x21D4]),
     (''leftrightarrow;'', [0x2194]),
     (''leftrightarrows;'', [0x21C6]),
     (''leftrightharpoons;'', [0x21CB]),
     (''leftrightsquigarrow;'', [0x21AD]),
     (''LeftRightVector;'', [0x294E]),
     (''LeftTee;'', [0x22A3]),
     (''LeftTeeArrow;'', [0x21A4]),
     (''LeftTeeVector;'', [0x295A]),
     (''leftthreetimes;'', [0x22CB]),
     (''LeftTriangle;'', [0x22B2]),
     (''LeftTriangleBar;'', [0x29CF]),
     (''LeftTriangleEqual;'', [0x22B4]),
     (''LeftUpDownVector;'', [0x2951]),
     (''LeftUpTeeVector;'', [0x2960]),
     (''LeftUpVector;'', [0x21BF]),
     (''LeftUpVectorBar;'', [0x2958]),
     (''LeftVector;'', [0x21BC]),
     (''LeftVectorBar;'', [0x2952]),
     (''lEg;'', [0x2A8B]),
     (''leg;'', [0x22DA]),
     (''leq;'', [0x2264]),
     (''leqq;'', [0x2266]),
     (''leqslant;'', [0x2A7D]),
     (''les;'', [0x2A7D])]"

definition html5_entries_15 :: "(string \<times> pystr) list" where
  "html5_entries_15 =
    [(''lescc;'', [0x2AA8]),
     (''lesdot;'', [0x2A7F]),
     (''lesdoto;'', [0x2A81]),
     (''lesdotor;'', [0x2A83]),
     (''lesg;'', [0x22DA, 0xFE00]),
     (''lesges;'', [0x2A93]),
     (''lessapprox;'', [0x2A85]),
     (''lessdot;'', [0x22D6]),
     (''lesseqgtr;'', [0x22DA]),
     (''lesseqqgtr;'', [0x2A8B]),
     (''LessEqualGreater;'', [0x22DA]),
     (''LessFullEqual;'', [0x2266]),
     (''LessGreater;'', [0x2276]),
     (''lessgtr;'', [0x2276]),
     (''LessLess;'', [0x2AA1]),
     (''lesssim;'', [0x2272]),
     (''LessSlantEqual;'', [0x2A7D]),
     (''LessTilde;'', [0x2272]),
     (''lfisht;'', [0x297C]),
     (''lfloor;'', [0x230A]),
     (''Lfr;'', [0x1D50F]),
     (''lfr;'', [0x1D529]),
     (''lg;'', [0x2276]),
     (''lgE;'', [0x2A91]),
     (''lHar;'', [0x2962]),
     (''lhard;'', [0x21BD]),
     (''lharu;'', [0x21BC]),
     (''lharul;'', [0x296A]),
     (''lhblk;'', [0x2584]),
     (''LJcy;'', [0x409]),
     (''ljcy;'', [0x459]),
     (''Ll;'', [0x22D8]),
     (''ll;'', [0x226A]),
     (''llarr;'', [0x21C7]),
     (''llcorner;'', [0x231E]),
     (''Lleftarrow;'', [0x21DA]),
     (''llhard;'', [0x296B]),
     (''lltri;'', [0x25FA]),
     (''Lmidot;'', [0x13F]),
     (''lmidot;'', [0x140]),
     (''lmoust;'', [0x23B0]),
     (''lmoustache;'', [0x23B0]),
     (''lnap;'', [0x2A89]),
     (''lnapprox;'', [0x2A89]),
     (''lnE;'', [0x2268]),
     (''lne;'', [0x2A87]),
     (''lneq;'', [0x2A87]),
     (''lneqq;'', [0x2268]),
     (''lnsim;'', [0x22E6]),
     (''loang;'', [0x27EC]),
     (''loarr;'', [0x21FD]),
     (''lobrk;'', [0x27E6]),
     (''LongLeftArrow;'', [0x27F5]),
     (''Longleftarrow;'', [0x27F8]),
     (''longleftarrow;'', [0x27F5]),
     (''LongLeftRightArrow;'', [0x27F7]),
     (''Longleftrightarrow;'', [0x27FA]),
     (''longleftrightarrow;'', [0x27F7]),
     (''longmapsto;'', [0x27FC]),
     (''LongRightArrow;'', [0x27F6]),
     (''Longrightarrow;'', [0x27F9]),
     (''longrightarrow;'', [0x27F6]),
     (''looparrowleft;'', [0x21AB]),
     (''looparrowright;'', [0x21AC])]"

definition html5_entries_16 :: "(string \<times> pystr) list" where
  "html5_entries_16 =
    [(''lopar;'', [0x2985]),
     (''Lopf;'', [0x1D543]),
     (''lopf;'', [0x1D55D]),
     (''loplus;'', [0x2A2D]),
     (''lotimes;'', [0x2A34]),
     (''lowast;'', [0x2217]),
     (''lowbar;'', [0x5F]),
     (''LowerLeftArrow;'', [0x2199]),
     (''LowerRightArrow;'', [0x2198]),
     (''loz;'', [0x25CA]),
     (''lozenge;'', [0x25CA]),
     (''lozf;'', [0x29EB]),
     (''lpar;'', [0x28]),
     (''lparlt;'', [0x2993]),
     (''lrarr;'', [0x21C6]),
     (''lrcorner;'', [0x231F]),
     (''lrhar;'', [0x21CB]),
     (''lrhard;'', [0x296D]),
     (''lrm;'', [0x200E]),
     (''lrtri;'', [0x22BF]),
     (''lsaquo;'', [0x2039]),
     (''Lscr;'', [0x2112]),
     (''lscr;'', [0x1D4C1]),
     (''Lsh;'', [0x21B0]),
     (''lsh;'', [0x21B0]),
     (''lsim;'', [0x2272]),
     (''lsime;'', [0x2A8D]),
     (''lsimg;'', [0x2A8F]),
     (''lsqb;'', [0x5B]),
     (''lsquo;'', [0x2018]),
     (''lsquor;'', [0x201A]),
     (''Lstrok;'', [0x141]),
     (''lstrok;'', [0x142]),
     (''LT'', [0x3C]),
     (''lt'', [0x3C]),
     (''LT;'', [0x3C]),
     (''Lt;'', [0x226A]),
     (''lt;'', [0x3C]),
     (''ltcc;'', [0x2AA6]),
     (''ltcir;'', [0x2A79]),
     (''ltdot;'', [0x22D6]),
     (''lthree;'', [0x22CB]),
     (''ltimes;'', [0x22C9]),
     (''ltlarr;'', [0x2976]),
     (''ltquest;'', [0x2A7B]),
     (''ltri;'', [0x25C3]),
     (''ltrie;'', [0x22B4]),
     (''ltrif;'', [0x25C2]),
     (''ltrPar;'', [0x2996]),
     (''lurdshar;'', [0x294A]),
     (''luruhar;'', [0x2966]),
     (''lvertneqq;'', [0x2268, 0xFE00]),
     (''lvnE;'', [0x2268, 0xFE00]),
     (''macr'', [0xAF]),
     (''macr;'', [0xAF]),
     (''male;'', [0x2642]),
     (''malt;'', [0x2720]),
     (''maltese;'', [0x2720]),
     (''Map;'', [0x2905]),
     (''map;'', [0x21A6]),
     (''mapsto;'', [0x21A6]),
     (''mapstodown;'', [0x21A7]),
     (''mapstoleft;'', [0x21A4]),
     (''mapstoup;'', [0x21A5])]"

definition html5_entries_17 :: "(string \<times> pystr) list" where
  "html5_entries_17 =
    [(''marker;'', [0x25AE]),
     (''mcomma;'', [0x2A29]),
     (''Mcy;'', [0x41C]),
     (''mcy;'', [0x43C]),
     (''mdash;'', [0x2014]),
     (''mDDot;'', [0x223A]),
     (''measuredangle;'', [0x2221]),
     (''MediumSpace;'', [0x205F]),
     (''Mellintrf;'', [0x2133]),
     (''Mfr;'', [0x1D510]),
     (''mfr;'', [0x1D52A]),
     (''mho;'', [0x2127]),
     (''micro'', [0xB5]),
     (''micro;'', [0xB5]),
     (''mid;'', [0x2223]),
     (''midast;'', [0x2A]),
     (''midcir;'', [0x2AF0]),
     (''middot'', [0xB7]),
     (''middot;'', [0xB7]),
     (''minus;'', [0x2212]),
     (''minusb;'', [0x229F]),
     (''minusd;'', [0x2238]),
     (''minusdu;'', [0x2A2A]),
     (''MinusPlus;'', [0x2213]),
     (''mlcp;'', [0x2ADB]),
     (''mldr;'', [0x2026]),
     (''mnplus;'', [0x2213]),
     (''models;'', [0x22A7]),
     (''Mopf;'', [0x1D544]),
     (''mopf;'', [0x1D55E]),
     (''mp;'', [0x2213]),
     (''Mscr;'', [0x2133]),
     (''mscr;'', [0x1D4C2]),
     (''mstpos;'', [0x223E]),
     (''Mu;'', [0x39C]),
     (''mu;'', [0x3BC]),
     (''multimap;'', [0x22B8]),
     (''mumap;'', [0x22B8]),
     (''nabla;'', [0x2207]),
     (''Nacute;'', [0x143]),
     (''nacute;'', [0x144]),
     (''nang;'', [0x2220, 0x20D2]),
     (''nap;'', [0x2249]),
     (''napE;'', [0x2A70, 0x338]),
     (''napid;'', [0x224B, 0x338]),
     (''napos;'', [0x149]),
     (''napprox;'', [0x2249]),
     (''natur;'', [0x266E]),
     (''natural;'', [0x266E]),
     (''naturals;'', [0x2115]),
     (''nbsp'', [0xA0]),
     (''nbsp;'', [0xA0]),
     (''nbump;'', [0x224E, 0x338]),
     (''nbumpe;'', [0x224F, 0x338]),
     (''ncap;'', [0x2A43]),
     (''Ncaron;'', [0x147]),
     (''ncaron;'', [0x148]),
     (''Ncedil;'', [0x145]),
     (''ncedil;'', [0x146]),
     (''ncong;'', [0x2247]),
     (''ncongdot;'', [0x2A6D, 0x338]),
     (''ncup;'', [0x2A42]),
     (''Ncy;'', [0x41D]),
     (''ncy;'', [0x43D])]"

definition html5_entries_18 :: "(string \<times> pystr) list" where
  "html5_entries_18 =
    [(''ndash;'', [0x2013]),
     (''ne;'', [0x2260]),
     (''nearhk;'', [0x2924]),
     (''neArr;'', [0x21D7]),
     (''nearr;'', [0x2197]),
     (''nearrow;'', [0x2197]),
     (''nedot;'', [0x2250, 0x338]),
     (''NegativeMediumSpace;'', [0x200B]),
     (''NegativeThickSpace;'', [0x200B]),
     (''NegativeThinSpace;'', [0x200B]),
     (''NegativeVeryThinSpace;'', [0x200B]),
     (''nequiv;'', [0x2262]),
     (''nesear;'', [0x2928]),
     (''nesim;'', [0x2242, 0x338]),
     (''NestedGreaterGreater;'', [0x226B]),
     (''NestedLessLess;'', [0x226A]),
     (''NewLine;'', [0xA]),
     (''nexist;'', [0x2204]),
     (''nexists;'', [0x2204]),
     (''Nfr;'', [0x1D511]),
     (''nfr;'', [0x1D52B]),
     (''ngE;'', [0x2267, 0x338]),
     (''nge;'', [0x2271]),
     (''ngeq;'', [0x2271]),
     (''ngeqq;'', [0x2267, 0x338]),
     (''ngeqslant;'', [0x2A7E, 0x338]),
     (''nges;'', [0x2A7E, 0x338]),
     (''nGg;'', [0x22D9, 0x338]),
     (''ngsim;'', [0x2275]),
     (''nGt;'', [0x226B, 0x20D2]),
     (''ngt;'', [0x226F]),
     (''ngtr;'', [0x226F]),
     (''nGtv;'', [0x226B, 0x338]),
     (''nhArr;'', [0x21CE]),
     (''nharr;'', [0x21AE]),
     (''nhpar;'', [0x2AF2]),
     (''ni;'', [0x220B]),
     (''nis;'', [0x22FC]),
     (''nisd;'', [0x22FA]),
     (''niv;'', [0x220B]),
     (''NJcy;'', [0x40A]),
     (''njcy;'', [0x45A]),
     (''nlArr;'', [0x21CD]),
     (''nlarr;'', [0x219A]),
     (''nldr;'', [0x2025]),
     (''nlE;'', [0x2266, 0x338]),
     (''nle;'', [0x2270]),
     (''nLeftarrow;'', [0x21CD]),
     (''nleftarrow;'', [0x219A]),
     (''nLeftrightarrow;'', [0x21CE]),
     (''nleftrightarrow;'', [0x21AE]),
     (''nleq;'', [0x2270]),
     (''nleqq;'', [0x2266, 0x338]),
     (''nleqslant;'', [0x2A7D, 0x338]),
     (''nles;'', [0x2A7D, 0x338]),
     (''nless;'', [0x226E]),
     (''nLl;'', [0x22D8, 0x338]),
     (''nlsim;'', [0x2274]),
     (''nLt;'', [0x226A, 0x20D2]),
     (''nlt;'', [0x226E]),
     (''nltri;'', [0x22EA]),
     (''nltrie;'', [0x22EC]),
     (''nLtv;'', [0x226A, 0x338]),
     (''nmid;'', [0x2224])]"

definition html5_entries_19 :: "(string \<times> pystr) list" where
  "html5_entries_19 =
    [(''NoBreak;'', [0x2060]),
     (''NonBreakingSpace;'', [0xA0]),
     (''Nopf;'', [0x2115]),
     (''nopf;'', [0x1D55F]),
     (''not'', [0xAC]),
     (''Not;'', [0x2AEC]),
     (''not;'', [0xAC]),
     (''NotCongruent;'', [0x2262]),
     (''NotCupCap;'', [0x226D]),
     (''NotDoubleVerticalBar;'', [0x2226]),
     (''NotElement;'', [0x2209]),
     (''NotEqual;'', [0x2260]),
     (''NotEqualTilde;'', [0x2242, 0x338]),
     (''NotExists;'', [0x2204]),
     (''NotGreater;'', [0x226F]),
     (''NotGreaterEqual;'', [0x2271]),
     (''NotGreaterFullEqual;'', [0x2267, 0x338]),
     (''NotGreaterGreater;'', [0x226B, 0x338]),
     (''NotGreaterLess;'', [0x2279]),
     (''NotGreaterSlantEqual;'', [0x2A7E, 0x338]),
     (''NotGreaterTilde;'', [0x2275]),
     (''NotHumpDownHump;'', [0x224E, 0x338]),
     (''NotHumpEqual;'', [0x224F, 0x338]),
     (''notin;'', [0x2209]),
     (''notindot;'', [0x22F5, 0x338]),
     (''notinE;'', [0x22F9, 0x338]),
     (''notinva;'', [0x2209]),
     (''notinvb;'', [0x22F7]),
     (''notinvc;'', [0x22F6]),
     (''NotLeftTriangle;'', [0x22EA]),
     (''NotLeftTriangleBar;'', [0x29CF, 0x338]),
     (''NotLeftTriangleEqual;'', [0x22EC]),
     (''NotLess;'', [0x226E]),
     (''NotLessEqual;'', [0x2270]),
     (''NotLessGreater;'', [0x2278]),
     (''NotLessLess;'', [0x226A, 0x338]),
     (''NotLessSlantEqual;'', [0x2A7D, 0x338]),
     (''NotLessTilde;'', [0x2274]),
     (''NotNestedGreaterGreater;'', [0x2AA2, 0x338]),
     (''NotNestedLessLess;'', [0x2AA1, 0x338]),
     (''notni;'', [0x220C]),
     (''notniva;'', [0x220C]),
     (''notnivb;'', [0x22FE]),
     (''notnivc;'', [0x22FD]),
     (''NotPrecedes;'', [0x2280]),
     (''NotPrecedesEqual;'', [0x2AAF, 0x338]),
     (''NotPrecedesSlantEqual;'', [0x22E0]),
     (''NotReverseElement;'', [0x220C]),
     (''NotRightTriangle;'', [0x22EB]),
     (''NotRightTriangleBar;'', [0x29D0, 0x338]),
     (''NotRightTriangleEqual;'', [0x22ED]),
     (''NotSquareSubset;'', [0x228F, 0x338]),
     (''NotSquareSubsetEqual;'', [0x22E2]),
     (''NotSquareSuperset;'', [0x2290, 0x338]),
     (''NotSquareSupersetEqual;'', [0x22E3]),
     (''NotSubset;'', [0x2282, 0x20D2]),
     (''NotSubsetEqual;'', [0x2288]),
     (''NotSucceeds;'', [0x2281]),
     (''NotSucceedsEqual;'', [0x2AB0, 0x338]),
     (''NotSucceedsSlantEqual;'', [0x22E1]),
     (''NotSucceedsTilde;'', [0x227F, 0x338]),
     (''NotSuperset;'', [0x2283, 0x20D2]),
     (''NotSupersetEqual;'', [0x2289]),
     (''NotTilde;'', [0x2241])]"

definition html5_entries_20 :: "(string \<times> pystr) list" where
  "html5_entries_20 =
    [(''NotTildeEqual;'', [0x2244]),
     (''NotTildeFullEqual;'', [0x2247]),
     (''NotTildeTilde;'', [0x2249]),
     (''NotVerticalBar;'', [0x2224]),
     (''npar;'', [0x2226]),
     (''nparallel;'', [0x2226]),
     (''nparsl;'', [0x2AFD, 0x20E5]),
     (''npart;'', [0x2202, 0x338]),
     (''npolint;'', [0x2A14]),
     (''npr;'', [0x2280]),
     (''nprcue;'', [0x22E0]),
     (''npre;'', [0x2AAF, 0x338]),
     (''nprec;'', [0x2280]),
     (''npreceq;'', [0x2AAF, 0x338]),
     (''nrArr;'', [0x21CF]),
     (''nrarr;'', [0x219B]),
     (''nrarrc;'', [0x2933, 0x338]),
     (''nrarrw;'', [0x219D, 0x338]),
     (''nRightarrow;'', [0x21CF]),
     (''nrightarrow;'', [0x219B]),
     (''nrtri;'', [0x22EB]),
     (''nrtrie;'', [0x22ED]),
     (''nsc;'', [0x2281]),
     (''nsccue;'', [0x22E1]),
     (''nsce;'', [0x2AB0, 0x338]),
     (''Nscr;'', [0x1D4A9]),
     (''nscr;'', [0x1D4C3]),
     (''nshortmid;'', [0x2224]),
     (''nshortparallel;'', [0x2226]),
     (''nsim;'', [0x2241]),
     (''nsime;'', [0x2244]),
     (''nsimeq;'', [0x2244]),
     (''nsmid;'', [0x2224]),
     (''nspar;'', [0x2226]),
     (''nsqsube;'', [0x22E2]),
     (''nsqsupe;'', [0x22E3]),
     (''nsub;'', [0x2284]),
     (''nsubE;'', [0x2AC5, 0x338]),
     (''nsube;'', [0x2288]),
     (''nsubset;'', [0x2282, 0x20D2]),
     (''nsubseteq;'', [0x2288]),
     (''nsubseteqq;'', [0x2AC5, 0x338]),
     (''nsucc;'', [0x2281]),
     (''nsucceq;'', [0x2AB0, 0x338]),
     (''nsup;'', [0x2285]),
     (''nsupE;'', [0x2AC6, 0x338]),
     (''nsupe;'', [0x2289]),
     (''nsupset;'', [0x2283, 0x20D2]),
     (''nsupseteq;'', [0x2289]),
     (''nsupseteqq;'', [0x2AC6, 0x338]),
     (''ntgl;'', [0x2279]),
     (''Ntilde'', [0xD1]),
     (''ntilde'', [0xF1]),
     (''Ntilde;'', [0xD1]),
     (''ntilde;'', [0xF1]),
     (''ntlg;'', [0x2278]),
     (''ntriangleleft;'', [0x22EA]),
     (''ntrianglelefteq;'', [0x22EC]),
     (''ntriangleright;'', [0x22EB]),
     (''ntrianglerighteq;'', [0x22ED]),
     (''Nu;'', [0x39D]),
     (''nu;'', [0x3BD]),
     (''num;'', [0x23]),
     (''numero;'', [0x2116])]"

definition html5_entries_21 :: "(string \<times> pystr) list" where
  "html5_entries_21 =
    [(''numsp;'', [0x2007]),
     (''nvap;'', [0x224D, 0x20D2]),
     (''nVDash;'', [0x22AF]),
     (''nVdash;'', [0x22AE]),
     (''nvDash;'', [0x22AD]),
     (''nvdash;'', [0x22AC]),
     (''nvge;'', [0x2265, 0x20D2]),
     (''nvgt;'', [0x3E, 0x20D2]),
     (''nvHarr;'', [0x2904]),
     (''nvinfin;'', [0x29DE]),
     (''nvlArr;'', [0x2902]),
     (''nvle;'', [0x2264, 0x20D2]),
     (''nvlt;'', [0x3C, 0x20D2]),
     (''nvltrie;'', [0x22B4, 0x20D2]),
     (''nvrArr;'', [0x2903]),
     (''nvrtrie;'', [0x22B5, 0x20D2]),
     (''nvsim;'', [0x223C, 0x20D2]),
     (''nwarhk;'', [0x2923]),
     (''nwArr;'', [0x21D6]),
     (''nwarr;'', [0x2196]),
     (''nwarrow;'', [0x2196]),
     (''nwnear;'', [0x2927]),
     (''Oacute'', [0xD3]),
     (''oacute'', [0xF3]),
     (''Oacute;'', [0xD3]),
     (''oacute;'', [0xF3]),
     (''oast;'', [0x229B]),
     (''ocir;'', [0x229A]),
     (''Ocirc'', [0xD4]),
     (''ocirc'', [0xF4]),
     (''Ocirc;'', [0xD4]),
     (''ocirc;'', [0xF4]),
     (''Ocy;'', [0x41E]),
     (''ocy;'', [0x43E]),
     (''odash;'', [0x229D]),
     (''Odblac;'', [0x150]),
     (''odblac;'', [0x151]),
     (''odiv;'', [0x2A38]),
     (''odot;'', [0x2299]),
     (''odsold;'', [0x29BC]),
     (''OElig;'', [0x152]),
     (''oelig;'', [0x153]),
     (''ofcir;'', [0x29BF]),
     (''Ofr;'', [0x1D512]),
     (''ofr;'', [0x1D52C]),
     (''ogon;'', [0x2DB]),
     (''Ograve'', [0xD2]),
     (''ograve'', [0xF2]),
     (''Ograve;'', [0xD2]),
     (''ograve;'', [0xF2]),
     (''ogt;'', [0x29C1]),
     (''ohbar;'', [0x29B5]),
     (''ohm;'', [0x3A9]),
     (''oint;'', [0x222E]),
     (''olarr;'', [0x21BA]),
     (''olcir;'', [0x29BE]),
     (''olcross;'', [0x29BB]),
     (''oline;'', [0x203E]),
     (''olt;'', [0x29C0]),
     (''Omacr;'', [0x14C]),
     (''omacr;'', [0x14D]),
     (''Omega;'', [0x3A9]),
     (''omega;'', [0x3C9]),
     (''Omicron;'', [0x39F])]"

definition html5_entries_22 :: "(string \<times> pystr) list" where
  "html5_entries_22 =
    [(''omicron;'', [0x3BF]),
     (''omid;'', [0x29B6]),
     (''ominus;'', [0x2296]),
     (''Oopf;'', [0x1D546]),
     (''oopf;'', [0x1D560]),
     (''opar;'', [0x29B7]),
     (''OpenCurlyDoubleQuote;'', [0x201C]),
     (''OpenCurlyQuote;'', [0x2018]),
     (''operp;'', [0x29B9]),
     (''oplus;'', [0x2295]),
     (''Or;'', [0x2A54]),
     (''or;'', [0x2228]),
     (''orarr;'', [0x21BB]),
     (''ord;'', [0x2A5D]),
     (''order;'', [0x2134]),
     (''orderof;'', [0x2134]),
     (''ordf'', [0xAA]),
     (''ordf;'', [0xAA]),
     (''ordm'', [0xBA]),
     (''ordm;'', [0xBA]),
     (''origof;'', [0x22B6]),
     (''oror;'', [0x2A56]),
     (''orslope;'', [0x2A57]),
     (''orv;'', [0x2A5B]),
     (''oS;'', [0x24C8]),
     (''Oscr;'', [0x1D4AA]),
     (''oscr;'', [0x2134]),
     (''Oslash'', [0xD8]),
     (''oslash'', [0xF8]),
     (''Oslash;'', [0xD8]),
     (''oslash;'', [0xF8]),
     (''osol;'', [0x2298]),
     (''Otilde'', [0xD5]),
     (''otilde'', [0xF5]),
     (''Otilde;'', [0xD5]),
     (''otilde;'', [0xF5]),
     (''Otimes;'', [0x2A37]),
     (''otimes;'', [0x2297]),
     (''otimesas;'', [0x2A36]),
     (''Ouml'', [0xD6]),
     (''ouml'', [0xF6]),
     (''Ouml;'', [0xD6]),
     (''ouml;'', [0xF6]),
     (''ovbar;'', [0x233D]),
     (''OverBar;'', [0x203E]),
     (''OverBrace;'', [0x23DE]),
     (''OverBracket;'', [0x23B4]),
     (''OverParenthesis;'', [0x23DC]),
     (''par;'', [0x2225]),
     (''para'', [0xB6]),
     (''para;'', [0xB6]),
     (''parallel;'', [0x2225]),
     (''parsim;'', [0x2AF3]),
     (''parsl;'', [0x2AFD]),
     (''part;'', [0x2202]),
     (''PartialD;'', [0x2202]),
     (''Pcy;'', [0x41F]),
     (''pcy;'', [0x43F]),
     (''percnt;'', [0x25]),
     (''period;'', [0x2E]),
     (''permil;'', [0x2030]),
     (''perp;'', [0x22A5]),
     (''pertenk;'', [0x2031]),
     (''Pfr;'', [0x1D513])]"

definition html5_entries_23 :: "(string \<times> pystr) list" where
  "html5_entries_23 =
    [(''pfr;'', [0x1D52D]),
     (''Phi;'', [0x3A6]),
     (''phi;'', [0x3C6]),
     (''phiv;'', [0x3D5]),
     (''phmmat;'', [0x2133]),
     (''phone;'', [0x260E]),
     (''Pi;'', [0x3A0]),
     (''pi;'', [0x3C0]),
     (''pitchfork;'', [0x22D4]),
     (''piv;'', [0x3D6]),
     (''planck;'', [0x210F]),
     (''planckh;'', [0x210E]),
     (''plankv;'', [0x210F]),
     (''plus;'', [0x2B]),
     (''plusacir;'', [0x2A23]),
     (''plusb;'', [0x229E]),
     (''pluscir;'', [0x2A22]),
     (''plusdo;'', [0x2214]),
     (''plusdu;'', [0x2A25]),
     (''pluse;'', [0x2A72]),
     (''PlusMinus;'', [0xB1]),
     (''plusmn'', [0xB1]),
     (''plusmn;'', [0xB1]),
     (''plussim;'', [0x2A26]),
     (''plustwo;'', [0x2A27]),
     (''pm;'', [0xB1]),
     (''Poincareplane;'', [0x210C]),
     (''pointint;'', [0x2A15]),
     (''Popf;'', [0x2119]),
     (''popf;'', [0x1D561]),
     (''pound'', [0xA3]),
     (''pound;'', [0xA3]),
     (''Pr;'', [0x2ABB]),
     (''pr;'', [0x227A]),
     (''prap;'', [0x2AB7]),
     (''prcue;'', [0x227C]),
     (''prE;'', [0x2AB3]),
     (''pre;'', [0x2AAF]),
     (''prec;'', [0x227A]),
     (''precapprox;'', [0x2AB7]),
     (''preccurlyeq;'', [0x227C]),
     (''Precedes;'', [0x227A]),
     (''PrecedesEqual;'', [0x2AAF]),
     (''PrecedesSlantEqual;'', [0x227C]),
     (''PrecedesTilde;'', [0x227E]),
     (''preceq;'', [0x2AAF]),
     (''precnapprox;'', [0x2AB9]),
     (''precneqq;'', [0x2AB5]),
     (''precnsim;'', [0x22E8]),
     (''precsim;'', [0x227E]),
     (''Prime;'', [0x2033]),
     (''prime;'', [0x2032]),
     (''primes;'', [0x2119]),
     (''prnap;'', [0x2AB9]),
     (''prnE;'', [0x2AB5]),
     (''prnsim;'', [0x22E8]),
     (''prod;'', [0x220F]),
     (''Product;'', [0x220F]),
     (''profalar;'', [0x232E]),
     (''profline;'', [0x2312]),
     (''profsurf;'', [0x2313]),
     (''prop;'', [0x221D]),
     (''Proportion;'', [0x2237]),
     (''Proportional;'', [0x221D])]"

definition html5_entries_24 :: "(string \<times> pystr) list" where
  "html5_entries_24 =
    [(''propto;'', [0x221D]),
     (''prsim;'', [0x227E]),
     (''prurel;'', [0x22B0]),
     (''Pscr;'', [0x1D4AB]),
     (''pscr;'', [0x1D4C5]),
     (''Psi;'', [0x3A8]),
     (''psi;'', [0x3C8]),
     (''puncsp;'', [0x2008]),
     (''Qfr;'', [0x1D514]),
     (''qfr;'', [0x1D52E]),
     (''qint;'', [0x2A0C]),
     (''Qopf;'', [0x211A]),
     (''qopf;'', [0x1D562]),
     (''qprime;'', [0x2057]),
     (''Qscr;'', [0x1D4AC]),
     (''qscr;'', [0x1D4C6]),
     (''quaternions;'', [0x210D]),
     (''quatint;'', [0x2A16]),
     (''quest;'', [0x3F]),
     (''questeq;'', [0x225F]),
     (''QUOT'', [0x22]),
     (''quot'', [0x22]),
     (''QUOT;'', [0x22]),
     (''quot;'', [0x22]),
     (''rAarr;'', [0x21DB]),
     (''race;'', [0x223D, 0x331]),
     (''Racute;'', [0x154]),
     (''racute;'', [0x155]),
     (''radic;'', [0x221A]),
     (''raemptyv;'', [0x29B3]),
     (''Rang;'', [0x27EB]),
     (''rang;'', [0x27E9]),
     (''rangd;'', [0x2992]),
     (''range;'', [0x29A5]),
     (''rangle;'', [0x27E9]),
     (''raquo'', [0xBB]),
     (''raquo;'', [0xBB]),
     (''Rarr;'', [0x21A0]),
     (''rArr;'', [0x21D2]),
     (''rarr;'', [0x2192]),
     (''rarrap;'', [0x2975]),
     (''rarrb;'', [0x21E5]),
     (''rarrbfs;'', [0x2920]),
     (''rarrc;'', [0x2933]),
     (''rarrfs;'', [0x291E]),
     (''rarrhk;'', [0x21AA]),
     (''rarrlp;'', [0x21AC]),
     (''rarrpl;'', [0x2945]),
     (''rarrsim;'', [0x2974]),
     (''Rarrtl;'', [0x2916]),
     (''rarrtl;'', [0x21A3]),
     (''rarrw;'', [0x219D]),
     (''rAtail;'', [0x291C]),
     (''ratail;'', [0x291A]),
     (''ratio;'', [0x2236]),
     (''rationals;'', [0x211A]),
     (''RBarr;'', [0x2910]),
     (''rBarr;'', [0x290F]),
     (''rbarr;'', [0x290D]),
     (''rbbrk;'', [0x2773]),
     (''rbrace;'', [0x7D]),
     (''rbrack;'', [0x5D]),
     (''rbrke;'', [0x298C]),
     (''rbrksld;'', [0x298E])]"

definition html5_entries_25 :: "(string \<times> pystr) list" where
  "html5_entries_25 =
    [(''rbrkslu;'', [0x2990]),
     (''Rcaron;'', [0x158]),
     (''rcaron;'', [0x159]),
     (''Rcedil;'', [0x156]),
     (''rcedil;'', [0x157]),
     (''rceil;'', [0x2309]),
     (''rcub;'', [0x7D]),
     (''Rcy;'', [0x420]),
     (''rcy;'', [0x440]),
     (''rdca;'', [0x2937]),
     (''rdldhar;'', [0x2969]),
     (''rdquo;'', [0x201D]),
     (''rdquor;'', [0x201D]),
     (''rdsh;'', [0x21B3]),
     (''Re;'', [0x211C]),
     (''real;'', [0x211C]),
     (''realine;'', [0x211B]),
     (''realpart;'', [0x211C]),
     (''reals;'', [0x211D]),
     (''rect;'', [0x25AD]),
     (''REG'', [0xAE]),
     (''reg'', [0xAE]),
     (''REG;'', [0xAE]),
     (''reg;'', [0xAE]),
     (''ReverseElement;'', [0x220B]),
     (''ReverseEquilibrium;'', [0x21CB]),
     (''ReverseUpEquilibrium;'', [0x296F]),
     (''rfisht;'', [0x297D]),
     (''rfloor;'', [0x230B]),
     (''Rfr;'', [0x211C]),
     (''rfr;'', [0x1D52F]),
     (''rHar;'', [0x2964]),
     (''rhard;'', [0x21C1]),
     (''rharu;'', [0x21C0]),
     (''rharul;'', [0x296C]),
     (''Rho;'', [0x3A1]),
     (''rho;'', [0x3C1]),
     (''rhov;'', [0x3F1]),
     (''RightAngleBracket;'', [0x27E9]),
     (''RightArrow;'', [0x2192]),
     (''Rightarrow;'', [0x21D2]),
     (''rightarrow;'', [0x2192]),
     (''RightArrowBar;'', [0x21E5]),
     (''RightArrowLeftArrow;'', [0x21C4]),
     (''rightarrowtail;'', [0x21A3]),
     (''RightCeiling;'', [0x2309]),
     (''RightDoubleBracket;'', [0x27E7]),
     (''RightDownTeeVector;'', [0x295D]),
     (''RightDownVector;'', [0x21C2]),
     (''RightDownVectorBar;'', [0x2955]),
     (''RightFloor;'', [0x230B]),
     (''rightharpoondown;'', [0x21C1]),
     (''rightharpoonup;'', [0x21C0]),
     (''rightleftarrows;'', [0x21C4]),
     (''rightleftharpoons;'', [0x21CC]),
     (''rightrightarrows;'', [0x21C9]),
     (''rightsquigarrow;'', [0x219D]),
     (''RightTee;'', [0x22A2]),
     (''RightTeeArrow;'', [0x21A6]),
     (''RightTeeVector;'', [0x295B]),
     (''rightthreetimes;'', [0x22CC]),
     (''RightTriangle;'', [0x22B3]),
     (''RightTriangleBar;'', [0x29D0]),
     (''RightTriangleEqual;'', [0x22B5])]"

definition html5_entries_26 :: "(string \<times> pystr) list" where
  "html5_entries_26 =
    [(''RightUpDownVector;'', [0x294F]),
     (''RightUpTeeVector;'', [0x295C]),
     (''RightUpVector;'', [0x21BE]),
     (''RightUpVectorBar;'', [0x2954]),
     (''RightVector;'', [0x21C0]),
     (''RightVectorBar;'', [0x2953]),
     (''ring;'', [0x2DA]),
     (''risingdotseq;'', [0x2253]),
     (''rlarr;'', [0x21C4]),
     (''rlhar;'', [0x21CC]),
     (''rlm;'', [0x200F]),
     (''rmoust;'', [0x23B1]),
     (''rmoustache;'', [0x23B1]),
     (''rnmid;'', [0x2AEE]),
     (''roang;'', [0x27ED]),
     (''roarr;'', [0x21FE]),
     (''robrk;'', [0x27E7]),
     (''ropar;'', [0x2986]),
     (''Ropf;'', [0x211D]),
     (''ropf;'', [0x1D563]),
     (''roplus;'', [0x2A2E]),
     (''rotimes;'', [0x2A35]),
     (''RoundImplies;'', [0x2970]),
     (''rpar;'', [0x29]),
     (''rpargt;'', [0x2994]),
     (''rppolint;'', [0x2A12]),
     (''rrarr;'', [0x21C9]),
     (''Rrightarrow;'', [0x21DB]),
     (''rsaquo;'', [0x203A]),
     (''Rscr;'', [0x211B]),
     (''rscr;'', [0x1D4C7]),
     (''Rsh;'', [0x21B1]),
     (''rsh;'', [0x21B1]),
     (''rsqb;'', [0x5D]),
     (''rsquo;'', [0x2019]),
     (''rsquor;'', [0x2019]),
     (''rthree;'', [0x22CC]),
     (''rtimes;'', [0x22CA]),
     (''rtri;'', [0x25B9]),
     (''rtrie;'', [0x22B5]),
     (''rtrif;'', [0x25B8]),
     (''rtriltri;'', [0x29CE]),
     (''RuleDelayed;'', [0x29F4]),
     (''ruluhar;'', [0x2968]),
     (''rx;'', [0x211E]),
     (''Sacute;'', [0x15A]),
     (''sacute;'', [0x15B]),
     (''sbquo;'', [0x201A]),
     (''Sc;'', [0x2ABC]),
     (''sc;'', [0x227B]),
     (''scap;'', [0x2AB8]),
     (''Scaron;'', [0x160]),
     (''scaron;'', [0x161]),
     (''sccue;'', [0x227D]),
     (''scE;'', [0x2AB4]),
     (''sce;'', [0x2AB0]),
     (''Scedil;'', [0x15E]),
     (''scedil;'', [0x15F]),
     (''Scirc;'', [0x15C]),
     (''scirc;'', [0x15D]),
     (''scnap;'', [0x2ABA]),
     (''scnE;'', [0x2AB6]),
     (''scnsim;'', [0x22E9]),
     (''scpolint;'', [0x2A13])]"

definition html5_entries_27 :: "(string \<times> pystr) list" where
  "html5_entries_27 =
    [(''scsim;'', [0x227F]),
     (''Scy;'', [0x421]),
     (''scy;'', [0x441]),
     (''sdot;'', [0x22C5]),
     (''sdotb;'', [0x22A1]),
     (''sdote;'', [0x2A66]),
     (''searhk;'', [0x2925]),
     (''seArr;'', [0x21D8]),
     (''searr;'', [0x2198]),
     (''searrow;'', [0x2198]),
     (''sect'', [0xA7]),
     (''sect;'', [0xA7]),
     (''semi;'', [0x3B]),
     (''seswar;'', [0x2929]),
     (''setminus;'', [0x2216]),
     (''setmn;'', [0x2216]),
     (''sext;'', [0x2736]),
     (''Sfr;'', [0x1D516]),
     (''sfr;'', [0x1D530]),
     (''sfrown;'', [0x2322]),
     (''sharp;'', [0x266F]),
     (''SHCHcy;'', [0x429]),
     (''shchcy;'', [0x449]),
     (''SHcy;'', [0x428]),
     (''shcy;'', [0x448]),
     (''ShortDownArrow;'', [0x2193]),
     (''ShortLeftArrow;'', [0x2190]),
     (''shortmid;'', [0x2223]),
     (''shortparallel;'', [0x2225]),
     (''ShortRightArrow;'', [0x2192]),
     (''ShortUpArrow;'', [0x2191]),
     (''shy'', [0xAD]),
     (''shy;'', [0xAD]),
     (''Sigma;'', [0x3A3]),
     (''sigma;'', [0x3C3]),
     (''sigmaf;'', [0x3C2]),
     (''sigmav;'', [0x3C2]),
     (''sim;'', [0x223C]),
     (''simdot;'', [0x2A6A]),
     (''sime;'', [0x2243]),
     (''simeq;'', [0x2243]),
     (''simg;'', [0x2A9E]),
     (''simgE;'', [0x2AA0]),
     (''siml;'', [0x2A9D]),
     (''simlE;'', [0x2A9F]),
     (''simne;'', [0x2246]),
     (''simplus;'', [0x2A24]),
     (''simrarr;'', [0x2972]),
     (''slarr;'', [0x2190]),
     (''SmallCircle;'', [0x2218]),
     (''smallsetminus;'', [0x2216]),
     (''smashp;'', [0x2A33]),
     (''smeparsl;'', [0x29E4]),
     (''smid;'', [0x2223]),
     (''smile;'', [0x2323]),
     (''smt;'', [0x2AAA]),
     (''smte;'', [0x2AAC]),
     (''smtes;'', [0x2AAC, 0xFE00]),
     (''SOFTcy;'', [0x42C]),
     (''softcy;'', [0x44C]),
     (''sol;'', [0x2F]),
     (''solb;'', [0x29C4]),
     (''solbar;'', [0x233F]),
     (''Sopf;'', [0x1D54A])]"

definition html5_entries_28 :: "(string \<times> pystr) list" where
  "html5_entries_28 =
    [(''sopf;'', [0x1D564]),
     (''spades;'', [0x2660]),
     (''spadesuit;'', [0x2660]),
     (''spar;'', [0x2225]),
     (''sqcap;'', [0x2293]),
     (''sqcaps;'', [0x2293, 0xFE00]),
     (''sqcup;'', [0x2294]),
     (''sqcups;'', [0x2294, 0xFE00]),
     (''Sqrt;'', [0x221A]),
     (''sqsub;'', [0x228F]),
     (''sqsube;'', [0x2291]),
     (''sqsubset;'', [0x228F]),
     (''sqsubseteq;'', [0x2291]),
     (''sqsup;'', [0x2290]),
     (''sqsupe;'', [0x2292]),
     (''sqsupset;'', [0x2290]),
     (''sqsupseteq;'', [0x2292]),
     (''squ;'', [0x25A1]),
     (''Square;'', [0x25A1]),
     (''square;'', [0x25A1]),
     (''SquareIntersection;'', [0x2293]),
     (''SquareSubset;'', [0x228F]),
     (''SquareSubsetEqual;'', [0x2291]),
     (''SquareSuperset;'', [0x2290]),
     (''SquareSupersetEqual;'', [0x2292]),
     (''SquareUnion;'', [0x2294]),
     (''squarf;'', [0x25AA]),
     (''squf;'', [0x25AA]),
     (''srarr;'', [0x2192]),
     (''Sscr;'', [0x1D4AE]),
     (''sscr;'', [0x1D4C8]),
     (''ssetmn;'', [0x2216]),
     (''ssmile;'', [0x2323]),
     (''sstarf;'', [0x22C6]),
     (''Star;'', [0x22C6]),
     (''star;'', [0x2606]),
     (''starf;'', [0x2605]),
     (''straightepsilon;'', [0x3F5]),
     (''straightphi;'', [0x3D5]),
     (''strns;'', [0xAF]),
     (''Sub;'', [0x22D0]),
     (''sub;'', [0x2282]),
     (''subdot;'', [0x2ABD]),
     (''subE;'', [0x2AC5]),
     (''sube;'', [0x2286]),
     (''subedot;'', [0x2AC3]),
     (''submult;'', [0x2AC1]),
     (''subnE;'', [0x2ACB]),
     (''subne;'', [0x228A]),
     (''subplus;'', [0x2ABF]),
     (''subrarr;'', [0x2979]),
     (''Subset;'', [0x22D0]),
     (''subset;'', [0x2282]),
     (''subseteq;'', [0x2286]),
     (''subseteqq;'', [0x2AC5]),
     (''SubsetEqual;'', [0x2286]),
     (''subsetneq;'', [0x228A]),
     (''subsetneqq;'', [0x2ACB]),
     (''subsim;'', [0x2AC7]),
     (''subsub;'', [0x2AD5]),
     (''subsup;'', [0x2AD3]),
     (''succ;'', [0x227B]),
     (''succapprox;'', [0x2AB8]),
     (''succcurlyeq;'', [0x227D])]"

definition html5_entries_29 :: "(string \<times> pystr) list" where
  "html5_entries_29 =
    [(''Succeeds;'', [0x227B]),
     (''SucceedsEqual;'', [0x2AB0]),
     (''SucceedsSlantEqual;'', [0x227D]),
     (''SucceedsTilde;'', [0x227F]),
     (''succeq;'', [0x2AB0]),
     (''succnapprox;'', [0x2ABA]),
     (''succneqq;'', [0x2AB6]),
     (''succnsim;'', [0x22E9]),
     (''succsim;'', [0x227F]),
     (''SuchThat;'', [0x220B]),
     (''Sum;'', [0x2211]),
     (''sum;'', [0x2211]),
     (''sung;'', [0x266A]),
     (''sup1'', [0xB9]),
     (''sup1;'', [0xB9]),
     (''sup2'', [0xB2]),
     (''sup2;'', [0xB2]),
     (''sup3'', [0xB3]),
     (''sup3;'', [0xB3]),
     (''Sup;'', [0x22D1]),
     (''sup;'', [0x2283]),
     (''supdot;'', [0x2ABE]),
     (''supdsub;'', [0x2AD8]),
     (''supE;'', [0x2AC6]),
     (''supe;'', [0x2287]),
     (''supedot;'', [0x2AC4]),
     (''Superset;'', [0x2283]),
     (''SupersetEqual;'', [0x2287]),
     (''suphsol;'', [0x27C9]),
     (''suphsub;'', [0x2AD7]),
     (''suplarr;'', [0x297B]),
     (''supmult;'', [0x2AC2]),
     (''supnE;'', [0x2ACC]),
     (''supne;'', [0x228B]),
     (''supplus;'', [0x2AC0]),
     (''Supset;'', [0x22D1]),
     (''supset;'', [0x2283]),
     (''supseteq;'', [0x2287]),
     (''supseteqq;'', [0x2AC6]),
     (''supsetneq;'', [0x228B]),
     (''supsetneqq;'', [0x2ACC]),
     (''supsim;'', [0x2AC8]),
     (''supsub;'', [0x2AD4]),
     (''supsup;'', [0x2AD6]),
     (''swarhk;'', [0x2926]),
     (''swArr;'', [0x21D9]),
     (''swarr;'', [0x2199]),
     (''swarrow;'', [0x2199]),
     (''swnwar;'', [0x292A]),
     (''szlig'', [0xDF]),
     (''szlig;'', [0xDF]),
     (''Tab;'', [0x9]),
     (''target;'', [0x2316]),
     (''Tau;'', [0x3A4]),
     (''tau;'', [0x3C4]),
     (''tbrk;'', [0x23B4]),
     (''Tcaron;'', [0x164]),
     (''tcaron;'', [0x165]),
     (''Tcedil;'', [0x162]),
     (''tcedil;'', [0x163]),
     (''Tcy;'', [0x422]),
     (''tcy;'', [0x442]),
     (''tdot;'', [0x20DB]),
     (''telrec;'', [0x2315])]"

definition html5_entries_30 :: "(string \<times> pystr) list" where
  "html5_entries_30 =
    [(''Tfr;'', [0x1D517]),
     (''tfr;'', [0x1D531]),
     (''there4;'', [0x2234]),
     (''Therefore;'', [0x2234]),
     (''therefore;'', [0x2234]),
     (''Theta;'', [0x398]),
     (''theta;'', [0x3B8]),
     (''thetasym;'', [0x3D1]),
     (''thetav;'', [0x3D1]),
     (''thickapprox;'', [0x2248]),
     (''thicksim;'', [0x223C]),
     (''ThickSpace;'', [0x205F, 0x200A]),
     (''thinsp;'', [0x2009]),
     (''ThinSpace;'', [0x2009]),
     (''thkap;'', [0x2248]),
     (''thksim;'', [0x223C]),
     (''THORN'', [0xDE]),
     (''thorn'', [0xFE]),
     (''THORN;'', [0xDE]),
     (''thorn;'', [0xFE]),
     (''Tilde;'', [0x223C]),
     (''tilde;'', [0x2DC]),
     (''TildeEqual;'', [0x2243]),
     (''TildeFullEqual;'', [0x2245]),
     (''TildeTilde;'', [0x2248]),
     (''times'', [0xD7]),
     (''times;'', [0xD7]),
     (''timesb;'', [0x22A0]),
     (''timesbar;'', [0x2A31]),
     (''timesd;'', [0x2A30]),
     (''tint;'', [0x222D]),
     (''toea;'', [0x2928]),
     (''top;'', [0x22A4]),
     (''topbot;'', [0x2336]),
     (''topcir;'', [0x2AF1]),
     (''Topf;'', [0x1D54B]),
     (''topf;'', [0x1D565]),
     (''topfork;'', [0x2ADA]),
     (''tosa;'', [0x2929]),
     (''tprime;'', [0x2034]),
     (''TRADE;'', [0x2122]),
     (''trade;'', [0x2122]),
     (''triangle;'', [0x25B5]),
     (''triangledown;'', [0x25BF]),
     (''triangleleft;'', [0x25C3]),
     (''trianglelefteq;'', [0x22B4]),
     (''triangleq;'', [0x225C]),
     (''triangleright;'', [0x25B9]),
     (''trianglerighteq;'', [0x22B5]),
     (''tridot;'', [0x25EC]),
     (''trie;'', [0x225C]),
     (''triminus;'', [0x2A3A]),
     (''TripleDot;'', [0x20DB]),
     (''triplus;'', [0x2A39]),
     (''trisb;'', [0x29CD]),
     (''tritime;'', [0x2A3B]),
     (''trpezium;'', [0x23E2]),
     (''Tscr;'', [0x1D4AF]),
     (''tscr;'', [0x1D4C9]),
     (''TScy;'', [0x426]),
     (''tscy;'', [0x446]),
     (''TSHcy;'', [0x40B]),
     (''tshcy;'', [0x45B]),
     (''Tstrok;'', [0x166])]"

definition html5_entries_31 :: "(string \<times> pystr) list" where
  "html5_entries_31 =
    [(''tstrok;'', [0x167]),
     (''twixt;'', [0x226C]),
     (''twoheadleftarrow;'', [0x219E]),
     (''twoheadrightarrow;'', [0x21A0]),
     (''Uacute'', [0xDA]),
     (''uacute'', [0xFA]),
     (''Uacute;'', [0xDA]),
     (''uacute;'', [0xFA]),
     (''Uarr;'', [0x219F]),
     (''uArr;'', [0x21D1]),
     (''uarr;'', [0x2191]),
     (''Uarrocir;'', [0x2949]),
     (''Ubrcy;'', [0x40E]),
     (''ubrcy;'', [0x45E]),
     (''Ubreve;'', [0x16C]),
     (''ubreve;'', [0x16D]),
     (''Ucirc'', [0xDB]),
     (''ucirc'', [0xFB]),
     (''Ucirc;'', [0xDB]),
     (''ucirc;'', [0xFB]),
     (''Ucy;'', [0x423]),
     (''ucy;'', [0x443]),
     (''udarr;'', [0x21C5]),
     (''Udblac;'', [0x170]),
     (''udblac;'', [0x171]),
     (''udhar;'', [0x296E]),
     (''ufisht;'', [0x297E]),
     (''Ufr;'', [0x1D518]),
     (''ufr;'', [0x1D532]),
     (''Ugrave'', [0xD9]),
     (''ugrave'', [0xF9]),
     (''Ugrave;'', [0xD9]),
     (''ugrave;'', [0xF9]),
     (''uHar;'', [0x2963]),
     (''uharl;'', [0x21BF]),
     (''uharr;'', [0x21BE]),
     (''uhblk;'', [0x2580]),
     (''ulcorn;'', [0x231C]),
     (''ulcorner;'', [0x231C]),
     (''ulcrop;'', [0x230F]),
     (''ultri;'', [0x25F8]),
     (''Umacr;'', [0x16A]),
     (''umacr;'', [0x16B]),
     (''uml'', [0xA8]),
     (''uml;'', [0xA8]),
     (''UnderBar;'', [0x5F]),
     (''UnderBrace;'', [0x23DF]),
     (''UnderBracket;'', [0x23B5]),
     (''UnderParenthesis;'', [0x23DD]),
     (''Union;'', [0x22C3]),
     (''UnionPlus;'', [0x228E]),
     (''Uogon;'', [0x172]),
     (''uogon;'', [0x173]),
     (''Uopf;'', [0x1D54C]),
     (''uopf;'', [0x1D566]),
     (''UpArrow;'', [0x2191]),
     (''Uparrow;'', [0x21D1]),
     (''uparrow;'', [0x2191]),
     (''UpArrowBar;'', [0x2912]),
     (''UpArrowDownArrow;'', [0x21C5]),
     (''UpDownArrow;'', [0x2195]),
     (''Updownarrow;'', [0x21D5]),
     (''updownarrow;'', [0x2195]),
     (''UpEquilibrium;'', [0x296E])]"

definition html5_entries_32 :: "(string \<times> pystr) list" where
  "html5_entries_32 =
    [(''upharpoonleft;'', [0x21BF]),
     (''upharpoonright;'', [0x21BE]),
     (''uplus;'', [0x228E]),
     (''UpperLeftArrow;'', [0x2196]),
     (''UpperRightArrow;'', [0x2197]),
     (''Upsi;'', [0x3D2]),
     (''upsi;'', [0x3C5]),
     (''upsih;'', [0x3D2]),
     (''Upsilon;'', [0x3A5]),
     (''upsilon;'', [0x3C5]),
     (''UpTee;'', [0x22A5]),
     (''UpTeeArrow;'', [0x21A5]),
     (''upuparrows;'', [0x21C8]),
     (''urcorn;'', [0x231D]),
     (''urcorner;'', [0x231D]),
     (''urcrop;'', [0x230E]),
     (''Uring;'', [0x16E]),
     (''uring;'', [0x16F]),
     (''urtri;'', [0x25F9]),
     (''Uscr;'', [0x1D4B0]),
     (''uscr;'', [0x1D4CA]),
     (''utdot;'', [0x22F0]),
     (''Utilde;'', [0x168]),
     (''utilde;'', [0x169]),
     (''utri;'', [0x25B5]),
     (''utrif;'', [0x25B4]),
     (''uuarr;'', [0x21C8]),
     (''Uuml'', [0xDC]),
     (''uuml'', [0xFC]),
     (''Uuml;'', [0xDC]),
     (''uuml;'', [0xFC]),
     (''uwangle;'', [0x29A7]),
     (''vangrt;'', [0x299C]),
     (''varepsilon;'', [0x3F5]),
     (''varkappa;'', [0x3F0]),
     (''varnothing;'', [0x2205]),
     (''varphi;'', [0x3D5]),
     (''varpi;'', [0x3D6]),
     (''varpropto;'', [0x221D]),
     (''vArr;'', [0x21D5]),
     (''varr;'', [0x2195]),
     (''varrho;'', [0x3F1]),
     (''varsigma;'', [0x3C2]),
     (''varsubsetneq;'', [0x228A, 0xFE00]),
     (''varsubsetneqq;'', [0x2ACB, 0xFE00]),
     (''varsupsetneq;'', [0x228B, 0xFE00]),
     (''varsupsetneqq;'', [0x2ACC, 0xFE00]),
     (''vartheta;'', [0x3D1]),
     (''vartriangleleft;'', [0x22B2]),
     (''vartriangleright;'', [0x22B3]),
     (''Vbar;'', [0x2AEB]),
     (''vBar;'', [0x2AE8]),
     (''vBarv;'', [0x2AE9]),
     (''Vcy;'', [0x412]),
     (''vcy;'', [0x432]),
     (''VDash;'', [0x22AB]),
     (''Vdash;'', [0x22A9]),
     (''vDash;'', [0x22A8]),
     (''vdash;'', [0x22A2]),
     (''Vdashl;'', [0x2AE6]),
     (''Vee;'', [0x22C1]),
     (''vee;'', [0x2228]),
     (''veebar;'', [0x22BB]),
     (''veeeq;'', [0x225A])]"

definition html5_entries_33 :: "(string \<times> pystr) list" where
  "html5_entries_33 =
    [(''vellip;'', [0x22EE]),
     (''Verbar;'', [0x2016]),
     (''verbar;'', [0x7C]),
     (''Vert;'', [0x2016]),
     (''vert;'', [0x7C]),
     (''VerticalBar;'', [0x2223]),
     (''VerticalLine;'', [0x7C]),
     (''VerticalSeparator;'', [0x2758]),
     (''VerticalTilde;'', [0x2240]),
     (''VeryThinSpace;'', [0x200A]),
     (''Vfr;'', [0x1D519]),
     (''vfr;'', [0x1D533]),
     (''vltri;'', [0x22B2]),
     (''vnsub;'', [0x2282, 0x20D2]),
     (''vnsup;'', [0x2283, 0x20D2]),
     (''Vopf;'', [0x1D54D]),
     (''vopf;'', [0x1D567]),
     (''vprop;'', [0x221D]),
     (''vrtri;'', [0x22B3]),
     (''Vscr;'', [0x1D4B1]),
     (''vscr;'', [0x1D4CB]),
     (''vsubnE;'', [0x2ACB, 0xFE00]),
     (''vsubne;'', [0x228A, 0xFE00]),
     (''vsupnE;'', [0x2ACC, 0xFE00]),
     (''vsupne;'', [0x228B, 0xFE00]),
     (''Vvdash;'', [0x22AA]),
     (''vzigzag;'', [0x299A]),
     (''Wcirc;'', [0x174]),
     (''wcirc;'', [0x175]),
     (''wedbar;'', [0x2A5F]),
     (''Wedge;'', [0x22C0]),
     (''wedge;'', [0x2227]),
     (''wedgeq;'', [0x2259]),
     (''weierp;'', [0x2118]),
     (''Wfr;'', [0x1D51A]),
     (''wfr;'', [0x1D534]),
     (''Wopf;'', [0x1D54E]),
     (''wopf;'', [0x1D568]),
     (''wp;'', [0x2118]),
     (''wr;'', [0x2240]),
     (''wreath;'', [0x2240]),
     (''Wscr;'', [0x1D4B2]),
     (''wscr;'', [0x1D4CC]),
     (''xcap;'', [0x22C2]),
     (''xcirc;'', [0x25EF]),
     (''xcup;'', [0x22C3]),
     (''xdtri;'', [0x25BD]),
     (''Xfr;'', [0x1D51B]),
     (''xfr;'', [0x1D535]),
     (''xhArr;'', [0x27FA]),
     (''xharr;'', [0x27F7]),
     (''Xi;'', [0x39E]),
     (''xi;'', [0x3BE]),
     (''xlArr;'', [0x27F8]),
     (''xlarr;'', [0x27F5]),
     (''xmap;'', [0x27FC]),
     (''xnis;'', [0x22FB]),
     (''xodot;'', [0x2A00]),
     (''Xopf;'', [0x1D54F]),
     (''xopf;'', [0x1D569]),
     (''xoplus;'', [0x2A01]),
     (''xotime;'', [0x2A02]),
     (''xrArr;'', [0x27F9]),
     (''xrarr;'', [0x27F6])]"

definition html5_entries_34 :: "(string \<times> pystr) list" where
  "html5_entries_34 =
    [(''Xscr;'', [0x1D4B3]),
     (''xscr;'', [0x1D4CD]),
     (''xsqcup;'', [0x2A06]),
     (''xuplus;'', [0x2A04]),
     (''xutri;'', [0x25B3]),
     (''xvee;'', [0x22C1]),
     (''xwedge;'', [0x22C0]),
     (''Yacute'', [0xDD]),
     (''yacute'', [0xFD]),
     (''Yacute;'', [0xDD]),
     (''yacute;'', [0xFD]),
     (''YAcy;'', [0x42F]),
     (''yacy;'', [0x44F]),
     (''Ycirc;'', [0x176]),
     (''ycirc;'', [0x177]),
     (''Ycy;'', [0x42B]),
     (''ycy;'', [0x44B]),
     (''yen'', [0xA5]),
     (''yen;'', [0xA5]),
     (''Yfr;'', [0x1D51C]),
     (''yfr;'', [0x1D536]),
     (''YIcy;'', [0x407]),
     (''yicy;'', [0x457]),
     (''Yopf;'', [0x1D550]),
     (''yopf;'', [0x1D56A]),
     (''Yscr;'', [0x1D4B4]),
     (''yscr;'', [0x1D4CE]),
     (''YUcy;'', [0x42E]),
     (''yucy;'', [0x44E]),
     (''yuml'', [0xFF]),
     (''Yuml;'', [0x178]),
     (''yuml;'', [0xFF]),
     (''Zacute;'', [0x179]),
     (''zacute;'', [0x17A]),
     (''Zcaron;'', [0x17D]),
     (''zcaron;'', [0x17E]),
     (''Zcy;'', [0x417]),
     (''zcy;'', [0x437]),
     (''Zdot;'', [0x17B]),
     (''zdot;'', [0x17C]),
     (''zeetrf;'', [0x2128]),
     (''ZeroWidthSpace;'', [0x200B]),
     (''Zeta;'', [0x396]),
     (''zeta;'', [0x3B6]),
     (''Zfr;'', [0x2128]),
     (''zfr;'', [0x1D537]),
     (''ZHcy;'', [0x416]),
     (''zhcy;'', [0x436]),
     (''zigrarr;'', [0x21DD]),
     (''Zopf;'', [0x2124]),
     (''zopf;'', [0x1D56B]),
     (''Zscr;'', [0x1D4B5]),
     (''zscr;'', [0x1D4CF]),
     (''zwj;'', [0x200D]),
     (''zwnj;'', [0x200C])]"

definition html5_entries :: "(string \<times> pystr) list" where
  "html5_entries =
     html5_entries_0 @
     html5_entries_1 @
     html5_entries_2 @
     html5_entries_3 @
     html5_entries_4 @
     html5_entries_5 @
     html5_entries_6 @
     html5_entries_7 @
     html5_entries_8 @
     html5_entries_9 @
     html5_entries_10 @
     html5_entries_11 @
     html5_entries_12 @
     html5_entries_13 @
     html5_entries_14 @
     html5_entries_15 @
     html5_entries_16 @
     html5_entries_17 @
     html5_entries_18 @
     html5_entries_19 @
     html5_entries_20 @
     html5_entries_21 @
     html5_entries_22 @
     html5_entries_23 @
     html5_entries_24 @
     html5_entries_25 @
     html5_entries_26 @
     html5_entries_27 @
     html5_entries_28 @
     html5_entries_29 @
     html5_entries_30 @
     html5_entries_31 @
     html5_entries_32 @
     html5_entries_33 @
     html5_entries_34"

text \<open>The dictionary itself: \<^verbatim>\<open>s in _html5\<close> is \<open>html5 s \<noteq> None\<close>.\<close>

definition html5 :: "pystr \<Rightarrow> pystr option" where
  "html5 = map_of (map (\<lambda>(name, value). (str name, value)) html5_entries)"

subsection \<open>\<^verbatim>\<open>strip_html\<close>: removing tags\<close>

text \<open>
  \<^verbatim>\<open>re.sub(r"<[^>]+>", "", text)\<close> scans the text from the left. At a \<^verbatim>\<open><\<close> the greedy
  \<^verbatim>\<open>[^>]+\<close> takes every character up to the next \<^verbatim>\<open>>\<close> (line breaks and further
  \<^verbatim>\<open><\<close> included); the pattern matches when this run is not empty and a \<^verbatim>\<open>>\<close> follows
  it. No shorter run can match, since each is followed by a character other than
  \<^verbatim>\<open>>\<close>. \<open>tag_end cs\<close> is the text after the match of a tag whose \<^verbatim>\<open><\<close> stands just
  before \<open>cs\<close>.
\<close>

definition tag_end :: "pystr \<Rightarrow> pystr option" where
  "tag_end cs =
     (let body = takeWhile (\<lambda>c. c \<noteq> ch CHR ''>'') cs;
          rest = dropWhile (\<lambda>c. c \<noteq> ch CHR ''>'') cs
      in if body = [] \<or> rest = [] then None else Some (tl rest))"

lemma tag_end_shorter: "tag_end cs = Some rest \<Longrightarrow> length rest < length cs"
proof -
  assume a: "tag_end cs = Some rest"
  let ?r = "dropWhile (\<lambda>c. c \<noteq> ch CHR ''>'') cs"
  from a have "?r \<noteq> []" and "rest = tl ?r"
    by (auto simp: tag_end_def Let_def split: if_splits)
  then have "length rest < length ?r" by simp
  also have "length ?r \<le> length cs" by (rule length_dropWhile_le)
  finally show ?thesis .
qed

text \<open>
  A match is replaced by the empty string and the scan goes on behind it; a character at
  which no match starts is kept.
\<close>

function strip_tags :: "pystr \<Rightarrow> pystr" where
  "strip_tags [] = []"
| "strip_tags (c # cs) =
     (if c = ch CHR ''<'' then
        (case tag_end cs of
           Some rest \<Rightarrow> strip_tags rest
         | None \<Rightarrow> c # strip_tags cs)
      else c # strip_tags cs)"
  by pat_completeness auto
termination
  by (relation "measure length") (auto dest: tag_end_shorter)

subsection \<open>\<^verbatim>\<open>strip_html\<close>: decoding character references\<close>

text \<open>
  \<^verbatim>\<open>html.unescape\<close> of the Python standard library replaces every match of
  \<^verbatim>\<open>
  &(#[0-9]+;?|#[xX][0-9a-fA-F]+;?|[^\t\n\f <&#;]{1,32};?)
  \<close>
  by what \<^verbatim>\<open>_replace_charref\<close> returns for the group. The three alternatives are tried
  in this order; each quantifier is greedy, and the optional semicolon ends the pattern,
  so the first way an alternative matches is the one with the longest run and with the
  semicolon when there is one.
\<close>

definition is_digit :: "pychar \<Rightarrow> bool" where
  "is_digit c \<longleftrightarrow> ch CHR ''0'' \<le> c \<and> c \<le> ch CHR ''9''"

definition is_hexdigit :: "pychar \<Rightarrow> bool" where
  "is_hexdigit c \<longleftrightarrow>
     (ch CHR ''0'' \<le> c \<and> c \<le> ch CHR ''9'')
     \<or> (ch CHR ''a'' \<le> c \<and> c \<le> ch CHR ''f'')
     \<or> (ch CHR ''A'' \<le> c \<and> c \<le> ch CHR ''F'')"

text \<open>The class \<^verbatim>\<open>[^\t\n\f <&#;]\<close>.\<close>

definition is_name_char :: "pychar \<Rightarrow> bool" where
  "is_name_char c \<longleftrightarrow>
     c \<notin> {0x09, 0x0A, 0x0C, ch CHR '' '', ch CHR ''<'', ch CHR ''&'', ch CHR ''#'',
           ch CHR '';''}"

text \<open>
  The group of a match, by the alternative that matched: the digits of a decimal or of a
  hexadecimal reference (what \<^verbatim>\<open>s[1:].rstrip(';')\<close> and \<^verbatim>\<open>s[2:].rstrip(';')\<close> cut out
  of the group), or the whole group of a named reference, its semicolon included.
\<close>

datatype charref = Decimal pystr | Hexadecimal pystr | Named pystr

text \<open>\<^verbatim>\<open>;?\<close>: the text behind an optional semicolon.\<close>

definition skip_semicolon :: "pystr \<Rightarrow> pystr" where
  "skip_semicolon cs =
     (case cs of
        [] \<Rightarrow> []
      | c # rest \<Rightarrow> if c = ch CHR '';'' then rest else cs)"

text \<open>
  The match of the group at \<open>cs\<close>, the text just behind a \<^verbatim>\<open>&\<close>, with the text
  that follows the match.
\<close>

definition charref_match :: "pystr \<Rightarrow> (charref \<times> pystr) option" where
  "charref_match cs =
     (case cs of
        [] \<Rightarrow> None
      | c # t \<Rightarrow>
          if c = ch CHR ''#'' then
            (if takeWhile is_digit t \<noteq> [] then
               Some (Decimal (takeWhile is_digit t), skip_semicolon (dropWhile is_digit t))
             else
               (case t of
                  [] \<Rightarrow> None
                | x # u \<Rightarrow>
                    if (x = ch CHR ''x'' \<or> x = ch CHR ''X'') \<and> takeWhile is_hexdigit u \<noteq> [] then
                      Some (Hexadecimal (takeWhile is_hexdigit u),
                            skip_semicolon (dropWhile is_hexdigit u))
                    else None))
          else
            (let name = takeWhile is_name_char (take 32 cs);
                 after = drop (length name) cs
             in if name = [] then None
                else if after \<noteq> [] \<and> hd after = ch CHR '';'' then
                  Some (Named (name @ [ch CHR '';'']), tl after)
                else Some (Named name, after)))"

text \<open>
  The value of a run of digits of the base, which is what \<^verbatim>\<open>int(digits, 16)\<close> returns
  for every run of hexadecimal digits: integers are unbounded.
\<close>

definition digit_value :: "pychar \<Rightarrow> nat" where
  "digit_value c =
     (if ch CHR ''0'' \<le> c \<and> c \<le> ch CHR ''9'' then c - ch CHR ''0''
      else if ch CHR ''a'' \<le> c \<and> c \<le> ch CHR ''f'' then c - ch CHR ''a'' + 10
      else c - ch CHR ''A'' + 10)"

definition int_of_digits :: "nat \<Rightarrow> pystr \<Rightarrow> nat" where
  "int_of_digits base ds = foldl (\<lambda>acc d. acc * base + digit_value d) 0 ds"

text \<open>
  \<^verbatim>\<open>int(digits)\<close> on a run of decimal digits. The interpreter refuses a decimal literal of
  more than \<^verbatim>\<open>sys.int_info.default_max_str_digits\<close> digits, leading zeros included, with
  a \<^verbatim>\<open>ValueError\<close>; a base that is a power of two has no such limit.
\<close>

definition MAX_STR_DIGITS :: nat where
  "MAX_STR_DIGITS = 4300"

definition int_decimal :: "pystr \<Rightarrow> error + nat" where
  "int_decimal ds =
     (if length ds > MAX_STR_DIGITS then Inl ValueError
      else Inr (int_of_digits 10 ds))"

text \<open>\<^verbatim>\<open>_invalid_charrefs\<close> and \<^verbatim>\<open>_invalid_codepoints\<close> of the library.\<close>

definition invalid_charrefs :: "nat \<Rightarrow> pystr option" where
  "invalid_charrefs = map_of
     [(0x00, [0xFFFD]), (0x0D, [0x0D]), (0x80, [0x20AC]), (0x81, [0x81]),
      (0x82, [0x201A]), (0x83, [0x0192]), (0x84, [0x201E]), (0x85, [0x2026]),
      (0x86, [0x2020]), (0x87, [0x2021]), (0x88, [0x02C6]), (0x89, [0x2030]),
      (0x8A, [0x0160]), (0x8B, [0x2039]), (0x8C, [0x0152]), (0x8D, [0x8D]),
      (0x8E, [0x017D]), (0x8F, [0x8F]), (0x90, [0x90]), (0x91, [0x2018]),
      (0x92, [0x2019]), (0x93, [0x201C]), (0x94, [0x201D]), (0x95, [0x2022]),
      (0x96, [0x2013]), (0x97, [0x2014]), (0x98, [0x02DC]), (0x99, [0x2122]),
      (0x9A, [0x0161]), (0x9B, [0x203A]), (0x9C, [0x0153]), (0x9D, [0x9D]),
      (0x9E, [0x017E]), (0x9F, [0x0178])]"

definition invalid_codepoints :: "nat set" where
  "invalid_codepoints =
     {0x1 .. 0x8} \<union> {0xE .. 0x1F} \<union> {0x7F .. 0x9F} \<union> {0xFDD0 .. 0xFDEF}
     \<union> {0xB, 0xFFFE, 0xFFFF, 0x1FFFE, 0x1FFFF, 0x2FFFE, 0x2FFFF, 0x3FFFE, 0x3FFFF,
         0x4FFFE, 0x4FFFF, 0x5FFFE, 0x5FFFF, 0x6FFFE, 0x6FFFF, 0x7FFFE, 0x7FFFF,
         0x8FFFE, 0x8FFFF, 0x9FFFE, 0x9FFFF, 0xAFFFE, 0xAFFFF, 0xBFFFE, 0xBFFFF,
         0xCFFFE, 0xCFFFF, 0xDFFFE, 0xDFFFF, 0xEFFFE, 0xEFFFF, 0xFFFFE, 0xFFFFF,
         0x10FFFE, 0x10FFFF}"

text \<open>
  The numeric branch of \<^verbatim>\<open>_replace_charref\<close>:
  \<^verbatim>\<open>
  if num in _invalid_charrefs:
      return _invalid_charrefs[num]
  if 0xD800 <= num <= 0xDFFF or num > 0x10FFFF:
      return '\uFFFD'
  if num in _invalid_codepoints:
      return ''
  return chr(num)
  \<close>
\<close>

definition numeric_charref :: "nat \<Rightarrow> pystr" where
  "numeric_charref num =
     (case invalid_charrefs num of
        Some r \<Rightarrow> r
      | None \<Rightarrow>
          if (0xD800 \<le> num \<and> num \<le> 0xDFFF) \<or> num > 0x10FFFF then [0xFFFD]
          else if num \<in> invalid_codepoints then []
          else [num])"

text \<open>
  The named branch, for a name \<open>s\<close> that is not in the table:
  \<^verbatim>\<open>
  for x in range(len(s)-1, 1, -1):
      if s[:x] in _html5:
          return _html5[s[:x]] + s[x:]
  else:
      return '&' + s
  \<close>
  \<open>longest_name s x\<close> is the loop from \<open>x\<close> downwards.
\<close>

fun longest_name :: "pystr \<Rightarrow> nat \<Rightarrow> pystr" where
  "longest_name s 0 = ch CHR ''&'' # s"
| "longest_name s (Suc x) =
     (if Suc x \<le> 1 then ch CHR ''&'' # s
      else (case html5 (take (Suc x) s) of
              Some r \<Rightarrow> r @ drop (Suc x) s
            | None \<Rightarrow> longest_name s x))"

fun replace_charref :: "charref \<Rightarrow> error + pystr" where
  "replace_charref (Hexadecimal ds) = Inr (numeric_charref (int_of_digits 16 ds))"
| "replace_charref (Decimal ds) =
     (case int_decimal ds of
        Inl err \<Rightarrow> Inl err
      | Inr num \<Rightarrow> Inr (numeric_charref num))"
| "replace_charref (Named s) =
     (case html5 s of
        Some r \<Rightarrow> Inr r
      | None \<Rightarrow> Inr (longest_name s (length s - 1)))"

lemma skip_semicolon_length: "length (skip_semicolon cs) \<le> length cs"
  by (simp add: skip_semicolon_def split: list.splits)

lemma charref_match_shorter:
  "charref_match cs = Some (g, rest) \<Longrightarrow> length rest \<le> length cs"
proof -
  assume a: "charref_match cs = Some (g, rest)"
  have d: "length (skip_semicolon (dropWhile P t)) \<le> length t" for P and t :: pystr
    using skip_semicolon_length [of "dropWhile P t"] length_dropWhile_le [of P t]
    by linarith
  show ?thesis
  proof (cases cs)
    case Nil
    with a show ?thesis by (simp add: charref_match_def)
  next
    case (Cons c t)
    show ?thesis
    proof (cases "c = ch CHR ''#''")
      case True
      show ?thesis
      proof (cases "takeWhile is_digit t \<noteq> []")
        case dec: True
        with a Cons True have "rest = skip_semicolon (dropWhile is_digit t)"
          by (simp add: charref_match_def)
        with d [of is_digit t] Cons show ?thesis by simp
      next
        case nodec: False
        show ?thesis
        proof (cases t)
          case Nil
          with a Cons True nodec show ?thesis by (simp add: charref_match_def)
        next
          case (Cons x u)
          with a \<open>cs = c # t\<close> True nodec
          have "rest = skip_semicolon (dropWhile is_hexdigit u)"
            by (simp add: charref_match_def split: if_splits)
          with d [of is_hexdigit u] Cons \<open>cs = c # t\<close> show ?thesis by simp
        qed
      qed
    next
      case False
      let ?name = "takeWhile is_name_char (take 32 cs)"
      let ?after = "drop (length ?name) cs"
      from a Cons False have "rest = ?after \<or> rest = tl ?after"
        by (auto simp: charref_match_def Let_def split: if_splits)
      then show ?thesis by auto
    qed
  qed
qed

text \<open>
  \<^verbatim>\<open>_charref.sub(_replace_charref, s)\<close>: the matches are replaced from the left, and an
  exception of \<^verbatim>\<open>_replace_charref\<close> ends the substitution.
\<close>

function unescape_sub :: "pystr \<Rightarrow> error + pystr" where
  "unescape_sub [] = Inr []"
| "unescape_sub (c # cs) =
     (if c = ch CHR ''&'' then
        (case charref_match cs of
           Some (g, rest) \<Rightarrow>
             (case replace_charref g of
                Inl err \<Rightarrow> Inl err
              | Inr r \<Rightarrow>
                  (case unescape_sub rest of
                     Inl err \<Rightarrow> Inl err
                   | Inr out \<Rightarrow> Inr (r @ out)))
         | None \<Rightarrow>
             (case unescape_sub cs of
                Inl err \<Rightarrow> Inl err
              | Inr out \<Rightarrow> Inr (c # out)))
      else
        (case unescape_sub cs of
           Inl err \<Rightarrow> Inl err
         | Inr out \<Rightarrow> Inr (c # out)))"
  by pat_completeness auto
termination
  by (relation "measure length") (auto dest: charref_match_shorter)

text \<open>
  \<^verbatim>\<open>
  def unescape(s):
      if '&' not in s:
          return s
      return _charref.sub(_replace_charref, s)
  \<close>
\<close>

definition unescape :: "pystr \<Rightarrow> error + pystr" where
  "unescape s = (if ch CHR ''&'' \<notin> set s then Inr s else unescape_sub s)"

subsection \<open>\<^verbatim>\<open>strip_html\<close>: white space\<close>

text \<open>
  The characters that \<^verbatim>\<open>\s\<close> matches in a \<^verbatim>\<open>str\<close> pattern and that \<^verbatim>\<open>str.strip\<close>
  removes: those for which \<^verbatim>\<open>str.isspace\<close> holds.
\<close>

definition is_space :: "pychar \<Rightarrow> bool" where
  "is_space c \<longleftrightarrow>
     c \<in> {0x09, 0x0A, 0x0B, 0x0C, 0x0D, 0x1C, 0x1D, 0x1E, 0x1F, 0x20, 0x85, 0xA0,
          0x1680, 0x2000, 0x2001, 0x2002, 0x2003, 0x2004, 0x2005, 0x2006, 0x2007,
          0x2008, 0x2009, 0x200A, 0x2028, 0x2029, 0x202F, 0x205F, 0x3000}"

text \<open>\<^verbatim>\<open>re.sub(r"\s+", " ", text)\<close>: every maximal run of white space becomes one space.\<close>

function collapse_ws :: "pystr \<Rightarrow> pystr" where
  "collapse_ws [] = []"
| "collapse_ws (c # cs) =
     (if is_space c then SPACE # collapse_ws (dropWhile is_space cs)
      else c # collapse_ws cs)"
  by pat_completeness auto
termination
  by (relation "measure length") (auto simp: less_Suc_eq_le length_dropWhile_le)

text \<open>\<^verbatim>\<open>text.strip()\<close>: white space is removed at both ends.\<close>

definition strip :: "pystr \<Rightarrow> pystr" where
  "strip s = rev (dropWhile is_space (rev (dropWhile is_space s)))"

text \<open>
  \<^verbatim>\<open>
  def strip_html(text):
      text = re.sub(r"<[^>]+>", "", text)
      text = html.unescape(text)
      text = re.sub(r"\s+", " ", text).strip()
      return text
  \<close>
\<close>

definition strip_html :: "pystr \<Rightarrow> error + pystr" where
  "strip_html text =
     (case unescape (strip_tags text) of
        Inl err \<Rightarrow> Inl err
      | Inr decoded \<Rightarrow> Inr (strip (collapse_ws decoded)))"

subsection \<open>Markup in a text\<close>

text \<open>
  A tag is a text that the pattern \<^verbatim>\<open><[^>]+>\<close> of \<^verbatim>\<open>strip_html\<close> matches as a whole.
  \<open>contains_tag s\<close> says that the pattern matches somewhere in \<open>s\<close>
  (\<^verbatim>\<open>re.search\<close> finds a match): it looks for a \<^verbatim>\<open><\<close> at which a match starts.
\<close>

definition is_tag :: "pystr \<Rightarrow> bool" where
  "is_tag t \<longleftrightarrow>
     (\<exists>body. t = ch CHR ''<'' # body @ [ch CHR ''>''] \<and> body \<noteq> []
             \<and> ch CHR ''>'' \<notin> set body)"

fun contains_tag :: "pystr \<Rightarrow> bool" where
  "contains_tag [] = False"
| "contains_tag (c # cs) =
     ((c = ch CHR ''<'' \<and> tag_end cs \<noteq> None) \<or> contains_tag cs)"

text \<open>
  \<open>contains_charref s\<close> says that \<open>s\<close> holds a character reference: the pattern of
  \<^verbatim>\<open>html.unescape\<close> matches at some \<^verbatim>\<open>&\<close> of it.
\<close>

fun contains_charref :: "pystr \<Rightarrow> bool" where
  "contains_charref [] = False"
| "contains_charref (c # cs) =
     ((c = ch CHR ''&'' \<and> charref_match cs \<noteq> None) \<or> contains_charref cs)"

text \<open>
  White space as \<^verbatim>\<open>strip_html\<close> leaves it: every white space character is a space, and
  no two of them stand side by side.
\<close>

fun ws_normal :: "pystr \<Rightarrow> bool" where
  "ws_normal [] = True"
| "ws_normal (c # cs) =
     ((is_space c \<longrightarrow> c = SPACE \<and> (cs = [] \<or> \<not> is_space (hd cs))) \<and> ws_normal cs)"

subsection \<open>The page template\<close>

text \<open>
  The fixed text of the f-string that \<^verbatim>\<open>generate_html\<close> returns, cut at its three
  fields \<^verbatim>\<open>{updated_at}\<close>, \<^verbatim>\<open>{filter_buttons}\<close> and \<^verbatim>\<open>{cards}\<close>, one source line per
  list element. The doubled braces of the f-string stand for single ones. An apostrophe
  is written as its code point \<open>0x27\<close>.
\<close>

text \<open>The document up to the time of the update.\<close>

definition TEMPLATE_HEAD :: pystr where
  \<open>TEMPLATE_HEAD = concat
    [str ''<!DOCTYPE html>\<newline>'',
     str ''<html lang="en">\<newline>'',
     str ''<head>\<newline>'',
     str ''  <meta charset="UTF-8">\<newline>'',
     str ''  <meta name="viewport" content="width=device-width, initial-scale=1.0">\<newline>'',
     str ''  <title>MyNews</title>\<newline>'',
     str ''  <style>\<newline>'',
     str ''    *, *::before, *::after { box-sizing: border-box; }\<newline>'',
     str ''\<newline>'',
     str ''    body {\<newline>'',
     str ''      margin: 0;\<newline>'',
     str ''      padding: 0;\<newline>'',
     str ''      font-family: -apple-system, BlinkMacSystemFont, "Segoe UI", Roboto, "Helvetica Neue", Arial, sans-serif;\<newline>'',
     str ''      line-height: 1.6;\<newline>'',
     str ''      color: #1a1a2e;\<newline>'',
     str ''      background: #f8f9fa;\<newline>'',
     str ''    }\<newline>'',
     str ''\<newline>'',
     str ''    header {\<newline>'',
     str ''      background: #fff;\<newline>'',
     str ''      border-bottom: 1px solid #e2e8f0;\<newline>'',
     str ''      padding: 24px 32px 16px;\<newline>'',
     str ''    }\<newline>'',
     str ''\<newline>'',
     str ''    header h1 {\<newline>'',
     str ''      margin: 0 0 4px;\<newline>'',
     str ''      font-size: 28px;\<newline>'',
     str ''      font-weight: 700;\<newline>'',
     str ''      letter-spacing: -0.5px;\<newline>'',
     str ''    }\<newline>'',
     str ''\<newline>'',
     str ''    .updated {\<newline>'',
     str ''      margin: 0;\<newline>'',
     str ''      font-size: 13px;\<newline>'',
     str ''      color: #64748b;\<newline>'',
     str ''    }\<newline>'',
     str ''\<newline>'',
     str ''    .filters {\<newline>'',
     str ''      display: flex;\<newline>'',
     str ''      flex-wrap: wrap;\<newline>'',
     str ''      gap: 8px;\<newline>'',
     str ''      padding: 16px 32px;\<newline>'',
     str ''      background: #fff;\<newline>'',
     str ''      border-bottom: 1px solid #e2e8f0;\<newline>'',
     str ''    }\<newline>'',
     str ''\<newline>'',
     str ''    .filter-btn {\<newline>'',
     str ''      padding: 6px 14px;\<newline>'',
     str ''      border: 1px solid #e2e8f0;\<newline>'',
     str ''      border-radius: 20px;\<newline>'',
     str ''      background: #fff;\<newline>'',
     str ''      cursor: pointer;\<newline>'',
     str ''      font-size: 13px;\<newline>'',
     str ''      color: #475569;\<newline>'',
     str ''      transition: all 0.15s ease;\<newline>'',
     str ''    }\<newline>'',
     str ''\<newline>'',
     str ''    .filter-btn:hover {\<newline>'',
     str ''      background: #f1f5f9;\<newline>'',
     str ''    }\<newline>'',
     str ''\<newline>'',
     str ''    .filter-btn.active {\<newline>'',
     str ''      background: #1a1a2e;\<newline>'',
     str ''      color: #fff;\<newline>'',
     str ''      border-color: #1a1a2e;\<newline>'',
     str ''    }\<newline>'',
     str ''\<newline>'',
     str ''    main {\<newline>'',
     str ''      max-width: 960px;\<newline>'',
     str ''      margin: 24px auto;\<newline>'',
     str ''      padding: 0 24px;\<newline>'',
     str ''      display: grid;\<newline>'',
     str ''      grid-template-columns: repeat(auto-fill, minmax(320px, 1fr));\<newline>'',
     str ''      gap: 16px;\<newline>'',
     str ''    }\<newline>'',
     str ''\<newline>'',
     str ''    .card {\<newline>'',
     str ''      background: #fff;\<newline>'',
     str ''      border-radius: 8px;\<newline>'',
     str ''      padding: 20px;\<newline>'',
     str ''      border-left: 4px solid #e2e8f0;\<newline>'',
     str ''      box-shadow: 0 1px 3px rgba(0,0,0,0.04);\<newline>'',
     str ''      transition: box-shadow 0.15s ease;\<newline>'',
     str ''    }\<newline>'',
     str ''\<newline>'',
     str ''    .card:hover {\<newline>'',
     str ''      box-shadow: 0 4px 12px rgba(0,0,0,0.08);\<newline>'',
     str ''    }\<newline>'',
     str ''\<newline>'',
     str ''    .card-meta {\<newline>'',
     str ''      display: flex;\<newline>'',
     str ''      justify-content: space-between;\<newline>'',
     str ''      align-items: center;\<newline>'',
     str ''      margin-bottom: 8px;\<newline>'',
     str ''      font-size: 13px;\<newline>'',
     str ''    }\<newline>'',
     str ''\<newline>'',
     str ''    .source-badge {\<newline>'',
     str ''      font-weight: 600;\<newline>'',
     str ''    }\<newline>'',
     str ''\<newline>'',
     str ''    time {\<newline>'',
     str ''      color: #94a3b8;\<newline>'',
     str ''    }\<newline>'',
     str ''\<newline>'',
     str ''    .card h2 {\<newline>'',
     str ''      margin: 0 0 8px;\<newline>'',
     str ''      font-size: 17px;\<newline>'',
     str ''      font-weight: 600;\<newline>'',
     str ''      line-height: 1.4;\<newline>'',
     str ''    }\<newline>'',
     str ''\<newline>'',
     str ''    .card h2 a {\<newline>'',
     str ''      color: #1a1a2e;\<newline>'',
     str ''      text-decoration: none;\<newline>'',
     str ''    }\<newline>'',
     str ''\<newline>'',
     str ''    .card h2 a:hover {\<newline>'',
     str ''      color: #4f46e5;\<newline>'',
     str ''      text-decoration: underline;\<newline>'',
     str ''    }\<newline>'',
     str ''\<newline>'',
     str ''    .summary {\<newline>'',
     str ''      margin: 0;\<newline>'',
     str ''      font-size: 14px;\<newline>'',
     str ''      color: #64748b;\<newline>'',
     str ''      line-height: 1.5;\<newline>'',
     str ''    }\<newline>'',
     str ''\<newline>'',
     str ''    .empty {\<newline>'',
     str ''      grid-column: 1 / -1;\<newline>'',
     str ''      text-align: center;\<newline>'',
     str ''      color: #94a3b8;\<newline>'',
     str ''      font-size: 16px;\<newline>'',
     str ''      padding: 48px 0;\<newline>'',
     str ''    }\<newline>'',
     str ''\<newline>'',
     str ''    @media (prefers-color-scheme: dark) {\<newline>'',
     str ''      body {\<newline>'',
     str ''        background: #0f172a;\<newline>'',
     str ''        color: #e2e8f0;\<newline>'',
     str ''      }\<newline>'',
     str ''\<newline>'',
     str ''      header {\<newline>'',
     str ''        background: #1e293b;\<newline>'',
     str ''        border-bottom-color: #334155;\<newline>'',
     str ''      }\<newline>'',
     str ''\<newline>'',
     str ''      .updated {\<newline>'',
     str ''        color: #94a3b8;\<newline>'',
     str ''      }\<newline>'',
     str ''\<newline>'',
     str ''      .filters {\<newline>'',
     str ''        background: #1e293b;\<newline>'',
     str ''        border-bottom-color: #334155;\<newline>'',
     str ''      }\<newline>'',
     str ''\<newline>'',
     str ''      .filter-btn {\<newline>'',
     str ''        background: #1e293b;\<newline>'',
     str ''        border-color: #334155;\<newline>'',
     str ''        color: #cbd5e1;\<newline>'',
     str ''      }\<newline>'',
     str ''\<newline>'',
     str ''      .filter-btn:hover {\<newline>'',
     str ''        background: #334155;\<newline>'',
     str ''      }\<newline>'',
     str ''\<newline>'',
     str ''      .filter-btn.active {\<newline>'',
     str ''        background: #e2e8f0;\<newline>'',
     str ''        color: #0f172a;\<newline>'',
     str ''        border-color: #e2e8f0;\<newline>'',
     str ''      }\<newline>'',
     str ''\<newline>'',
     str ''      .card {\<newline>'',
     str ''        background: #1e293b;\<newline>'',
     str ''        box-shadow: 0 1px 3px rgba(0,0,0,0.2);\<newline>'',
     str ''      }\<newline>'',
     str ''\<newline>'',
     str ''      .card:hover {\<newline>'',
     str ''        box-shadow: 0 4px 12px rgba(0,0,0,0.3);\<newline>'',
     str ''      }\<newline>'',
     str ''\<newline>'',
     str ''      .card h2 a {\<newline>'',
     str ''        color: #e2e8f0;\<newline>'',
     str ''      }\<newline>'',
     str ''\<newline>'',
     str ''      .card h2 a:hover {\<newline>'',
     str ''        color: #818cf8;\<newline>'',
     str ''      }\<newline>'',
     str ''\<newline>'',
     str ''      .summary {\<newline>'',
     str ''        color: #94a3b8;\<newline>'',
     str ''      }\<newline>'',
     str ''\<newline>'',
     str ''      time {\<newline>'',
     str ''        color: #64748b;\<newline>'',
     str ''      }\<newline>'',
     str ''    }\<newline>'',
     str ''\<newline>'',
     str ''    @media (max-width: 480px) {\<newline>'',
     str ''      header {\<newline>'',
     str ''        padding: 16px;\<newline>'',
     str ''      }\<newline>'',
     str ''\<newline>'',
     str ''      .filters {\<newline>'',
     str ''        padding: 12px 16px;\<newline>'',
     str ''      }\<newline>'',
     str ''\<newline>'',
     str ''      main {\<newline>'',
     str ''        padding: 0 12px;\<newline>'',
     str ''        margin: 16px auto;\<newline>'',
     str ''        grid-template-columns: 1fr;\<newline>'',
     str ''      }\<newline>'',
     str ''    }\<newline>'',
     str ''  </style>\<newline>'',
     str ''</head>\<newline>'',
     str ''<body>\<newline>'',
     str ''  <header>\<newline>'',
     str ''    <h1>MyNews</h1>\<newline>'',
     str ''    <p class="updated">Last updated: '']\<close>

text \<open>From the time of the update to the filter buttons.\<close>

definition TEMPLATE_NAV :: pystr where
  \<open>TEMPLATE_NAV = concat
    [str ''</p>\<newline>'',
     str ''  </header>\<newline>'',
     str ''  <nav class="filters">\<newline>'',
     str ''    '']\<close>

text \<open>From the filter buttons to the cards.\<close>

definition TEMPLATE_MAIN :: pystr where
  \<open>TEMPLATE_MAIN = concat
    [str ''\<newline>'',
     str ''  </nav>\<newline>'',
     str ''  <main>\<newline>'']\<close>

text \<open>The document behind the cards.\<close>

definition TEMPLATE_TAIL :: pystr where
  \<open>TEMPLATE_TAIL = concat
    [str ''\<newline>'',
     str ''  </main>\<newline>'',
     str ''  <script>\<newline>'',
     str ''    document.querySelectorAll('' @ [0x27] @ str ''.filter-btn'' @ [0x27] @ str '').forEach(function(btn) {\<newline>'',
     str ''      btn.addEventListener('' @ [0x27] @ str ''click'' @ [0x27] @ str '', function() {\<newline>'',
     str ''        var source = this.dataset.source;\<newline>'',
     str ''        document.querySelectorAll('' @ [0x27] @ str ''.card'' @ [0x27] @ str '').forEach(function(card) {\<newline>'',
     str ''          card.style.display = (source === '' @ [0x27] @ str ''all'' @ [0x27] @ str '' || card.dataset.source === source) ? '' @ [0x27, 0x27] @ str '' : '' @ [0x27] @ str ''none'' @ [0x27] @ str '';\<newline>'',
     str ''        });\<newline>'',
     str ''        document.querySelectorAll('' @ [0x27] @ str ''.filter-btn'' @ [0x27] @ str '').forEach(function(b) {\<newline>'',
     str ''          b.classList.toggle('' @ [0x27] @ str ''active'' @ [0x27] @ str '', b === btn);\<newline>'',
     str ''        });\<newline>'',
     str ''      });\<newline>'',
     str ''    });\<newline>'',
     str ''  </script>\<newline>'',
     str ''</body>\<newline>'',
     str ''</html>\<newline>'']\<close>

subsection \<open>The feed registry\<close>

definition FEEDS :: "feed_config list" where
  "FEEDS =
     [\<lparr>name = str ''Import AI'',
       slug = str ''import-ai'',
       url = str ''https://importai.substack.com/feed'',
       icon = [0x1F916],
       color = str ''#6366f1'',
       max_items = 5\<rparr>,
      \<lparr>name = str ''Simon Willison'',
       slug = str ''simon-willison'',
       url = str ''https://simonwillison.net/atom/everything/'',
       icon = [0x1F4BB],
       color = str ''#059669'',
       max_items = 10\<rparr>,
      \<lparr>name = str ''Lenny'' @ [0x27] @ str ''s Newsletter'',
       slug = str ''lennys-newsletter'',
       url = str ''https://www.lennysnewsletter.com/feed'',
       icon = [0x1F4CA],
       color = str ''#d97706'',
       max_items = 5\<rparr>,
      \<lparr>name = str ''NN/g'',
       slug = str ''nng'',
       url = str ''https://www.nngroup.com/feed/rss/'',
       icon = [0x1F52C],
       color = str ''#dc2626'',
       max_items = 5\<rparr>,
      \<lparr>name = str ''Maggie Appleton'',
       slug = str ''maggie-appleton'',
       url = str ''https://maggieappleton.com/rss.xml'',
       icon = [0x1F33F],
       color = str ''#16a34a'',
       max_items = 5\<rparr>]"

subsection \<open>Dates\<close>

definition is_leap :: "int \<Rightarrow> bool" where
  "is_leap y \<longleftrightarrow> y mod 4 = 0 \<and> (y mod 100 \<noteq> 0 \<or> y mod 400 = 0)"

definition days_in_month :: "int \<Rightarrow> int \<Rightarrow> int" where
  "days_in_month y m =
     (if m = 2 then (if is_leap y then 29 else 28)
      else if m \<in> {4, 6, 9, 11} then 30
      else 31)"

text \<open>
  \<^verbatim>\<open>datetime(*date_parsed[:6])\<close>: the constructor raises \<^verbatim>\<open>ValueError\<close> for a field out
  of range.
\<close>

definition datetime_new :: "struct_time \<Rightarrow> error + datetime" where
  "datetime_new t =
     (if 1 \<le> tm_year t \<and> tm_year t \<le> 9999
         \<and> 1 \<le> tm_mon t \<and> tm_mon t \<le> 12
         \<and> 1 \<le> tm_mday t \<and> tm_mday t \<le> days_in_month (tm_year t) (tm_mon t)
         \<and> 0 \<le> tm_hour t \<and> tm_hour t \<le> 23
         \<and> 0 \<le> tm_min t \<and> tm_min t \<le> 59
         \<and> 0 \<le> tm_sec t \<and> tm_sec t \<le> 59
      then Inr \<lparr>year = tm_year t, month = tm_mon t, day = tm_mday t,
                hour = tm_hour t, minute = tm_min t, second = tm_sec t\<rparr>
      else Inl ValueError)"

text \<open>\<^verbatim>\<open>str(n)\<close> for a number that is not negative, and the zero padding of \<^verbatim>\<open>strftime\<close>.\<close>

fun decimal :: "nat \<Rightarrow> pystr" where
  "decimal n =
     (if n < 10 then [ch CHR ''0'' + n]
      else decimal (n div 10) @ [ch CHR ''0'' + n mod 10])"

declare decimal.simps [simp del]

definition zero_pad :: "nat \<Rightarrow> pystr \<Rightarrow> pystr" where
  "zero_pad width s = replicate (width - length s) (ch CHR ''0'') @ s"

text \<open>
  \<^verbatim>\<open>dt.strftime("%Y-%m-%d")\<close> and \<^verbatim>\<open>dt.strftime("%Y-%m-%d %H:%M")\<close>, as the C library
  of the platform (glibc) formats them: the year without padding, so that the year 999
  gives \<^verbatim>\<open>999-01-01\<close>, and the month, day, hour and minute in two digits.
\<close>

definition strftime_date :: "datetime \<Rightarrow> pystr" where
  "strftime_date dt =
     decimal (nat (year dt)) @ str ''-''
     @ zero_pad 2 (decimal (nat (month dt))) @ str ''-''
     @ zero_pad 2 (decimal (nat (day dt)))"

definition strftime_minute :: "datetime \<Rightarrow> pystr" where
  "strftime_minute dt =
     strftime_date dt @ str '' ''
     @ zero_pad 2 (decimal (nat (hour dt))) @ str '':''
     @ zero_pad 2 (decimal (nat (minute dt)))"

text \<open>
  The number of a day in the proleptic Gregorian calendar (\<^verbatim>\<open>date.toordinal\<close>; day 1 is
  1 January of the year 1), and the seconds from the epoch to a time of day on a date,
  both read as UTC: \<^verbatim>\<open>(self - epoch) // timedelta(0, 1)\<close>.
\<close>

definition days_before_year :: "int \<Rightarrow> int" where
  "days_before_year y = (y - 1) * 365 + (y - 1) div 4 - (y - 1) div 100 + (y - 1) div 400"

definition days_before_month :: "int \<Rightarrow> int \<Rightarrow> int" where
  "days_before_month y m = (\<Sum>k \<leftarrow> [1 ..< nat m]. days_in_month y (int k))"

definition toordinal :: "datetime \<Rightarrow> int" where
  "toordinal dt = days_before_year (year dt) + days_before_month (year dt) (month dt) + day dt"

definition EPOCH_ORDINAL :: int where
  "EPOCH_ORDINAL = 719163"

definition seconds_since_epoch :: "datetime \<Rightarrow> int" where
  "seconds_since_epoch dt =
     (toordinal dt - EPOCH_ORDINAL) * 86400
     + hour dt * 3600 + minute dt * 60 + second dt"

text \<open>
  The first second of the year 1 and the first second of the year 10000, in seconds from
  the epoch: the wall clock times that a \<^verbatim>\<open>datetime\<close> can hold lie between them.
\<close>

definition MIN_SECONDS :: int where
  "MIN_SECONDS = (1 - EPOCH_ORDINAL) * 86400"

definition MAX_SECONDS :: int where
  "MAX_SECONDS = (3652060 - EPOCH_ORDINAL) * 86400"

text \<open>
  The function \<^verbatim>\<open>local\<close> inside \<^verbatim>\<open>datetime._mktime\<close>:
  \<^verbatim>\<open>
  def local(u):
      y, m, d, hh, mm, ss = _time.localtime(u)[:6]
      return (datetime(y, m, d, hh, mm, ss) - epoch) // timedelta(0, 1)
  \<close>
  \<^verbatim>\<open>time.localtime\<close> gives the wall clock time of the local zone at the time \<open>u\<close>, and
  the constructor raises \<^verbatim>\<open>ValueError\<close> when its year is not one of 1 to 9999.
\<close>

definition local_seconds :: "(int \<Rightarrow> int) \<Rightarrow> int \<Rightarrow> error + int" where
  "local_seconds offset u =
     (if u + offset u < MIN_SECONDS \<or> MAX_SECONDS \<le> u + offset u then Inl ValueError
      else Inr (u + offset u))"

text \<open>
  \<^verbatim>\<open>datetime._mktime\<close> for a \<^verbatim>\<open>datetime\<close> whose \<^verbatim>\<open>fold\<close> is 0, as the constructor makes
  it:
  \<^verbatim>\<open>
  max_fold_seconds = 24 * 3600
  t = (self - epoch) // timedelta(0, 1)
  a = local(t) - t
  u1 = t - a
  t1 = local(u1)
  if t1 == t:
      u2 = u1 + (-max_fold_seconds, max_fold_seconds)[self.fold]
      b = local(u2) - u2
      if a == b:
          return u1
  else:
      b = t1 - u1
      assert a != b
  u2 = t - b
  t2 = local(u2)
  if t2 == t:
      return u2
  if t1 == t:
      return u1
  return (max, min)[self.fold](u1, u2)
  \<close>
  The assertion cannot fail: with \<open>a = b\<close> in the second branch \<open>t1\<close> would be \<open>t\<close>.
\<close>

definition mktime_tail :: "(int \<Rightarrow> int) \<Rightarrow> int \<Rightarrow> int \<Rightarrow> int \<Rightarrow> int \<Rightarrow> error + int" where
  "mktime_tail offset t u1 t1 b =
     (let u2 = t - b in
      case local_seconds offset u2 of
        Inl err \<Rightarrow> Inl err
      | Inr t2 \<Rightarrow>
          if t2 = t then Inr u2
          else if t1 = t then Inr u1
          else Inr (max u1 u2))"

definition mktime :: "(int \<Rightarrow> int) \<Rightarrow> datetime \<Rightarrow> error + int" where
  "mktime offset dt =
     (let t = seconds_since_epoch dt in
      case local_seconds offset t of
        Inl err \<Rightarrow> Inl err
      | Inr lt \<Rightarrow>
          (let a = lt - t; u1 = t - a in
           case local_seconds offset u1 of
             Inl err \<Rightarrow> Inl err
           | Inr t1 \<Rightarrow>
               if t1 = t then
                 (case local_seconds offset (u1 - 24 * 3600) of
                    Inl err \<Rightarrow> Inl err
                  | Inr lt2 \<Rightarrow>
                      (let b = lt2 - (u1 - 24 * 3600) in
                       if a = b then Inr u1 else mktime_tail offset t u1 t1 b))
               else mktime_tail offset t u1 t1 (t1 - u1)))"

text \<open>
  \<^verbatim>\<open>dt.timestamp()\<close> of a naive \<^verbatim>\<open>datetime\<close>: \<^verbatim>\<open>self._mktime() + self.microsecond / 1e6\<close>.
  The microsecond is 0, so the float has the integral value of \<^verbatim>\<open>_mktime\<close>, which lies
  far below \<open>2 ^ 53\<close>; it is compared with the integer 0 of an entry without date by
  value, and is modelled as an integer.
\<close>

definition timestamp :: "(int \<Rightarrow> int) \<Rightarrow> datetime \<Rightarrow> error + int" where
  "timestamp offset dt = mktime offset dt"

subsection \<open>\<^verbatim>\<open>fetch_feed\<close>\<close>

definition print :: "pystr \<Rightarrow> io \<Rightarrow> io" where
  "print line s = s\<lparr>stdout := stdout s @ [line]\<rparr>"

definition print_stderr :: "pystr \<Rightarrow> io \<Rightarrow> io" where
  "print_stderr line s = s\<lparr>stderr := stderr s @ [line]\<rparr>"

text \<open>\<^verbatim>\<open>d.get(key, default)\<close>.\<close>

definition get_default :: "'a option \<Rightarrow> 'a \<Rightarrow> 'a" where
  "get_default v d = (case v of Some x \<Rightarrow> x | None \<Rightarrow> d)"

text \<open>
  \<^verbatim>\<open>entry.get("published_parsed") or entry.get("updated_parsed")\<close>: a \<^verbatim>\<open>struct_time\<close> is a
  tuple that is not empty, so it counts as true.
\<close>

definition date_parsed :: "entry \<Rightarrow> struct_time option" where
  "date_parsed e =
     (case published_parsed e of
        Some t \<Rightarrow> Some t
      | None \<Rightarrow> updated_parsed e)"

text \<open>
  The body of the loop over the entries, which stands outside the \<^verbatim>\<open>try\<close> block: an
  exception of the constructor, of \<^verbatim>\<open>timestamp\<close> or of \<^verbatim>\<open>strip_html\<close> leaves
  \<^verbatim>\<open>fetch_feed\<close>.
  \<^verbatim>\<open>
  date_parsed = entry.get("published_parsed") or entry.get("updated_parsed")
  if date_parsed:
      dt = datetime(*date_parsed[:6])
      date_str = dt.strftime("%Y-%m-%d")
      sort_key = dt.timestamp()
  else:
      date_str = ""
      sort_key = 0
  summary_raw = entry.get("summary", "")
  summary = truncate(strip_html(summary_raw))
  articles.append({...})
  \<close>
\<close>

definition make_article :: "env \<Rightarrow> feed_config \<Rightarrow> entry \<Rightarrow> error + article" where
  "make_article ev feed_config e =
     (case (case date_parsed e of
              Some t \<Rightarrow>
                (case datetime_new t of
                   Inl err \<Rightarrow> Inl err
                 | Inr dt \<Rightarrow>
                     (case timestamp (utcoffset ev) dt of
                        Inl err \<Rightarrow> Inl err
                      | Inr key \<Rightarrow> Inr (strftime_date dt, key)))
            | None \<Rightarrow> Inr ([], 0)) of
        Inl err \<Rightarrow> Inl err
      | Inr (date_str, key) \<Rightarrow>
          (let summary_raw = get_default (summary_field e) []
           in case strip_html summary_raw of
                Inl err \<Rightarrow> Inl err
              | Inr stripped \<Rightarrow>
                  Inr \<lparr>title = get_default (title_field e) (str ''Untitled''),
                       link = get_default (link_field e) (str ''#''),
                       date = date_str,
                       sort_key' = key,
                       summary = truncate stripped MAX_LEN,
                       source_name = name feed_config,
                       source_slug = slug feed_config,
                       source_icon = icon feed_config,
                       source_color = color feed_config\<rparr>))"

text \<open>The loop: an exception in the body ends it, and the function, at once.\<close>

fun make_articles :: "env \<Rightarrow> feed_config \<Rightarrow> entry list \<Rightarrow> error + article list" where
  "make_articles ev feed_config [] = Inr []"
| "make_articles ev feed_config (e # es) =
     (case make_article ev feed_config e of
        Inl err \<Rightarrow> Inl err
      | Inr a \<Rightarrow>
          (case make_articles ev feed_config es of
             Inl err \<Rightarrow> Inl err
           | Inr articles \<Rightarrow> Inr (a # articles)))"

text \<open>
  \<^verbatim>\<open>
  except Exception as e:
      print(f"Warning: Failed to fetch {feed_config['name']}: {e}", file=sys.stderr)
      return []
  \<close>
  and otherwise the loop over \<^verbatim>\<open>parsed.entries[: feed_config["max_items"]]\<close>.
\<close>

definition fetch_feed :: "env \<Rightarrow> feed_config \<Rightarrow> io \<Rightarrow> (error + article list) \<times> io" where
  "fetch_feed ev feed_config s =
     (case net ev (url feed_config) of
        Failed e \<Rightarrow>
          (Inr [],
           print_stderr (str ''Warning: Failed to fetch '' @ name feed_config @ str '': '' @ e) s)
      | Parsed parsed \<Rightarrow>
          (make_articles ev feed_config (take (max_items feed_config) (entries parsed)), s))"

subsection \<open>\<^verbatim>\<open>generate_html\<close>\<close>

text \<open>\<^verbatim>\<open>s.replace(c, new)\<close> for a pattern \<open>c\<close> of one character.\<close>

definition replace :: "pychar \<Rightarrow> pystr \<Rightarrow> pystr \<Rightarrow> pystr" where
  "replace c new s = concat (map (\<lambda>x. if x = c then new else [x]) s)"

text \<open>
  \<^verbatim>\<open>html.escape\<close> of the Python standard library, with \<^verbatim>\<open>quote=True\<close>:
  \<^verbatim>\<open>
  s = s.replace("&", "&amp;") # Must be done first!
  s = s.replace("<", "&lt;")
  s = s.replace(">", "&gt;")
  if quote:
      s = s.replace('"', "&quot;")
      s = s.replace('\'', "&#x27;")
  return s
  \<close>
\<close>

definition html_escape :: "pystr \<Rightarrow> pystr" where
  \<open>html_escape s =
     replace 0x27 (str ''&#x27;'')
       (replace (ch CHR 0x22) (str ''&quot;'')
          (replace (ch CHR ''>'') (str ''&gt;'')
             (replace (ch CHR ''<'') (str ''&lt;'')
                (replace (ch CHR ''&'') (str ''&amp;'') s))))\<close>

text \<open>One button of the loop over \<^verbatim>\<open>FEEDS\<close>.\<close>

definition filter_button :: "feed_config \<Rightarrow> pystr" where
  \<open>filter_button feed = concat
     [str ''        <button class="filter-btn" data-source="'',
      slug feed,
      str ''">'',
      icon feed,
      str '' '',
      name feed,
      str ''</button>\<newline>'']\<close>

definition filter_buttons :: "feed_config list \<Rightarrow> pystr" where
  \<open>filter_buttons feeds =
     str ''<button class="filter-btn active" data-source="all">All</button>\<newline>''
     @ concat (map filter_button feeds)\<close>

text \<open>One card of the loop over the articles.\<close>

definition article_card :: "article \<Rightarrow> pystr" where
  \<open>article_card a =
     (let title_escaped = html_escape (title a);
          summary_escaped = html_escape (summary a);
          link_escaped = html_escape (link a)
      in concat
        [str ''      <article class="card" data-source="'',
         source_slug a,
         str ''" style="border-left-color: '',
         source_color a,
         str ''">\<newline>'',
         str ''        <div class="card-meta">\<newline>'',
         str ''          <span class="source-badge" style="color: '',
         source_color a,
         str ''">'',
         source_icon a,
         str '' '',
         html_escape (source_name a),
         str ''</span>\<newline>'',
         str ''          <time datetime="'',
         date a,
         str ''">'',
         date a,
         str ''</time>\<newline>'',
         str ''        </div>\<newline>'',
         str ''        <h2><a href="'',
         link_escaped,
         str ''" target="_blank" rel="noopener noreferrer">'',
         title_escaped,
         str ''</a></h2>\<newline>'',
         str ''        <p class="summary">'',
         summary_escaped,
         str ''</p>\<newline>'',
         str ''      </article>\<newline>''])\<close>

definition EMPTY_CARDS :: pystr where
  \<open>EMPTY_CARDS = str ''      <p class="empty">No articles available. Try running the build again later.</p>\<newline>''\<close>

text \<open>
  \<^verbatim>\<open>generate_html(articles, updated_at)\<close>: the buttons of the registry, the cards of the
  articles in their order (or the note that there are none), and the template around
  them.
\<close>

definition generate_html :: "article list \<Rightarrow> pystr \<Rightarrow> pystr" where
  "generate_html articles updated_at =
     (let cards = concat (map article_card articles);
          cards = (if cards = [] then EMPTY_CARDS else cards)
      in TEMPLATE_HEAD @ updated_at @ TEMPLATE_NAV @ filter_buttons FEEDS
         @ TEMPLATE_MAIN @ cards @ TEMPLATE_TAIL)"

subsection \<open>\<^verbatim>\<open>main\<close>\<close>

text \<open>
  \<^verbatim>\<open>list.sort(key=..., reverse=True)\<close>: the list is reversed, sorted by a stable sort in
  ascending order of the key, and reversed again, which is how the interpreter keeps the
  sort stable in descending order.
\<close>

definition list_sort_reverse :: "('a \<Rightarrow> int) \<Rightarrow> 'a list \<Rightarrow> 'a list" where
  "list_sort_reverse key xs = rev (sort_key key (rev xs))"

text \<open>
  The loop of \<^verbatim>\<open>main\<close> over the registry, with \<open>all_articles\<close> as it stands before the
  feeds that are left:
  \<^verbatim>\<open>
  for feed_config in FEEDS:
      print(f"  Fetching {feed_config['name']}...")
      articles = fetch_feed(feed_config)
      print(f"    Got {len(articles)} articles")
      all_articles.extend(articles)
  \<close>
\<close>

fun fetch_all ::
  "env \<Rightarrow> feed_config list \<Rightarrow> article list \<Rightarrow> io \<Rightarrow> (error + article list) \<times> io" where
  "fetch_all ev [] all_articles s = (Inr all_articles, s)"
| "fetch_all ev (feed_config # feeds) all_articles s =
     (case fetch_feed ev feed_config
             (print (str ''  Fetching '' @ name feed_config @ str ''...'') s) of
        (Inl err, s') \<Rightarrow> (Inl err, s')
      | (Inr articles, s') \<Rightarrow>
          fetch_all ev feeds (all_articles @ articles)
            (print (str ''    Got '' @ decimal (length articles) @ str '' articles'') s'))"

fun exit_code :: "exit \<Rightarrow> int" where
  "exit_code Returned = 0"
| "exit_code (SystemExit n) = n"
| "exit_code (Uncaught err) = 1"

definition OUTPUT_PATH :: pystr where
  "OUTPUT_PATH = str ''index.html''"

text \<open>
  \<^verbatim>\<open>
  if not all_articles:
      print("Error: No articles fetched from any source.", file=sys.stderr)
      sys.exit(1)
  all_articles.sort(key=lambda a: a["sort_key"], reverse=True)
  updated_at = datetime.now().strftime("%Y-%m-%d %H:%M")
  html_content = generate_html(all_articles, updated_at)
  output_path = "index.html"
  with open(output_path, "w", encoding="utf-8") as f:
      f.write(html_content)
  print(f"Generated {output_path} with {len(all_articles)} articles.")
  \<close>
  The file system takes every write.
\<close>

definition main :: "env \<Rightarrow> io \<Rightarrow> exit \<times> io" where
  "main ev s =
     (case fetch_all ev FEEDS [] (print (str ''Fetching feeds...'') s) of
        (Inl err, s') \<Rightarrow> (Uncaught err, s')
      | (Inr all_articles, s') \<Rightarrow>
          if all_articles = [] then
            (SystemExit 1,
             print_stderr (str ''Error: No articles fetched from any source.'') s')
          else
            (let sorted_articles = list_sort_reverse sort_key' all_articles;
                 updated_at = strftime_minute (now ev);
                 html_content = generate_html sorted_articles updated_at;
                 s'' = s'\<lparr>files := (files s')(OUTPUT_PATH \<mapsto> html_content)\<rparr>
             in (Returned,
                 print (str ''Generated '' @ OUTPUT_PATH @ str '' with ''
                        @ decimal (length sorted_articles) @ str '' articles.'') s'')))"

subsection \<open>Notions for stating the properties\<close>

text \<open>
  What \<^verbatim>\<open>fetch_feed\<close> returns for a feed: its value does not depend on what has been
  printed before, so it is read off a call with no output so far.
\<close>

definition feed_result :: "env \<Rightarrow> feed_config \<Rightarrow> error + article list" where
  "feed_result ev feed_config =
     fst (fetch_feed ev feed_config \<lparr>stdout = [], stderr = [], files = Map.empty\<rparr>)"

text \<open>
  The characters with which markup is written: the angle brackets that delimit a tag and
  the two quotation marks that delimit the value of an attribute.
\<close>

definition is_markup_char :: "pychar \<Rightarrow> bool" where
  "is_markup_char c \<longleftrightarrow> c = ch CHR ''<'' \<or> c = ch CHR ''>'' \<or> c = ch CHR 0x22 \<or> c = 0x27"

definition markup_chars :: "pystr \<Rightarrow> pystr" where
  "markup_chars s = filter is_markup_char s"

text \<open>
  What escaping does to one character, in the words of the documentation of
  \<^verbatim>\<open>html.escape\<close>: the characters \<^verbatim>\<open>&\<close>, \<^verbatim>\<open><\<close> and \<^verbatim>\<open>>\<close> and the two quotation marks
  are translated to HTML-safe sequences.
\<close>

definition escape_char :: "pychar \<Rightarrow> pystr" where
  "escape_char c =
     (if c = ch CHR ''&'' then str ''&amp;''
      else if c = ch CHR ''<'' then str ''&lt;''
      else if c = ch CHR ''>'' then str ''&gt;''
      else if c = ch CHR 0x22 then str ''&quot;''
      else if c = 0x27 then str ''&#x27;''
      else [c])"

text \<open>An article with its four texts from the feed emptied.\<close>

definition blank :: "article \<Rightarrow> article" where
  "blank a = a\<lparr>title := [], summary := [], link := [], source_name := []\<rparr>"

subsection \<open>A run on three entries\<close>

text \<open>
  Three entries of one feed: one of 1969, with an \<^verbatim>\<open>updated\<close> time only, one without
  any date, title, link or summary, and one of 2024.
\<close>

definition entry_old :: entry where
  "entry_old =
     \<lparr>title_field = Some (str ''Moon landing''),
      link_field = Some (str ''https://example.org/moon''),
      summary_field = Some (str ''<p>The <b>Eagle</b> has landed.</p>''),
      published_parsed = None,
      updated_parsed = Some \<lparr>tm_year = 1969, tm_mon = 7, tm_mday = 20,
                              tm_hour = 20, tm_min = 17, tm_sec = 0\<rparr>\<rparr>"

definition entry_undated :: entry where
  "entry_undated =
     \<lparr>title_field = None, link_field = None, summary_field = None,
      published_parsed = None, updated_parsed = None\<rparr>"

definition entry_new :: entry where
  "entry_new =
     \<lparr>title_field = Some (str ''<script>alert(1)</script>''),
      link_field = Some (str ''https://example.org/?a=1&b=2''),
      summary_field = Some (str ''Tom &#38; Jerry''),
      published_parsed = Some \<lparr>tm_year = 2024, tm_mon = 3, tm_mday = 1,
                                tm_hour = 12, tm_min = 0, tm_sec = 0\<rparr>,
      updated_parsed = None\<rparr>"

text \<open>
  A run in which only the fourth feed of the registry answers, with these three entries,
  in a process whose local time is UTC, at 07:08 on 6 May 2024; and a run in which no
  feed answers.
\<close>

definition env_one_feed :: env where
  "env_one_feed =
     \<lparr>net = (\<lambda>u. if u = str ''https://www.nngroup.com/feed/rss/''
                 then Parsed \<lparr>bozo = False,
                               entries = [entry_old, entry_undated, entry_new]\<rparr>
                 else Failed (str ''timed out'')),
      utcoffset = (\<lambda>u. 0),
      now = \<lparr>year = 2024, month = 5, day = 6, hour = 7, minute = 8, second = 0\<rparr>\<rparr>"

definition env_all_failed :: env where
  "env_all_failed =
     \<lparr>net = (\<lambda>u. Failed (str ''timed out'')),
      utcoffset = (\<lambda>u. 0),
      now = \<lparr>year = 2024, month = 5, day = 6, hour = 7, minute = 8, second = 0\<rparr>\<rparr>"


text \<open>Before the run nothing is printed, and the page of an earlier run is there.\<close>

definition io_start :: io where
  "io_start = \<lparr>stdout = [], stderr = [], files = [OUTPUT_PATH \<mapsto> str ''old page'']\<rparr>"

text \<open>The article records of the three entries.\<close>

definition article_old :: article where
  "article_old =
     \<lparr>title = str ''Moon landing'', link = str ''https://example.org/moon'',
      date = str ''1969-07-20'', sort_key' = - 14182980,
      summary = str ''The Eagle has landed.'', source_name = str ''NN/g'',
      source_slug = str ''nng'', source_icon = [0x1F52C], source_color = str ''#dc2626''\<rparr>"

definition article_undated :: article where
  "article_undated =
     \<lparr>title = str ''Untitled'', link = str ''#'',
      date = [], sort_key' = 0,
      summary = [], source_name = str ''NN/g'',
      source_slug = str ''nng'', source_icon = [0x1F52C], source_color = str ''#dc2626''\<rparr>"

definition article_new :: article where
  "article_new =
     \<lparr>title = str ''<script>alert(1)</script>'', link = str ''https://example.org/?a=1&b=2'',
      date = str ''2024-03-01'', sort_key' = 1709294400,
      summary = str ''Tom & Jerry'', source_name = str ''NN/g'',
      source_slug = str ''nng'', source_icon = [0x1F52C], source_color = str ''#dc2626''\<rparr>"

section \<open>Properties\<close>

subsection \<open>Truncation\<close>

lemma rfind_None_iff: "rfind c s = None \<longleftrightarrow> c \<notin> set s"
  by (induction s) (auto split: option.splits)

lemma rfind_Some_bound: "rfind c s = Some i \<Longrightarrow> i < length s"
  by (induction s arbitrary: i) (auto split: option.splits if_splits)

lemma rfind_Some_nth: "rfind c s = Some i \<Longrightarrow> s ! i = c"
  by (induction s arbitrary: i) (auto split: option.splits if_splits)

lemma rfind_Some_last:
  "rfind c s = Some i \<Longrightarrow> i < j \<Longrightarrow> j < length s \<Longrightarrow> s ! j \<noteq> c"
proof (induction s arbitrary: i j)
  case Nil
  then show ?case by simp
next
  case (Cons x xs)
  show ?case
  proof (cases "rfind c xs")
    case None
    then have "c \<notin> set xs" by (simp add: rfind_None_iff)
    moreover from Cons.prems None have "0 < j" by (auto split: if_splits)
    ultimately show ?thesis using Cons.prems(3)
      by (cases j) auto
  next
    case (Some k)
    with Cons.prems have i: "i = Suc k" by simp
    with Cons.prems obtain j' where j: "j = Suc j'" "k < j'" "j' < length xs"
      by (cases j) auto
    from Cons.IH[OF Some j(2) j(3)] show ?thesis by (simp add: j)
  qed
qed

lemma length_str_dots: "length (str ''...'') = 3"
  by (simp add: str_def ch_def)

text \<open>
  C5: a text of at most 200 characters is returned as it is, with no ellipsis.
\<close>

theorem truncate_short_identity:
  "length text \<le> MAX_LEN \<Longrightarrow> truncate text MAX_LEN = text"
  by (simp add: truncate_def)

theorem truncate_short_identity_witness:
  "length (str ''short summary'') \<le> MAX_LEN
   \<and> truncate (str ''short summary'') MAX_LEN = str ''short summary''"
  using truncate_short_identity [of "str ''short summary''"]
  by (simp add: str_def ch_def MAX_LEN_def)

text \<open>
  C10: when the first 200 characters of a longer text hold no space, the result is
  exactly these 200 characters followed by the three dots: a hard cut of length 203.
\<close>

theorem truncate_no_space_hard_cut:
  assumes "length text > MAX_LEN"
    and "SPACE \<notin> set (take MAX_LEN text)"
  shows "truncate text MAX_LEN = take MAX_LEN text @ str ''...''
         \<and> length (truncate text MAX_LEN) = 203"
proof -
  from assms(2) have "rfind SPACE (take MAX_LEN text) = None"
    by (simp add: rfind_None_iff)
  with assms(1) have eq: "truncate text MAX_LEN = take MAX_LEN text @ str ''...''"
    by (simp add: truncate_def rsplit1_def)
  from assms(1) have "length (take MAX_LEN text) = 200"
    by (simp add: MAX_LEN_def)
  with eq show ?thesis by (simp add: length_str_dots)
qed

theorem truncate_no_space_hard_cut_witness:
  "length (replicate 201 (120::nat)) > MAX_LEN
   \<and> SPACE \<notin> set (take MAX_LEN (replicate 201 120))
   \<and> truncate (replicate 201 120) MAX_LEN = replicate 200 120 @ str ''...''
   \<and> length (truncate (replicate 201 120) MAX_LEN) = 203"
proof -
  let ?t = "replicate 201 (120::nat)"
  have len: "length ?t > MAX_LEN" by (simp add: MAX_LEN_def)
  have nosp: "SPACE \<notin> set (take MAX_LEN ?t)" by (simp add: MAX_LEN_def SPACE_def ch_def)
  have tk: "take MAX_LEN ?t = replicate 200 120" by (simp add: MAX_LEN_def)
  from truncate_no_space_hard_cut [OF len nosp, unfolded tk] len nosp
  show ?thesis by blast
qed

text \<open>
  C4: a text longer than 200 characters with a space among its first 200 characters is
  cut at the last such space: the result is the prefix of the text that ends just
  before that space (a word boundary: the next character of the text is the space, and
  no later space lies before offset 200), followed by the three dots, and it is at most
  203 characters long.
\<close>

theorem truncate_word_boundary:
  assumes "length text > MAX_LEN"
    and "\<exists>i < MAX_LEN. text ! i = SPACE"
  shows "\<exists>n < MAX_LEN.
           truncate text MAX_LEN = take n text @ str ''...''
           \<and> text ! n = SPACE
           \<and> (\<forall>j. n < j \<and> j < MAX_LEN \<longrightarrow> text ! j \<noteq> SPACE)
           \<and> length (truncate text MAX_LEN) \<le> 203"
proof -
  let ?cut = "take MAX_LEN text"
  from assms(1) have len: "length ?cut = MAX_LEN" by simp
  from assms(2) obtain i where i: "i < MAX_LEN" "text ! i = SPACE" by blast
  with len have "?cut ! i = SPACE" by simp
  with i(1) len have "SPACE \<in> set ?cut"
    by (metis nth_mem)
  then obtain n where n: "rfind SPACE ?cut = Some n"
    by (cases "rfind SPACE ?cut") (simp_all add: rfind_None_iff)
  from rfind_Some_bound[OF n] len have n_lt: "n < MAX_LEN" by simp
  from rfind_Some_nth[OF n] n_lt have at_n: "text ! n = SPACE" by simp
  have later: "\<forall>j. n < j \<and> j < MAX_LEN \<longrightarrow> text ! j \<noteq> SPACE"
  proof (intro allI impI)
    fix j assume j: "n < j \<and> j < MAX_LEN"
    with len have "j < length ?cut" by simp
    from rfind_Some_last[OF n _ this] j have "?cut ! j \<noteq> SPACE" by simp
    with j show "text ! j \<noteq> SPACE" by simp
  qed
  from n_lt have take_take: "take n ?cut = take n text"
    by (simp add: min_def)
  from assms(1) n take_take
  have eq: "truncate text MAX_LEN = take n text @ str ''...''"
    by (simp add: truncate_def rsplit1_def)
  from n_lt assms(1) have "length (take n text) < 200"
    by (simp add: MAX_LEN_def)
  with eq have "length (truncate text MAX_LEN) \<le> 203"
    by (simp add: length_str_dots)
  with n_lt eq at_n later show ?thesis by blast
qed

text \<open>
  The witness text is \<open>ab cd\<close> followed by 200 times \<open>x\<close>: the only space before
  offset 200 is at index 2, and the result is \<open>ab...\<close>.
\<close>

theorem truncate_word_boundary_witness:
  "length (str ''ab cd'' @ replicate 200 120) > MAX_LEN
   \<and> (str ''ab cd'' @ replicate 200 120) ! 2 = SPACE
   \<and> (\<exists>n < MAX_LEN.
         truncate (str ''ab cd'' @ replicate 200 120) MAX_LEN
           = take n (str ''ab cd'' @ replicate 200 120) @ str ''...''
         \<and> (str ''ab cd'' @ replicate 200 120) ! n = SPACE
         \<and> length (truncate (str ''ab cd'' @ replicate 200 120) MAX_LEN) \<le> 203)"
proof -
  let ?t = "str ''ab cd'' @ replicate 200 (120::nat)"
  have len: "length ?t > MAX_LEN" by (simp add: str_def ch_def MAX_LEN_def)
  have sp: "?t ! 2 = SPACE" by (simp add: str_def SPACE_def ch_def)
  have "(2::nat) < MAX_LEN" by (simp add: MAX_LEN_def)
  with sp have ex: "\<exists>i < MAX_LEN. ?t ! i = SPACE" by blast
  from truncate_word_boundary [OF len ex] len sp show ?thesis by blast
qed
subsection \<open>Tags\<close>

lemma tag_end_None_iff:
  "tag_end cs = None \<longleftrightarrow> cs = [] \<or> hd cs = ch CHR ''>'' \<or> ch CHR ''>'' \<notin> set cs"
proof (cases cs)
  case Nil
  then show ?thesis by (simp add: tag_end_def)
next
  case (Cons x xs)
  show ?thesis
  proof (cases "x = ch CHR ''>''")
    case True
    with Cons show ?thesis by (simp add: tag_end_def)
  next
    case False
    have "dropWhile (\<lambda>c. c \<noteq> ch CHR ''>'') xs = [] \<longleftrightarrow> ch CHR ''>'' \<notin> set xs"
      by (auto simp: dropWhile_eq_Nil_conv)
    with Cons False show ?thesis by (simp add: tag_end_def)
  qed
qed

lemma tag_end_Some_iff:
  "tag_end cs = Some rest \<longleftrightarrow>
     (\<exists>body. cs = body @ ch CHR ''>'' # rest \<and> body \<noteq> [] \<and> ch CHR ''>'' \<notin> set body)"
proof
  assume a: "tag_end cs = Some rest"
  let ?P = "\<lambda>c. c \<noteq> ch CHR ''>''"
  from a have b: "takeWhile ?P cs \<noteq> []" and r: "dropWhile ?P cs \<noteq> []"
    and t: "rest = tl (dropWhile ?P cs)"
    by (auto simp: tag_end_def Let_def split: if_splits)
  from r have "hd (dropWhile ?P cs) = ch CHR ''>''"
    using hd_dropWhile [of ?P cs] by auto
  with r t have "dropWhile ?P cs = ch CHR ''>'' # rest"
    by (cases "dropWhile ?P cs") auto
  then have "cs = takeWhile ?P cs @ ch CHR ''>'' # rest"
    by (metis takeWhile_dropWhile_id)
  moreover have "ch CHR ''>'' \<notin> set (takeWhile ?P cs)"
    by (auto dest: set_takeWhileD)
  ultimately show "\<exists>body. cs = body @ ch CHR ''>'' # rest \<and> body \<noteq> []
      \<and> ch CHR ''>'' \<notin> set body"
    using b by blast
next
  assume "\<exists>body. cs = body @ ch CHR ''>'' # rest \<and> body \<noteq> [] \<and> ch CHR ''>'' \<notin> set body"
  then obtain body where cs: "cs = body @ ch CHR ''>'' # rest" and ne: "body \<noteq> []"
    and no: "ch CHR ''>'' \<notin> set body" by blast
  let ?P = "\<lambda>c. c \<noteq> ch CHR ''>''"
  from no have all: "\<And>x. x \<in> set body \<Longrightarrow> ?P x" by auto
  have "takeWhile ?P cs = body" "dropWhile ?P cs = ch CHR ''>'' # rest"
    unfolding cs using all by (simp_all add: takeWhile_append2 dropWhile_append2)
  with ne show "tag_end cs = Some rest" by (simp add: tag_end_def)
qed

text \<open>\<open>contains_tag\<close> holds exactly when some part of the text is a tag.\<close>

lemma contains_tag_iff:
  "contains_tag s \<longleftrightarrow> (\<exists>pre t post. s = pre @ t @ post \<and> is_tag t)"
proof (induction s)
  case Nil
  then show ?case by (auto simp: is_tag_def)
next
  case (Cons c cs)
  show ?case
  proof
    assume "contains_tag (c # cs)"
    then consider (here) "c = ch CHR ''<''" "tag_end cs \<noteq> None" | (later) "contains_tag cs"
      by auto
    then show "\<exists>pre t post. c # cs = pre @ t @ post \<and> is_tag t"
    proof cases
      case here
      then obtain rest where "tag_end cs = Some rest" by auto
      then obtain body where b: "cs = body @ ch CHR ''>'' # rest" "body \<noteq> []"
        "ch CHR ''>'' \<notin> set body"
        by (auto simp: tag_end_Some_iff)
      then have "is_tag (c # body @ [ch CHR ''>''])"
        using here(1) by (auto simp: is_tag_def)
      moreover have "c # cs = [] @ (c # body @ [ch CHR ''>'']) @ rest"
        using b(1) by simp
      ultimately show ?thesis by blast
    next
      case later
      with Cons.IH obtain pre t post where "cs = pre @ t @ post" "is_tag t" by blast
      then have "c # cs = (c # pre) @ t @ post" by simp
      with \<open>is_tag t\<close> show ?thesis by blast
    qed
  next
    assume "\<exists>pre t post. c # cs = pre @ t @ post \<and> is_tag t"
    then obtain pre t post where d: "c # cs = pre @ t @ post" and t: "is_tag t" by blast
    show "contains_tag (c # cs)"
    proof (cases pre)
      case Nil
      from t obtain body where b: "t = ch CHR ''<'' # body @ [ch CHR ''>'']" "body \<noteq> []"
        "ch CHR ''>'' \<notin> set body" by (auto simp: is_tag_def)
      with d Nil have "c = ch CHR ''<''" "cs = body @ ch CHR ''>'' # post" by auto
      with b have "tag_end cs = Some post" by (auto simp: tag_end_Some_iff)
      with \<open>c = ch CHR ''<''\<close> show ?thesis by simp
    next
      case (Cons p ps)
      with d have "cs = ps @ t @ post" by simp
      with t Cons.IH have "contains_tag cs" by blast
      then show ?thesis by simp
    qed
  qed
qed

lemma set_strip_tags: "set (strip_tags s) \<subseteq> set s"
proof (induction s rule: strip_tags.induct)
  case 1
  then show ?case by simp
next
  case (2 c cs)
  show ?case
  proof (cases "c = ch CHR ''<''")
    case False
    with 2 show ?thesis by auto
  next
    case True
    show ?thesis
    proof (cases "tag_end cs")
      case None
      with 2 True show ?thesis by auto
    next
      case (Some rest)
      then obtain body where "cs = body @ ch CHR ''>'' # rest"
        by (auto simp: tag_end_Some_iff)
      then have "set rest \<subseteq> set cs" by auto
      with 2(2)[OF True Some] True Some show ?thesis by auto
    qed
  qed
qed

lemma strip_tags_keeps_tag_end_None:
  "tag_end cs = None \<Longrightarrow> tag_end (strip_tags cs) = None"
proof -
  assume a: "tag_end cs = None"
  then consider "cs = []" | x xs where "cs = x # xs" "x = ch CHR ''>''"
    | "ch CHR ''>'' \<notin> set cs"
    by (cases cs) (auto simp: tag_end_None_iff)
  then show ?thesis
  proof cases
    case 1
    then show ?thesis by (simp add: tag_end_None_iff)
  next
    case 2
    have "ch CHR ''>'' \<noteq> ch CHR ''<''" by (simp add: ch_def)
    with 2 show ?thesis by (simp add: tag_end_None_iff)
  next
    case 3
    with set_strip_tags [of cs] show ?thesis by (auto simp: tag_end_None_iff)
  qed
qed

lemma strip_tags_no_tag: "\<not> contains_tag (strip_tags s)"
proof (induction s rule: strip_tags.induct)
  case 1
  then show ?case by simp
next
  case (2 c cs)
  show ?case
  proof (cases "c = ch CHR ''<''")
    case False
    with 2 show ?thesis by simp
  next
    case True
    show ?thesis
    proof (cases "tag_end cs")
      case None
      with 2(1)[OF True None] True strip_tags_keeps_tag_end_None [OF None]
      show ?thesis by simp
    next
      case (Some rest)
      with 2(2)[OF True Some] True show ?thesis by simp
    qed
  qed
qed

lemma strip_tags_id: "\<not> contains_tag s \<Longrightarrow> strip_tags s = s"
  by (induction s) auto

lemma no_tag_suffix: "\<not> contains_tag (xs @ ys) \<Longrightarrow> \<not> contains_tag ys"
  by (induction xs) auto

lemma no_tag_prefix: "\<not> contains_tag (xs @ ys) \<Longrightarrow> \<not> contains_tag xs"
proof -
  assume a: "\<not> contains_tag (xs @ ys)"
  show "\<not> contains_tag xs"
  proof
    assume "contains_tag xs"
    then obtain pre t post where "xs = pre @ t @ post" "is_tag t"
      by (auto simp: contains_tag_iff)
    then have "xs @ ys = pre @ t @ (post @ ys)" by simp
    with \<open>is_tag t\<close> have "contains_tag (xs @ ys)"
      unfolding contains_tag_iff by blast
    with a show False by simp
  qed
qed

lemma no_lt_no_tag: "ch CHR ''<'' \<notin> set t \<Longrightarrow> \<not> contains_tag t"
  by (induction t) auto

lemma no_tag_append_plain:
  assumes "\<not> contains_tag p" and "ch CHR ''>'' \<notin> set t" and "ch CHR ''<'' \<notin> set t"
  shows "\<not> contains_tag (p @ t)"
  using assms(1)
proof (induction p)
  case Nil
  from assms(3) show ?case by (simp add: no_lt_no_tag)
next
  case (Cons c p)
  then have ih: "\<not> contains_tag (p @ t)" by simp
  have "tag_end (p @ t) = None" if "tag_end p = None"
  proof -
    from that consider "p = []" | "p \<noteq> []" "hd p = ch CHR ''>''" | "ch CHR ''>'' \<notin> set p"
      by (cases "p = []") (auto simp: tag_end_None_iff)
    then show ?thesis
    proof cases
      case 1
      with assms(2) show ?thesis by (simp add: tag_end_None_iff)
    next
      case 2
      then show ?thesis by (simp add: tag_end_None_iff)
    next
      case 3
      with assms(2) show ?thesis by (simp add: tag_end_None_iff)
    qed
  qed
  with Cons.prems ih show ?case by auto
qed

subsection \<open>White space\<close>

lemma is_space_SPACE: "is_space SPACE"
  by (simp add: is_space_def SPACE_def ch_def)

lemma not_space_lt: "\<not> is_space (ch CHR ''<'')"
  by (simp add: is_space_def ch_def)

lemma not_space_gt: "\<not> is_space (ch CHR ''>'')"
  by (simp add: is_space_def ch_def)

lemma set_collapse_ws: "set (collapse_ws s) \<subseteq> insert SPACE (set s)"
proof (induction s rule: collapse_ws.induct)
  case 1
  then show ?case by simp
next
  case (2 c cs)
  show ?case
  proof (cases "is_space c")
    case True
    have "set (dropWhile is_space cs) \<subseteq> set cs"
      by (auto dest: set_dropWhileD)
    with 2(1)[OF True] True show ?thesis by auto
  next
    case False
    with 2(2)[OF False] show ?thesis by auto
  qed
qed

lemma collapse_ws_keeps_tag_end_None:
  "tag_end cs = None \<Longrightarrow> tag_end (collapse_ws cs) = None"
proof -
  assume "tag_end cs = None"
  then consider "cs = []" | x xs where "cs = x # xs" "x = ch CHR ''>''"
    | "ch CHR ''>'' \<notin> set cs"
    by (cases cs) (auto simp: tag_end_None_iff)
  then show ?thesis
  proof cases
    case 1
    then show ?thesis by (simp add: tag_end_None_iff)
  next
    case 2
    then show ?thesis by (simp add: tag_end_None_iff not_space_gt)
  next
    case 3
    have "ch CHR ''>'' \<noteq> SPACE" by (simp add: SPACE_def ch_def)
    with 3 set_collapse_ws [of cs] show ?thesis by (auto simp: tag_end_None_iff)
  qed
qed

lemma collapse_ws_no_tag: "\<not> contains_tag s \<Longrightarrow> \<not> contains_tag (collapse_ws s)"
proof (induction s rule: collapse_ws.induct)
  case 1
  then show ?case by simp
next
  case (2 c cs)
  show ?case
  proof (cases "is_space c")
    case True
    from "2.prems" have "\<not> contains_tag cs" by simp
    then have "\<not> contains_tag (takeWhile is_space cs @ dropWhile is_space cs)" by simp
    then have "\<not> contains_tag (dropWhile is_space cs)" by (rule no_tag_suffix)
    from 2(1)[OF True this] have "\<not> contains_tag (collapse_ws (dropWhile is_space cs))" .
    moreover have "SPACE \<noteq> ch CHR ''<''" by (simp add: SPACE_def ch_def)
    ultimately show ?thesis using True by simp
  next
    case False
    from "2.prems" have nt: "\<not> contains_tag cs" by simp
    from 2(2)[OF False nt] have ih: "\<not> contains_tag (collapse_ws cs)" .
    from "2.prems" have "c = ch CHR ''<'' \<Longrightarrow> tag_end cs = None" by auto
    then have "c = ch CHR ''<'' \<Longrightarrow> tag_end (collapse_ws cs) = None"
      by (simp add: collapse_ws_keeps_tag_end_None)
    with ih False show ?thesis by auto
  qed
qed

lemma rstrip_prefix:
  "s = rev (dropWhile is_space (rev s)) @ rev (takeWhile is_space (rev s))"
proof -
  have "rev s = takeWhile is_space (rev s) @ dropWhile is_space (rev s)" by simp
  then have "rev (rev s) = rev (takeWhile is_space (rev s) @ dropWhile is_space (rev s))"
    by simp
  then show ?thesis by (simp only: rev_rev_ident rev_append)
qed

lemma strip_decompose: "\<exists>pre post. s = pre @ strip s @ post"
proof -
  let ?l = "dropWhile is_space s"
  have "s = takeWhile is_space s @ ?l" by simp
  moreover have "?l = strip s @ rev (takeWhile is_space (rev ?l))"
    unfolding strip_def by (rule rstrip_prefix)
  ultimately have "s = takeWhile is_space s @ strip s @ rev (takeWhile is_space (rev ?l))"
    by simp
  then show ?thesis by blast
qed

lemma strip_no_tag: "\<not> contains_tag s \<Longrightarrow> \<not> contains_tag (strip s)"
proof -
  assume a: "\<not> contains_tag s"
  obtain pre post where "s = pre @ strip s @ post" using strip_decompose by blast
  with a have "\<not> contains_tag (pre @ strip s @ post)" by simp
  then have "\<not> contains_tag (strip s @ post)" by (rule no_tag_suffix)
  then show ?thesis by (rule no_tag_prefix)
qed

lemma set_strip: "set (strip s) \<subseteq> set s"
proof -
  obtain pre post where "s = pre @ strip s @ post" using strip_decompose by blast
  then have "set s = set pre \<union> set (strip s) \<union> set post"
    by (metis set_append sup_assoc)
  then show ?thesis by auto
qed

lemma truncate_no_tag: "\<not> contains_tag t \<Longrightarrow> \<not> contains_tag (truncate t n)"
proof -
  assume a: "\<not> contains_tag t"
  have pref: "\<not> contains_tag (take k t)" for k
  proof -
    from a have "\<not> contains_tag (take k t @ drop k t)" by simp
    then show ?thesis by (rule no_tag_prefix)
  qed
  have dots: "ch CHR ''>'' \<notin> set (str ''...'')" "ch CHR ''<'' \<notin> set (str ''...'')"
    by (simp_all add: str_def ch_def)
  show ?thesis
  proof (cases "length t \<le> n")
    case True
    with a show ?thesis by (simp add: truncate_def)
  next
    case False
    have "\<exists>k. fst (rsplit1 SPACE (take n t)) = take k t"
    proof (cases "rfind SPACE (take n t)")
      case None
      then show ?thesis by (auto simp: rsplit1_def)
    next
      case (Some i)
      then have "fst (rsplit1 SPACE (take n t)) = take (min i n) t"
        by (simp add: rsplit1_def)
      then show ?thesis by blast
    qed
    then obtain k where "fst (rsplit1 SPACE (take n t)) = take k t" by blast
    with False no_tag_append_plain [OF pref [of k] dots] show ?thesis
      by (simp add: truncate_def)
  qed
qed

lemma unescape_no_amp: "ch CHR ''&'' \<notin> set s \<Longrightarrow> unescape s = Inr s"
  by (simp add: unescape_def)

lemma unescape_sub_no_charref: "\<not> contains_charref s \<Longrightarrow> unescape_sub s = Inr s"
proof (induction s)
  case Nil
  then show ?case by simp
next
  case (Cons c cs)
  then have ih: "unescape_sub cs = Inr cs" by simp
  show ?case
  proof (cases "c = ch CHR ''&''")
    case True
    with Cons.prems have "charref_match cs = None"
      by (cases "charref_match cs") auto
    with True ih show ?thesis by simp
  next
    case False
    with ih show ?thesis by simp
  qed
qed

lemma unescape_no_charref: "\<not> contains_charref s \<Longrightarrow> unescape s = Inr s"
  by (simp add: unescape_def unescape_sub_no_charref)

lemma strip_html_Inr_iff:
  "strip_html s = Inr t \<longleftrightarrow>
     (\<exists>decoded. unescape (strip_tags s) = Inr decoded \<and> t = strip (collapse_ws decoded))"
  by (auto simp: strip_html_def split: sum.splits)

lemma strip_html_Inl_iff:
  "strip_html s = Inl err \<longleftrightarrow> unescape (strip_tags s) = Inl err"
  by (auto simp: strip_html_def split: sum.splits)

lemma strip_html_no_amp:
  "ch CHR ''&'' \<notin> set s \<Longrightarrow> strip_html s = Inr (strip (collapse_ws (strip_tags s)))"
proof -
  assume "ch CHR ''&'' \<notin> set s"
  with set_strip_tags [of s] have "ch CHR ''&'' \<notin> set (strip_tags s)" by auto
  then show ?thesis by (simp add: strip_html_def unescape_no_amp)
qed

lemma no_tag_after_white_space:
  "\<not> contains_tag decoded \<Longrightarrow> \<not> contains_tag (strip (collapse_ws decoded))"
  by (simp add: strip_no_tag collapse_ws_no_tag)

lemma ws_normal_collapse_ws: "ws_normal (collapse_ws s)"
proof (induction s rule: collapse_ws.induct)
  case 1
  then show ?case by simp
next
  case (2 c cs)
  show ?case
  proof (cases "is_space c")
    case True
    define d where "d = dropWhile is_space cs"
    have "collapse_ws d = [] \<or> \<not> is_space (hd (collapse_ws d))"
    proof (cases d)
      case Nil
      then show ?thesis by simp
    next
      case (Cons x xs)
      then have "\<not> is_space x" using hd_dropWhile [of is_space cs] by (simp add: d_def)
      with Cons show ?thesis by simp
    qed
    with 2(1)[OF True] True show ?thesis by (simp add: d_def)
  next
    case False
    with 2(2)[OF False] show ?thesis by simp
  qed
qed

lemma ws_normal_fixed: "ws_normal s \<Longrightarrow> collapse_ws s = s"
proof (induction s)
  case Nil
  then show ?case by simp
next
  case (Cons c cs)
  show ?case
  proof (cases "is_space c")
    case True
    with Cons.prems have c: "c = SPACE" and nxt: "cs = [] \<or> \<not> is_space (hd cs)"
      and n: "ws_normal cs" by auto
    from nxt have "dropWhile is_space cs = cs" by (cases cs) auto
    with True c Cons.IH[OF n] show ?thesis by simp
  next
    case False
    with Cons show ?thesis by simp
  qed
qed

lemma ws_normal_suffix: "ws_normal (xs @ ys) \<Longrightarrow> ws_normal ys"
  by (induction xs) auto

lemma ws_normal_prefix: "ws_normal (xs @ ys) \<Longrightarrow> ws_normal xs"
proof (induction xs)
  case Nil
  then show ?case by simp
next
  case (Cons c cs)
  then have "ws_normal cs" by simp
  moreover have "cs = [] \<or> \<not> is_space (hd cs)" if "is_space c"
    using Cons.prems that by (cases cs) auto
  ultimately show ?case using Cons.prems by simp
qed

lemma ws_normal_strip: "ws_normal s \<Longrightarrow> ws_normal (strip s)"
proof -
  assume a: "ws_normal s"
  obtain pre post where "s = pre @ strip s @ post" using strip_decompose by blast
  with a have "ws_normal (pre @ strip s @ post)" by simp
  then have "ws_normal (strip s @ post)" by (rule ws_normal_suffix)
  then show ?thesis by (rule ws_normal_prefix)
qed

lemma strip_strip: "strip (strip s) = strip s"
proof -
  define y where "y = dropWhile is_space s"
  define z where "z = rev (dropWhile is_space (rev y))"
  have z: "strip s = z" by (simp add: strip_def z_def y_def)
  have lz: "dropWhile is_space z = z"
  proof (cases y)
    case Nil
    then show ?thesis by (simp add: z_def)
  next
    case (Cons d ds)
    then have nd: "\<not> is_space d" using hd_dropWhile [of is_space s] by (simp add: y_def)
    have "dropWhile is_space (rev ds @ [d]) = dropWhile is_space (rev ds) @ [d]"
      using nd by (simp add: dropWhile_append)
    with Cons have "z = d # rev (dropWhile is_space (rev ds))" by (simp add: z_def)
    with nd show ?thesis by simp
  qed
  have "strip z = rev (dropWhile is_space (rev (dropWhile is_space z)))"
    by (simp add: strip_def)
  also have "\<dots> = rev (dropWhile is_space (rev z))" by (simp only: lz)
  also have "\<dots> = z" by (simp add: z_def)
  finally show ?thesis by (simp only: z)
qed

lemma strip_html_result_normal:
  assumes "strip_html s = Inr t"
  shows "collapse_ws t = t" and "strip t = t"
proof -
  from assms obtain decoded where t: "t = strip (collapse_ws decoded)"
    by (auto simp: strip_html_Inr_iff)
  have "ws_normal t" unfolding t by (simp add: ws_normal_strip ws_normal_collapse_ws)
  then show "collapse_ws t = t" by (rule ws_normal_fixed)
  show "strip t = t" unfolding t by (rule strip_strip)
qed

lemma strip_html_fixed:
  assumes "strip_html s = Inr t" and "\<not> contains_tag t" and "unescape t = Inr t"
  shows "strip_html t = Inr t"
proof -
  from assms(2) have "strip_tags t = t" by (rule strip_tags_id)
  with assms(3) strip_html_result_normal [OF assms(1)] show ?thesis
    by (simp add: strip_html_def)
qed

text \<open>The definitions that evaluating \<^verbatim>\<open>strip_html\<close> on a given text unfolds.\<close>

lemmas strip_html_eval =
  str_def ch_def SPACE_def tag_end_def charref_match_def skip_semicolon_def
  is_digit_def is_hexdigit_def is_name_char_def digit_value_def int_of_digits_def
  int_decimal_def MAX_STR_DIGITS_def
  numeric_charref_def invalid_charrefs_def invalid_codepoints_def unescape_def
  is_space_def strip_def strip_html_def

subsection \<open>Sorting, fetching and the run\<close>

lemma list_sort_reverse_stable:
  "filter (\<lambda>a. key a = k) (list_sort_reverse key xs) = filter (\<lambda>a. key a = k) xs"
proof -
  have "filter (\<lambda>a. key a = k) (list_sort_reverse key xs)
        = rev (filter (\<lambda>a. key a = k) (sort_key key (rev xs)))"
    by (simp add: list_sort_reverse_def rev_filter)
  also have "\<dots> = rev (filter (\<lambda>a. key a = k) (rev xs))"
    by (simp only: sort_key_stable)
  also have "\<dots> = filter (\<lambda>a. key a = k) xs"
    by (simp add: rev_filter)
  finally show ?thesis .
qed

lemma list_sort_reverse_descending:
  "sorted_wrt (\<lambda>a b. key a \<ge> key b) (list_sort_reverse key xs)"
proof -
  have "sorted (map key (sort_key key (rev xs)))" by (rule sorted_sort_key)
  then have "sorted_wrt (\<lambda>a b. key a \<le> key b) (sort_key key (rev xs))"
    by (simp add: sorted_map)
  then show ?thesis
    by (simp add: list_sort_reverse_def sorted_wrt_rev)
qed

lemma set_list_sort_reverse: "set (list_sort_reverse key xs) = set xs"
  by (simp add: list_sort_reverse_def)

lemma length_list_sort_reverse: "length (list_sort_reverse key xs) = length xs"
  by (simp add: list_sort_reverse_def)

lemma filter_eq_append_split:
  "filter P ys = a @ b \<Longrightarrow> \<exists>us vs. ys = us @ vs \<and> filter P us = a \<and> filter P vs = b"
proof (induction a arbitrary: ys)
  case Nil
  then have "ys = [] @ ys \<and> filter P [] = [] \<and> filter P ys = b" by simp
  then show ?case by blast
next
  case (Cons x a)
  then have "filter P ys = x # (a @ b)" by simp
  then obtain u v where ys: "ys = u @ x # v" and u: "\<forall>z \<in> set u. \<not> P z" and x: "P x"
    and v: "a @ b = filter P v"
    by (auto simp: filter_eq_Cons_iff)
  from v have "filter P v = a @ b" by simp
  from Cons.IH [OF this] obtain us vs where "v = us @ vs" "filter P us = a" "filter P vs = b"
    by blast
  with ys u x have "ys = (u @ x # us) @ vs \<and> filter P (u @ x # us) = x # a \<and> filter P vs = b"
    by simp
  then show ?case by blast
qed

lemma filter_order_transfer:
  assumes "filter P ys = filter P xs" and "xs = p @ A # q @ B # r" and "P A" and "P B"
  shows "\<exists>p' q' r'. ys = p' @ A # q' @ B # r'"
proof -
  from assms(2,3,4) have "filter P xs = filter P p @ A # (filter P q @ B # filter P r)"
    by simp
  with assms(1) have "filter P ys = filter P p @ A # (filter P q @ B # filter P r)" by simp
  from filter_eq_append_split [OF this]
  obtain us vs where ys: "ys = us @ vs" and "filter P us = filter P p"
    and vs: "filter P vs = A # (filter P q @ B # filter P r)"
    by blast
  from vs obtain u1 v1 where v1: "vs = u1 @ A # v1"
    and f1: "filter P q @ B # filter P r = filter P v1"
    by (auto simp: filter_eq_Cons_iff)
  from f1 have "filter P v1 = filter P q @ B # filter P r" by simp
  from filter_eq_append_split [OF this]
  obtain u2 v2 where "v1 = u2 @ v2" and "filter P v2 = B # filter P r"
    by blast
  then obtain u3 v3 where "v2 = u3 @ B # v3"
    by (auto simp: filter_eq_Cons_iff)
  with ys v1 \<open>v1 = u2 @ v2\<close> have "ys = (us @ u1) @ A # (u2 @ u3) @ B # v3" by simp
  then show ?thesis by blast
qed


lemma fst_fetch_feed: "fst (fetch_feed ev fc s) = feed_result ev fc"
  by (simp add: feed_result_def fetch_feed_def split: fetched.splits)

lemma fetch_feed_files: "files (snd (fetch_feed ev fc s)) = files s"
  by (simp add: fetch_feed_def print_stderr_def split: fetched.splits)

lemma fetch_feed_stdout: "stdout (snd (fetch_feed ev fc s)) = stdout s"
  by (simp add: fetch_feed_def print_stderr_def split: fetched.splits)

lemma fetch_all_files: "files (snd (fetch_all ev feeds acc s)) = files s"
proof (induction feeds arbitrary: acc s)
  case Nil
  then show ?case by simp
next
  case (Cons fc feeds)
  let ?s1 = "print (str ''  Fetching '' @ name fc @ str ''...'') s"
  obtain r s2 where f: "fetch_feed ev fc ?s1 = (r, s2)" by (cases "fetch_feed ev fc ?s1")
  then have "files s2 = files ?s1" using fetch_feed_files [of ev fc ?s1] by simp
  then have s2: "files s2 = files s" by (simp add: print_def)
  show ?case
  proof (cases r)
    case (Inl err)
    with f s2 show ?thesis by simp
  next
    case (Inr articles)
    with f s2 Cons.IH show ?thesis by (simp add: print_def)
  qed
qed

lemma fetch_all_Inr:
  "fetch_all ev feeds acc s = (Inr all_articles, s') \<Longrightarrow>
   \<exists>per_feed. list_all2 (\<lambda>fc articles. feed_result ev fc = Inr articles) feeds per_feed
              \<and> all_articles = acc @ concat per_feed"
proof (induction feeds arbitrary: acc s)
  case Nil
  then show ?case by simp
next
  case (Cons fc feeds)
  let ?s1 = "print (str ''  Fetching '' @ name fc @ str ''...'') s"
  obtain r s2 where f: "fetch_feed ev fc ?s1 = (r, s2)" by (cases "fetch_feed ev fc ?s1")
  then have r: "feed_result ev fc = r" using fst_fetch_feed [of ev fc ?s1] by simp
  show ?case
  proof (cases r)
    case (Inl err)
    with f Cons.prems show ?thesis by simp
  next
    case (Inr articles)
    with f Cons.prems obtain s3 where
      "fetch_all ev feeds (acc @ articles) s3 = (Inr all_articles, s')"
      by simp
    from Cons.IH [OF this] obtain per_feed where
      "list_all2 (\<lambda>fc articles. feed_result ev fc = Inr articles) feeds per_feed"
      "all_articles = (acc @ articles) @ concat per_feed"
      by blast
    with r Inr have
      "list_all2 (\<lambda>fc articles. feed_result ev fc = Inr articles) (fc # feeds)
         (articles # per_feed)
       \<and> all_articles = acc @ concat (articles # per_feed)"
      by simp
    then show ?thesis by blast
  qed
qed

lemma main_Returned:
  assumes "main ev s = (Returned, s')"
  shows "\<exists>all_articles s1.
           fetch_all ev FEEDS [] (print (str ''Fetching feeds...'') s) = (Inr all_articles, s1)
           \<and> all_articles \<noteq> []
           \<and> files s' = (files s)(OUTPUT_PATH \<mapsto>
                generate_html (list_sort_reverse sort_key' all_articles)
                  (strftime_minute (now ev)))"
proof -
  let ?s0 = "print (str ''Fetching feeds...'') s"
  obtain r s1 where f: "fetch_all ev FEEDS [] ?s0 = (r, s1)"
    by (cases "fetch_all ev FEEDS [] ?s0")
  then have "files s1 = files ?s0" using fetch_all_files [of ev FEEDS "[]" ?s0] by simp
  then have fs: "files s1 = files s" by (simp add: print_def)
  show ?thesis
  proof (cases r)
    case (Inl err)
    with f assms show ?thesis by (simp add: main_def)
  next
    case (Inr all_articles)
    with f assms have ne: "all_articles \<noteq> []"
      by (auto simp: main_def split: if_splits)
    with f Inr assms fs have
      "files s' = (files s)(OUTPUT_PATH \<mapsto>
          generate_html (list_sort_reverse sort_key' all_articles) (strftime_minute (now ev)))"
      by (auto simp: main_def Let_def print_def)
    with f Inr ne show ?thesis by blast
  qed
qed

lemmas example_defs = entry_old_def entry_undated_def entry_new_def
  article_old_def article_undated_def article_new_def

lemmas date_eval = datetime_new_def days_in_month_def is_leap_def strftime_date_def
  zero_pad_def timestamp_def mktime_def mktime_tail_def local_seconds_def
  seconds_since_epoch_def MIN_SECONDS_def MAX_SECONDS_def toordinal_def
  days_before_year_def days_before_month_def EPOCH_ORDINAL_def

lemma decimal_digit: "n < 10 \<Longrightarrow> decimal n = [ch CHR ''0'' + n]"
  by (simp add: decimal.simps)

lemma decimal_more:
  "10 \<le> n \<Longrightarrow> decimal n = decimal (n div 10) @ [ch CHR ''0'' + n mod 10]"
  by (subst decimal.simps) simp

lemmas decimal_eval = decimal_digit decimal_more

lemma make_article_old:
  "make_article env_one_feed (FEEDS ! 3) entry_old = Inr article_old"
  by (simp add: make_article_def date_parsed_def get_default_def example_defs
      env_one_feed_def FEEDS_def date_eval decimal_eval upt_rec
      strip_html_eval truncate_def MAX_LEN_def)


lemma make_article_new:
  "make_article env_one_feed (FEEDS ! 3) entry_new = Inr article_new"
  by (simp add: make_article_def date_parsed_def get_default_def example_defs
      env_one_feed_def FEEDS_def date_eval decimal_eval upt_rec
      strip_html_eval truncate_def MAX_LEN_def)

lemma fetch_all_complete:
  "list_all2 (\<lambda>fc articles. feed_result ev fc = Inr articles) feeds per_feed \<Longrightarrow>
   \<exists>s'. fetch_all ev feeds acc s = (Inr (acc @ concat per_feed), s')"
proof (induction feeds per_feed arbitrary: acc s rule: list_all2_induct)
  case Nil
  then show ?case by simp
next
  case (Cons fc feeds articles per_feed)
  let ?s1 = "print (str ''  Fetching '' @ name fc @ str ''...'') s"
  obtain r s2 where f: "fetch_feed ev fc ?s1 = (r, s2)" by (cases "fetch_feed ev fc ?s1")
  with Cons.hyps(1) have r: "r = Inr articles" using fst_fetch_feed [of ev fc ?s1] by simp
  let ?s3 = "print (str ''    Got '' @ decimal (length articles) @ str '' articles'') s2"
  from Cons.IH [of "acc @ articles" ?s3] obtain s' where
    "fetch_all ev feeds (acc @ articles) ?s3 = (Inr ((acc @ articles) @ concat per_feed), s')"
    by blast
  with f r have "fetch_all ev (fc # feeds) acc s = (Inr (acc @ concat (articles # per_feed)), s')"
    by simp
  then show ?case by blast
qed

lemmas run_eval = make_article_def date_parsed_def get_default_def example_defs
  FEEDS_def date_eval decimal_eval upt_rec strip_html_eval truncate_def MAX_LEN_def
  feed_result_def fetch_feed_def print_stderr_def

lemma one_feed_results:
  "list_all2 (\<lambda>fc articles. feed_result env_one_feed fc = Inr articles) FEEDS
     [[], [], [], [article_old, article_undated, article_new], []]"
  by (simp add: run_eval env_one_feed_def)

lemma all_failed_results:
  "list_all2 (\<lambda>fc articles. feed_result env_all_failed fc = Inr articles) FEEDS
     [[], [], [], [], []]"
  by (simp add: run_eval env_all_failed_def)

lemma one_feed_fetch_all:
  "\<exists>s1. fetch_all env_one_feed FEEDS [] s = (Inr [article_old, article_undated, article_new], s1)"
  using fetch_all_complete [OF one_feed_results, of "[]" s] by simp

lemma all_failed_fetch_all:
  "\<exists>s1. fetch_all env_all_failed FEEDS [] s = (Inr [], s1)"
  using fetch_all_complete [OF all_failed_results, of "[]" s] by simp

lemma sort_three:
  "list_sort_reverse sort_key' [article_old, article_undated, article_new]
   = [article_new, article_undated, article_old]"
  by (simp add: list_sort_reverse_def example_defs)


lemma main_success:
  assumes "fetch_all ev FEEDS [] (print (str ''Fetching feeds...'') s) = (Inr all_articles, s1)"
    and "all_articles \<noteq> []"
  shows "fst (main ev s) = Returned"
    and "files (snd (main ev s))
         = (files s)(OUTPUT_PATH \<mapsto>
             generate_html (list_sort_reverse sort_key' all_articles) (strftime_minute (now ev)))"
proof -
  let ?s0 = "print (str ''Fetching feeds...'') s"
  from assms(1) have "files s1 = files ?s0"
    using fetch_all_files [of ev FEEDS "[]" ?s0] by simp
  then have fs: "files s1 = files s" by (simp add: print_def)
  from assms show "fst (main ev s) = Returned" by (simp add: main_def Let_def)
  from assms fs show "files (snd (main ev s))
         = (files s)(OUTPUT_PATH \<mapsto>
             generate_html (list_sort_reverse sort_key' all_articles) (strftime_minute (now ev)))"
    by (simp add: main_def Let_def print_def)
qed

lemma one_feed_now: "strftime_minute (now env_one_feed) = str ''2024-05-06 07:08''"
  by (simp add: env_one_feed_def strftime_minute_def strftime_date_def zero_pad_def
      decimal_eval str_def ch_def)

lemma one_feed_main:
  "fst (main env_one_feed io_start) = Returned"
  "files (snd (main env_one_feed io_start)) OUTPUT_PATH
   = Some (generate_html [article_new, article_undated, article_old] (str ''2024-05-06 07:08''))"
proof -
  obtain s2 where f2: "fetch_all env_one_feed FEEDS []
      (print (str ''Fetching feeds...'') io_start)
      = (Inr [article_old, article_undated, article_new], s2)"
    using one_feed_fetch_all by blast
  from main_success(1) [OF f2] show "fst (main env_one_feed io_start) = Returned" by simp
  from main_success(2) [OF f2] show "files (snd (main env_one_feed io_start)) OUTPUT_PATH
   = Some (generate_html [article_new, article_undated, article_old] (str ''2024-05-06 07:08''))"
    by (simp add: sort_three one_feed_now)
qed








lemma fetch_all_aborts:
  assumes "list_all2 (\<lambda>f articles. feed_result ev f = Inr articles) before ls"
    and "feed_result ev fc = Inl err"
  shows "fst (fetch_all ev (before @ fc # after) acc s) = Inl err"
  using assms(1)
proof (induction before ls arbitrary: acc s rule: list_all2_induct)
  case Nil
  let ?s1 = "print (str ''  Fetching '' @ name fc @ str ''...'') s"
  obtain r s2 where f: "fetch_feed ev fc ?s1 = (r, s2)" by (cases "fetch_feed ev fc ?s1")
  with assms(2) have "r = Inl err" using fst_fetch_feed [of ev fc ?s1] by simp
  with f show ?case by simp
next
  case (Cons f before articles ls)
  let ?s1 = "print (str ''  Fetching '' @ name f @ str ''...'') s"
  obtain r s2 where ff: "fetch_feed ev f ?s1 = (r, s2)" by (cases "fetch_feed ev f ?s1")
  with Cons.hyps(1) have "r = Inr articles" using fst_fetch_feed [of ev f ?s1] by simp
  with ff Cons.IH show ?case by simp
qed

subsection \<open>Escaping\<close>

lemma replace_append: "replace c new (a @ b) = replace c new a @ replace c new b"
  by (simp add: replace_def)

lemma html_escape_append: "html_escape (a @ b) = html_escape a @ html_escape b"
  by (simp add: html_escape_def replace_append)

lemma html_escape_Nil: "html_escape [] = []"
  by (simp add: html_escape_def replace_def)

lemma html_escape_single: "html_escape [c] = escape_char c"
  by (simp add: html_escape_def replace_def escape_char_def str_def ch_def)

lemma html_escape_chars: "html_escape s = concat (map escape_char s)"
proof (induction s)
  case Nil
  then show ?case by (simp add: html_escape_Nil)
next
  case (Cons c s)
  have "html_escape (c # s) = html_escape ([c] @ s)" by simp
  also have "\<dots> = escape_char c @ html_escape s"
    by (simp only: html_escape_append html_escape_single)
  finally show ?case using Cons.IH by simp
qed

lemma markup_chars_escape_char: "markup_chars (escape_char c) = []"
  by (simp add: markup_chars_def escape_char_def is_markup_char_def str_def ch_def)

lemma markup_chars_append: "markup_chars (a @ b) = markup_chars a @ markup_chars b"
  by (simp add: markup_chars_def)

lemma markup_chars_html_escape: "markup_chars (html_escape s) = []"
  by (induction s) (simp_all add: html_escape_chars markup_chars_append markup_chars_escape_char,
      simp add: markup_chars_def)

lemma html_escape_no_markup_char: "c \<in> set (html_escape s) \<Longrightarrow> \<not> is_markup_char c"
proof -
  assume "c \<in> set (html_escape s)"
  moreover have "filter is_markup_char (html_escape s) = []"
    using markup_chars_html_escape [of s] by (simp add: markup_chars_def)
  ultimately show ?thesis by (auto simp: filter_empty_conv)
qed

lemma card_fields:
  \<open>article_card a =
       (str ''      <article class="card" data-source="'' @ source_slug a @ str ''" style="border-left-color: '' @ source_color a @ str ''">\<newline>'' @ str ''        <div class="card-meta">\<newline>'' @ str ''          <span class="source-badge" style="color: '' @ source_color a @ str ''">'' @ source_icon a @ str '' '')
       @ html_escape (source_name a)
       @ (str ''</span>\<newline>'' @ str ''          <time datetime="'' @ date a @ str ''">'' @ date a @ str ''</time>\<newline>'' @ str ''        </div>\<newline>'' @ str ''        <h2><a href="'')
       @ html_escape (link a)
       @ str ''" target="_blank" rel="noopener noreferrer">''
       @ html_escape (title a)
       @ (str ''</a></h2>\<newline>'' @ str ''        <p class="summary">'')
       @ html_escape (summary a)
       @ (str ''</p>\<newline>'' @ str ''      </article>\<newline>'')\<close>
  by (simp add: article_card_def Let_def)

lemma markup_chars_card:
  "markup_chars (article_card a) = markup_chars (article_card (blank a))"
  by (simp add: card_fields blank_def markup_chars_append markup_chars_html_escape)

lemma card_not_Nil: "article_card a \<noteq> []"
  by (simp add: card_fields str_def)

lemma cards_Nil_iff: "concat (map article_card articles) = [] \<longleftrightarrow> articles = []"
  by (cases articles) (simp_all add: card_not_Nil)

lemma markup_chars_cards:
  "markup_chars (concat (map article_card articles))
   = markup_chars (concat (map article_card (map blank articles)))"
proof (induction articles)
  case Nil
  then show ?case by simp
next
  case (Cons a articles)
  with markup_chars_card [of a] show ?case by (simp add: markup_chars_append)
qed

lemma markup_chars_generate_html:
  "markup_chars (generate_html articles updated_at)
   = markup_chars (generate_html (map blank articles) updated_at)"
proof (cases "articles = []")
  case True
  then show ?thesis by simp
next
  case False
  then have "concat (map article_card articles) \<noteq> []"
    "concat (map article_card (map blank articles)) \<noteq> []"
    by (simp_all only: cards_Nil_iff map_is_Nil_conv not_False_eq_True)
  then show ?thesis
    using markup_chars_cards [of articles]
    by (simp add: generate_html_def Let_def markup_chars_append card_not_Nil)
qed

lemma generate_html_has_card:
  assumes "a \<in> set articles"
  shows "\<exists>before after. generate_html articles updated_at = before @ article_card a @ after"
proof -
  from assms obtain xs ys where sp: "articles = xs @ a # ys"
    by (auto simp: in_set_conv_decomp)
  then have c: "concat (map article_card articles)
      = concat (map article_card xs) @ article_card a @ concat (map article_card ys)"
    by simp
  from assms have "articles \<noteq> []" by auto
  then have "concat (map article_card articles) \<noteq> []"
    by (simp only: cards_Nil_iff not_False_eq_True)
  then have "generate_html articles updated_at
      = (TEMPLATE_HEAD @ updated_at @ TEMPLATE_NAV @ filter_buttons FEEDS @ TEMPLATE_MAIN
           @ concat (map article_card xs))
        @ article_card a @ (concat (map article_card ys) @ TEMPLATE_TAIL)"
    unfolding generate_html_def Let_def c by (simp add: card_not_Nil)
  then show ?thesis by blast
qed

subsection \<open>The summary of an article\<close>

lemma make_article_summary:
  "make_article ev fc e = Inr a \<Longrightarrow>
   \<exists>stripped. strip_html (get_default (summary_field e) []) = Inr stripped
              \<and> summary a = truncate stripped MAX_LEN"
  by (auto simp: make_article_def Let_def split: option.splits sum.splits prod.splits)

text \<open>
  C2, as the claim states it, fails: the raw summary
  \<^verbatim>\<open>Use &#60;b&#62;bold&#60;/b&#62; text\<close> holds no tag, so nothing is removed, and
  decoding its character references gives the summary \<^verbatim>\<open>Use <b>bold</b> text\<close>, which
  contains the tag \<^verbatim>\<open><b>\<close>.
\<close>

theorem summary_markup_counterexample:
  "strip_html (str ''Use &#60;b&#62;bold&#60;/b&#62; text'')
     = Inr (str ''Use <b>bold</b> text'')
   \<and> truncate (str ''Use <b>bold</b> text'') MAX_LEN = str ''Use <b>bold</b> text''
   \<and> contains_tag (str ''Use <b>bold</b> text'')"
  by (simp add: strip_html_eval truncate_def MAX_LEN_def)

text \<open>
  C2, amended: for the article record built from a raw summary, removing the tags leaves
  no tag in the raw summary, and the summary field contains a tag only if the text that
  decoding character references makes of the tag-free text contains one: when the
  decoded text holds no tag, no part of the summary is a tag. In particular the summary
  of a raw summary without \<^verbatim>\<open>&\<close> contains no tag.
\<close>

theorem summary_no_markup_amended:
  assumes "make_article ev fc e = Inr a"
  shows "\<not> contains_tag (strip_tags (get_default (summary_field e) []))
         \<and> (\<exists>decoded. unescape (strip_tags (get_default (summary_field e) [])) = Inr decoded
               \<and> (contains_tag (summary a) \<longrightarrow> contains_tag decoded))
         \<and> (ch CHR ''&'' \<notin> set (get_default (summary_field e) [])
              \<longrightarrow> \<not> contains_tag (summary a))"
proof -
  let ?raw = "get_default (summary_field e) []"
  from make_article_summary [OF assms] obtain stripped where
    st: "strip_html ?raw = Inr stripped" and su: "summary a = truncate stripped MAX_LEN"
    by blast
  from st obtain decoded where de: "unescape (strip_tags ?raw) = Inr decoded"
    and sd: "stripped = strip (collapse_ws decoded)"
    by (auto simp: strip_html_Inr_iff)
  have imp: "contains_tag (summary a) \<longrightarrow> contains_tag decoded"
  proof (rule impI, rule ccontr)
    assume "contains_tag (summary a)" and "\<not> contains_tag decoded"
    from this(2) have "\<not> contains_tag (truncate stripped MAX_LEN)"
      unfolding sd by (intro truncate_no_tag no_tag_after_white_space)
    with \<open>contains_tag (summary a)\<close> su show False by simp
  qed
  have "\<not> contains_tag (summary a)" if "ch CHR ''&'' \<notin> set ?raw"
  proof -
    from that set_strip_tags [of ?raw] have "ch CHR ''&'' \<notin> set (strip_tags ?raw)" by auto
    with de have "decoded = strip_tags ?raw" by (simp add: unescape_no_amp)
    with imp show ?thesis by (auto simp: strip_tags_no_tag)
  qed
  with de imp show ?thesis by (auto simp: strip_tags_no_tag)
qed

text \<open>
  The entry \<open>entry_new\<close>, whose raw summary \<^verbatim>\<open>Tom &#38; Jerry\<close> holds a character
  reference: decoding gives \<^verbatim>\<open>Tom & Jerry\<close>, which holds no tag, and so does the summary.
\<close>

theorem summary_no_markup_amended_witness:
  "make_article env_one_feed (FEEDS ! 3) entry_new = Inr article_new
   \<and> get_default (summary_field entry_new) [] = str ''Tom &#38; Jerry''
   \<and> unescape (strip_tags (str ''Tom &#38; Jerry'')) = Inr (str ''Tom & Jerry'')
   \<and> \<not> contains_tag (str ''Tom & Jerry'')
   \<and> summary article_new = str ''Tom & Jerry''
   \<and> \<not> contains_tag (summary article_new)"
proof -
  have m: "make_article env_one_feed (FEEDS ! 3) entry_new = Inr article_new"
    by (rule make_article_new)
  have raw: "get_default (summary_field entry_new) [] = str ''Tom &#38; Jerry''"
    by (simp add: entry_new_def get_default_def)
  have de: "unescape (strip_tags (str ''Tom &#38; Jerry'')) = Inr (str ''Tom & Jerry'')"
    by (simp add: strip_html_eval)
  have nt: "\<not> contains_tag (str ''Tom & Jerry'')"
    by (simp add: str_def ch_def)
  have su: "summary article_new = str ''Tom & Jerry''"
    by (simp add: article_new_def)
  from summary_no_markup_amended [OF m] raw de nt
  have "\<not> contains_tag (summary article_new)" by auto
  with m raw de nt su show ?thesis by (intro conjI)
qed

subsection \<open>Stripping twice\<close>

text \<open>
  C3, as the claim states it, fails: \<^verbatim>\<open><b>bold</b>\<close> is a result of \<^verbatim>\<open>strip_html\<close> (for
  the text \<^verbatim>\<open>&#60;b&#62;bold&#60;/b&#62;\<close>), and stripping it once more gives the
  different text \<^verbatim>\<open>bold\<close>.
\<close>

theorem strip_html_idempotent_counterexample:
  "strip_html (str ''&#60;b&#62;bold&#60;/b&#62;'') = Inr (str ''<b>bold</b>'')
   \<and> strip_html (str ''<b>bold</b>'') = Inr (str ''bold'')
   \<and> str ''bold'' \<noteq> str ''<b>bold</b>''"
  by (simp add: strip_html_eval)

text \<open>
  C3, amended: a result of \<^verbatim>\<open>strip_html\<close> that is stripped and unescaped already, that
  is, one that contains no tag and that decoding character references leaves as it is,
  is returned unchanged when it is stripped again. So \<^verbatim>\<open>strip_html\<close> applied twice
  gives what it gives applied once for every text whose stripped form is of this kind,
  among them every stripped form that holds no tag and no character reference, and the
  stripped form of every text without \<^verbatim>\<open>&\<close>.
\<close>

theorem strip_html_idempotent_amended:
  assumes "strip_html s = Inr t"
  shows "(\<not> contains_tag t \<and> unescape t = Inr t \<longrightarrow> strip_html t = Inr t)
         \<and> (\<not> contains_tag t \<and> \<not> contains_charref t \<longrightarrow> strip_html t = Inr t)
         \<and> (ch CHR ''&'' \<notin> set s \<longrightarrow> strip_html t = Inr t)"
proof -
  have general: "strip_html t = Inr t" if "\<not> contains_tag t \<and> unescape t = Inr t"
    using strip_html_fixed [OF assms] that by blast
  have plain: "strip_html t = Inr t" if "\<not> contains_tag t \<and> \<not> contains_charref t"
    using general that unescape_no_charref [of t] by blast
  have "strip_html t = Inr t" if amp: "ch CHR ''&'' \<notin> set s"
  proof -
    from amp assms have t: "t = strip (collapse_ws (strip_tags s))"
      by (simp add: strip_html_no_amp)
    have "ch CHR ''&'' \<noteq> SPACE" by (simp add: SPACE_def ch_def)
    with amp set_strip_tags [of s] set_collapse_ws [of "strip_tags s"]
      set_strip [of "collapse_ws (strip_tags s)"]
    have "ch CHR ''&'' \<notin> set t" unfolding t by auto
    then have "unescape t = Inr t" by (rule unescape_no_amp)
    moreover have "\<not> contains_tag t"
      unfolding t by (intro no_tag_after_white_space strip_tags_no_tag)
    ultimately show ?thesis using general by blast
  qed
  with general plain show ?thesis by blast
qed

text \<open>
  The text \<^verbatim>\<open><p>Tom &#38;   Jerry</p>\<close> holds a tag and a character reference; its
  stripped form \<^verbatim>\<open>Tom & Jerry\<close> holds no tag, and its \<^verbatim>\<open>&\<close> starts no reference.
\<close>

theorem strip_html_idempotent_amended_witness:
  "strip_html (str ''<p>Tom &#38;   Jerry</p>'') = Inr (str ''Tom & Jerry'')
   \<and> \<not> contains_tag (str ''Tom & Jerry'')
   \<and> \<not> contains_charref (str ''Tom & Jerry'')
   \<and> unescape (str ''Tom & Jerry'') = Inr (str ''Tom & Jerry'')
   \<and> strip_html (str ''Tom & Jerry'') = Inr (str ''Tom & Jerry'')"
proof -
  have nc: "\<not> contains_charref (str ''Tom & Jerry'')"
    by (simp add: strip_html_eval)
  have s: "strip_html (str ''<p>Tom &#38;   Jerry</p>'') = Inr (str ''Tom & Jerry'')"
    by (simp add: strip_html_eval)
  have nt: "\<not> contains_tag (str ''Tom & Jerry'')"
    by (simp add: str_def ch_def)
  have un: "unescape (str ''Tom & Jerry'') = Inr (str ''Tom & Jerry'')"
    by (simp add: strip_html_eval)
  from strip_html_idempotent_amended [OF s] nt un
  have "strip_html (str ''Tom & Jerry'') = Inr (str ''Tom & Jerry'')" by blast
  with s nt nc un show ?thesis by (intro conjI)
qed

subsection \<open>The page and the run\<close>

text \<open>
  C1: in the document that \<^verbatim>\<open>generate_html\<close> produces, the title, summary, link
  and source name of every article record stand in their escaped form, in the card of the
  record; escaping replaces each of \<^verbatim>\<open>&\<close>, \<^verbatim>\<open><\<close>, \<^verbatim>\<open>>\<close> and the two quotation marks by
  its character reference, so an escaped text holds none of the characters with which
  markup is written; and the markup characters of the document are those of the document
  with the four fields of every record emptied: the four fields add no markup to it.
\<close>

theorem generate_html_escapes_fields:
  "markup_chars (generate_html articles updated_at)
     = markup_chars (generate_html (map blank articles) updated_at)
   \<and> (\<forall>a \<in> set articles. \<exists>before after p1 p2 p3 p4 p5.
         generate_html articles updated_at = before @ article_card a @ after
         \<and> article_card a
             = p1 @ html_escape (source_name a) @ p2 @ html_escape (link a)
               @ p3 @ html_escape (title a) @ p4 @ html_escape (summary a) @ p5)
   \<and> (\<forall>x. html_escape x = concat (map escape_char x)
            \<and> (\<forall>c \<in> set (html_escape x). \<not> is_markup_char c))"
proof -
  have "\<exists>before after p1 p2 p3 p4 p5.
         generate_html articles updated_at = before @ article_card a @ after
         \<and> article_card a
             = p1 @ html_escape (source_name a) @ p2 @ html_escape (link a)
               @ p3 @ html_escape (title a) @ p4 @ html_escape (summary a) @ p5"
    if "a \<in> set articles" for a
  proof -
    from generate_html_has_card [OF that] obtain before after where
      "generate_html articles updated_at = before @ article_card a @ after" by blast
    with card_fields [of a] show ?thesis by blast
  qed
  then show ?thesis
    using markup_chars_generate_html [of articles updated_at]
      html_escape_chars html_escape_no_markup_char
    by blast
qed

text \<open>
  The title \<^verbatim>\<open><script>alert(1)</script>\<close> appears as
  \<^verbatim>\<open>&lt;script&gt;alert(1)&lt;/script&gt;\<close>.
\<close>

theorem generate_html_escapes_fields_witness:
  "article_new \<in> set [article_new]
   \<and> title article_new = str ''<script>alert(1)</script>''
   \<and> html_escape (title article_new) = str ''&lt;script&gt;alert(1)&lt;/script&gt;''
   \<and> markup_chars (generate_html [article_new] (str ''2024-05-06 07:08''))
       = markup_chars (generate_html [blank article_new] (str ''2024-05-06 07:08''))
   \<and> (\<exists>before after.
         generate_html [article_new] (str ''2024-05-06 07:08'')
         = before @ article_card article_new @ after)
   \<and> filter is_markup_char (html_escape (title article_new)) = []"
proof -
  have t: "title article_new = str ''<script>alert(1)</script>''"
    by (simp add: article_new_def)
  have e: "html_escape (str ''<script>alert(1)</script>'')
      = str ''&lt;script&gt;alert(1)&lt;/script&gt;''"
    by (simp add: html_escape_def replace_def str_def ch_def)
  from t e have e': "html_escape (title article_new)
      = str ''&lt;script&gt;alert(1)&lt;/script&gt;''"
    by simp
  have i: "article_new \<in> set [article_new]" by simp
  note th = generate_html_escapes_fields [of "[article_new]" "str ''2024-05-06 07:08''"]
  from th have "markup_chars (generate_html [article_new] (str ''2024-05-06 07:08''))
       = markup_chars (generate_html (map blank [article_new]) (str ''2024-05-06 07:08''))"
    by blast
  then have m: "markup_chars (generate_html [article_new] (str ''2024-05-06 07:08''))
       = markup_chars (generate_html [blank article_new] (str ''2024-05-06 07:08''))"
    by simp
  from th i have c: "\<exists>before after.
         generate_html [article_new] (str ''2024-05-06 07:08'')
         = before @ article_card article_new @ after"
    by blast
  from th have "\<forall>c \<in> set (html_escape (title article_new)). \<not> is_markup_char c"
    by blast
  then have n: "filter is_markup_char (html_escape (title article_new)) = []"
    by (simp add: filter_empty_conv)
  from i t e' m c n show ?thesis by (intro conjI)
qed

text \<open>
  C6: in a run that generates the page, the records of the feeds are concatenated in the
  order of the registry and sorted by their recency key in descending order, and the sort
  is stable: the records of each key keep the order they have in the concatenation, so a
  record \<open>A\<close> that precedes a record \<open>B\<close> of the same key there precedes it in the
  sorted sequence, which is the one that is rendered.
\<close>

theorem aggregation_stable_sort:
  assumes "fst (main ev s) = Returned"
  shows "\<exists>per_feed all_articles sorted_articles.
           list_all2 (\<lambda>fc articles. feed_result ev fc = Inr articles) FEEDS per_feed
           \<and> all_articles = concat per_feed
           \<and> sorted_articles = list_sort_reverse sort_key' all_articles
           \<and> files (snd (main ev s)) OUTPUT_PATH
               = Some (generate_html sorted_articles (strftime_minute (now ev)))
           \<and> set sorted_articles = set all_articles
           \<and> length sorted_articles = length all_articles
           \<and> sorted_wrt (\<lambda>a b. sort_key' a \<ge> sort_key' b) sorted_articles
           \<and> (\<forall>k. filter (\<lambda>a. sort_key' a = k) sorted_articles
                    = filter (\<lambda>a. sort_key' a = k) all_articles)
           \<and> (\<forall>A B p q r. all_articles = p @ A # q @ B # r \<and> sort_key' A = sort_key' B
                  \<longrightarrow> (\<exists>p' q' r'. sorted_articles = p' @ A # q' @ B # r'))"
proof -
  obtain s' where m: "main ev s = (Returned, s')"
    using assms by (cases "main ev s") simp
  from main_Returned [OF m] obtain all_articles s1 where
    f: "fetch_all ev FEEDS [] (print (str ''Fetching feeds...'') s) = (Inr all_articles, s1)"
    and fl: "files s' = (files s)(OUTPUT_PATH \<mapsto>
        generate_html (list_sort_reverse sort_key' all_articles) (strftime_minute (now ev)))"
    by blast
  from fetch_all_Inr [OF f] obtain per_feed where
    pf: "list_all2 (\<lambda>fc articles. feed_result ev fc = Inr articles) FEEDS per_feed"
    and al: "all_articles = concat per_feed"
    by auto
  let ?sorted = "list_sort_reverse sort_key' all_articles"
  have order: "\<exists>p' q' r'. ?sorted = p' @ A # q' @ B # r'"
    if "all_articles = p @ A # q @ B # r" "sort_key' A = sort_key' B" for A B p q r
  proof -
    have st: "filter (\<lambda>a. sort_key' a = sort_key' A) ?sorted
        = filter (\<lambda>a. sort_key' a = sort_key' A) all_articles"
      by (rule list_sort_reverse_stable)
    show ?thesis
      by (rule filter_order_transfer [OF st that(1)]) (simp_all add: that(2))
  qed
  from m fl have "files (snd (main ev s)) OUTPUT_PATH
      = Some (generate_html ?sorted (strftime_minute (now ev)))"
    by simp
  with pf al order show ?thesis
    using set_list_sort_reverse [of sort_key' all_articles]
      length_list_sort_reverse [of sort_key' all_articles]
      list_sort_reverse_descending [of sort_key' all_articles]
      list_sort_reverse_stable [of sort_key' _ all_articles]
    by (intro exI [of _ per_feed] exI [of _ all_articles] exI [of _ ?sorted]) blast
qed

theorem aggregation_stable_sort_witness:
  "fst (main env_one_feed io_start) = Returned
   \<and> (\<exists>all_articles sorted_articles.
         sorted_articles = list_sort_reverse sort_key' all_articles
         \<and> files (snd (main env_one_feed io_start)) OUTPUT_PATH
             = Some (generate_html sorted_articles (strftime_minute (now env_one_feed)))
         \<and> sorted_wrt (\<lambda>a b. sort_key' a \<ge> sort_key' b) sorted_articles
         \<and> (\<forall>k. filter (\<lambda>a. sort_key' a = k) sorted_articles
                  = filter (\<lambda>a. sort_key' a = k) all_articles))"
proof -
  have r: "fst (main env_one_feed io_start) = Returned" by (rule one_feed_main(1))
  from aggregation_stable_sort [OF r] r show ?thesis by blast
qed




text \<open>
  C8: when the loop over the feeds ends with no article, the run reports this on the
  error stream, ends with the exit code 1 and leaves the files as they were, so that an
  earlier \<^verbatim>\<open>index.html\<close> is not overwritten; when it ends with at least one article, the
  run writes the page to \<^verbatim>\<open>index.html\<close> and ends with the exit code 0.
\<close>

theorem main_exit:
  assumes "fetch_all ev FEEDS [] (print (str ''Fetching feeds...'') s) = (Inr all_articles, s1)"
  shows "(all_articles = [] \<longrightarrow>
            fst (main ev s) = SystemExit 1
            \<and> exit_code (fst (main ev s)) \<noteq> 0
            \<and> stderr (snd (main ev s))
                = stderr s1 @ [str ''Error: No articles fetched from any source.'']
            \<and> files (snd (main ev s)) = files s)
         \<and> (all_articles \<noteq> [] \<longrightarrow>
            fst (main ev s) = Returned
            \<and> exit_code (fst (main ev s)) = 0
            \<and> files (snd (main ev s))
                = (files s)(OUTPUT_PATH \<mapsto>
                    generate_html (list_sort_reverse sort_key' all_articles)
                      (strftime_minute (now ev))))"
proof -
  let ?s0 = "print (str ''Fetching feeds...'') s"
  from assms have "files s1 = files ?s0" using fetch_all_files [of ev FEEDS "[]" ?s0] by simp
  then have fs: "files s1 = files s" by (simp add: print_def)
  show ?thesis
  proof (cases "all_articles = []")
    case True
    with assms fs show ?thesis by (simp add: main_def print_stderr_def)
  next
    case False
    with assms fs show ?thesis by (simp add: main_def Let_def print_def)
  qed
qed

text \<open>
  The run in which no feed answers, and the run in which one feed answers with three
  entries.
\<close>

theorem main_exit_witness:
  "fst (main env_all_failed io_start) = SystemExit 1
   \<and> exit_code (fst (main env_all_failed io_start)) \<noteq> 0
   \<and> files (snd (main env_all_failed io_start)) OUTPUT_PATH = Some (str ''old page'')
   \<and> fst (main env_one_feed io_start) = Returned
   \<and> exit_code (fst (main env_one_feed io_start)) = 0
   \<and> files (snd (main env_one_feed io_start)) OUTPUT_PATH
       = Some (generate_html [article_new, article_undated, article_old]
                 (str ''2024-05-06 07:08''))"
proof -
  obtain s1 where f1: "fetch_all env_all_failed FEEDS []
      (print (str ''Fetching feeds...'') io_start) = (Inr [], s1)"
    using all_failed_fetch_all by blast
  obtain s2 where f2: "fetch_all env_one_feed FEEDS []
      (print (str ''Fetching feeds...'') io_start)
      = (Inr [article_old, article_undated, article_new], s2)"
    using one_feed_fetch_all by blast
  have t: "strftime_minute (now env_one_feed) = str ''2024-05-06 07:08''"
    by (simp add: env_one_feed_def strftime_minute_def strftime_date_def zero_pad_def
        decimal_eval str_def ch_def)
  from main_exit [OF f1] main_exit [OF f2] t show ?thesis
    by (simp add: sort_three io_start_def)
qed





end
